theory Spec2Isabelle
  imports Main "HOL-Library.Word"
begin

unbundle bit_operations_syntax

section \<open>Error signalling and the header bit reader\<close>

text \<open>
  \<^verbatim>\<open>aom_internal_error(info, code, fmt, ...)\<close> records the code and the message and
  unwinds to the per-frame entry point (the decoder arms the jump buffer before a frame is
  parsed), so every call is a branch that ends the function with that error. A C read
  outside an array has no defined result; the embedding gives it a result of its own,
  \<open>Out_Of_Bounds\<close>, so that no theorem can rest on the value read there.
\<close>

datatype aom_codec_err_t =
  AOM_CODEC_CORRUPT_FRAME | AOM_CODEC_UNSUP_BITSTREAM | AOM_CODEC_MEM_ERROR

datatype error = Internal_Error aom_codec_err_t string | Out_Of_Bounds

definition aom_internal_error :: "aom_codec_err_t \<Rightarrow> string \<Rightarrow> error + 'a" where
  "aom_internal_error code msg = Inl (Internal_Error code msg)"

definition bind :: "error + 'a \<Rightarrow> ('a \<Rightarrow> error + 'b) \<Rightarrow> error + 'b" where
  "bind m f = (case m of Inl e \<Rightarrow> Inl e | Inr x \<Rightarrow> f x)"

lemma bind_cong [fundef_cong]:
  "m = m' \<Longrightarrow> (\<And>x. m' = Inr x \<Longrightarrow> f x = g x) \<Longrightarrow> bind m f = bind m' g"
  by (cases m') (simp_all add: bind_def)

section \<open>Coefficient buffer of a transform unit\<close>

text \<open>
  \<^verbatim>\<open>memset(dqcoeff, 0, (scan_line + 1) * sizeof(dqcoeff[0]))\<close>: the first
  \<open>scan_line + 1\<close> entries become 0, the others stay. A count that is negative or
  larger than the buffer writes outside it.
\<close>

definition memset_dqcoeff :: "int list \<Rightarrow> int \<Rightarrow> error + int list" where
  "memset_dqcoeff dqcoeff n =
     (if n < 0 \<or> int (length dqcoeff) < n then Inl Out_Of_Bounds
      else Inr (replicate (nat n) 0 @ drop (nat n) dqcoeff))"

text \<open>
  \<open>inverse_transform_block\<close> (decodeframe.c, 139-149). The kernel
  \<^verbatim>\<open>av1_inverse_transform_block\<close> is an external collaborator that reads the
  coefficients and adds the residual to the destination pixels; it is the parameter
  \<open>itx\<close>, given the coefficients, the end-of-block position and the pixels.
\<close>

definition inverse_transform_block ::
  "(int list \<Rightarrow> int \<Rightarrow> 'p \<Rightarrow> 'p) \<Rightarrow> int list \<Rightarrow> 'p \<Rightarrow> int \<Rightarrow> int \<Rightarrow> error + (int list \<times> 'p)" where
  "inverse_transform_block itx dqcoeff dst scan_line eob =
     (let dst' = itx dqcoeff eob dst in
      bind (memset_dqcoeff dqcoeff (scan_line + 1)) (\<lambda>dqcoeff'. Inr (dqcoeff', dst')))"

text \<open>
  \<open>predict_and_reconstruct_intra_block\<close> (decodeframe.c, 151-187), the part that
  touches the coefficient buffer and the pixels. \<open>predict\<close> is
  \<^verbatim>\<open>av1_predict_intra_block_facade\<close>; \<open>read_coeffs\<close> is
  \<^verbatim>\<open>av1_read_coeffs_txb_facade\<close>, which consumes the reader \<open>r\<close>, writes the
  dequantised coefficients and gives \<open>max_scan_line\<close> and \<open>eob\<close>.
\<close>

definition predict_and_reconstruct_intra_block ::
  "('p \<Rightarrow> 'p) \<Rightarrow> ('r \<Rightarrow> int list \<Rightarrow> 'r \<times> int list \<times> int \<times> int) \<Rightarrow>
   (int list \<Rightarrow> int \<Rightarrow> 'p \<Rightarrow> 'p) \<Rightarrow> bool \<Rightarrow> 'r \<Rightarrow> int list \<Rightarrow> 'p \<Rightarrow>
   error + ('r \<times> int list \<times> 'p)" where
  "predict_and_reconstruct_intra_block predict read_coeffs itx skip r dqcoeff dst =
     (let dst1 = predict dst in
      if \<not> skip then
        (case read_coeffs r dqcoeff of (r', dqcoeff1, max_scan_line, eob) \<Rightarrow>
           if eob \<noteq> 0 then
             bind (inverse_transform_block itx dqcoeff1 dst1 max_scan_line eob)
               (\<lambda>(dqcoeff2, dst2). Inr (r', dqcoeff2, dst2))
           else Inr (r', dqcoeff1, dst1))
      else Inr (r, dqcoeff, dst1))"

section \<open>The bit reader of the uncompressed header\<close>

text \<open>
  Modelled from the spec: the bit reader (\<^verbatim>\<open>aom_dsp/bitreader_buffer.h\<close>) is an
  external collaborator outside src/, "fixed-size buffer reader, big-endian bit order,
  supports reading N-bit literals". The buffer is the list of the bits not yet read. At
  the end of the buffer the reader calls the handler installed by
  \<^verbatim>\<open>av1_init_read_bit_buffer\<close>, which is \<open>error_handler\<close> of decodeframe.c
  (2015-2018): CORRUPT_FRAME, "Truncated packet".
\<close>

type_synonym aom_read_bit_buffer = "bool list"

definition error_handler :: "error + 'a" where
  "error_handler = aom_internal_error AOM_CODEC_CORRUPT_FRAME ''Truncated packet''"

definition aom_rb_read_bit :: "aom_read_bit_buffer \<Rightarrow> error + (int \<times> aom_read_bit_buffer)" where
  "aom_rb_read_bit rb =
     (case rb of [] \<Rightarrow> error_handler | b # rb' \<Rightarrow> Inr (if b then 1 else 0, rb'))"

fun aom_rb_read_literal ::
  "aom_read_bit_buffer \<Rightarrow> nat \<Rightarrow> error + (int \<times> aom_read_bit_buffer)" where
  "aom_rb_read_literal rb 0 = Inr (0, rb)"
| "aom_rb_read_literal rb (Suc n) =
     bind (aom_rb_read_bit rb) (\<lambda>(b, rb1).
       bind (aom_rb_read_literal rb1 n) (\<lambda>(v, rb2). Inr (b * 2 ^ n + v, rb2)))"

text \<open>A C array read \<open>a[i]\<close>: outside the array there is no defined value.\<close>

definition array_read :: "'a list \<Rightarrow> int \<Rightarrow> error + 'a" where
  "array_read a i = (if 0 \<le> i \<and> i < int (length a) then Inr (a ! nat i) else Inl Out_Of_Bounds)"

section \<open>Film grain parameters\<close>

text \<open>
  \<open>aom_film_grain_t\<close>, with the fields \<open>av1_read_film_grain_params\<close> writes. The
  scaling points are arrays of pairs, \<open>[14][2]\<close> for luma and \<open>[10][2]\<close> for chroma; the
  auto-regression coefficients are arrays of 24 and 25 entries.
\<close>

record aom_film_grain_t =
  apply_grain :: int
  update_parameters :: int
  scaling_points_y :: "(int \<times> int) list"
  num_y_points :: int
  scaling_points_cb :: "(int \<times> int) list"
  num_cb_points :: int
  scaling_points_cr :: "(int \<times> int) list"
  num_cr_points :: int
  scaling_shift :: int
  ar_coeff_lag :: int
  ar_coeffs_y :: "int list"
  ar_coeffs_cb :: "int list"
  ar_coeffs_cr :: "int list"
  ar_coeff_shift :: int
  cb_mult :: int
  cb_luma_mult :: int
  cb_offset :: int
  cr_mult :: int
  cr_luma_mult :: int
  cr_offset :: int
  overlap_flag :: int
  clip_to_restricted_range :: int
  fg_bit_depth :: int
  chroma_scaling_from_luma :: int
  grain_scale_shift :: int
  random_seed :: int

text \<open>\<^verbatim>\<open>memset(pars, 0, sizeof(*pars))\<close>\<close>

definition film_grain_zero :: aom_film_grain_t where
  "film_grain_zero =
     \<lparr>apply_grain = 0, update_parameters = 0,
      scaling_points_y = replicate 14 (0, 0), num_y_points = 0,
      scaling_points_cb = replicate 10 (0, 0), num_cb_points = 0,
      scaling_points_cr = replicate 10 (0, 0), num_cr_points = 0,
      scaling_shift = 0, ar_coeff_lag = 0,
      ar_coeffs_y = replicate 24 0, ar_coeffs_cb = replicate 25 0,
      ar_coeffs_cr = replicate 25 0, ar_coeff_shift = 0,
      cb_mult = 0, cb_luma_mult = 0, cb_offset = 0,
      cr_mult = 0, cr_luma_mult = 0, cr_offset = 0,
      overlap_flag = 0, clip_to_restricted_range = 0, fg_bit_depth = 0,
      chroma_scaling_from_luma = 0, grain_scale_shift = 0, random_seed = 0\<rparr>"

datatype FRAME_TYPE = KEY_FRAME | INTER_FRAME | INTRA_ONLY_FRAME | S_FRAME

text \<open>
  What \<open>av1_read_film_grain_params\<close> reads of \<open>AV1_COMMON\<close>: the frame type, the
  reference slot table, the pool's frame buffers (each with the flag and the parameters
  saved with it), the chroma format, and the parameter set it writes.
\<close>

record RefCntBuffer_fg =
  film_grain_params_present :: int
  film_grain_params :: aom_film_grain_t

record film_grain_cm =
  fg_frame_type :: FRAME_TYPE
  fg_ref_frame_map :: "int list"
  fg_frame_bufs :: "RefCntBuffer_fg list"
  fg_monochrome :: int
  fg_subsampling_x :: int
  fg_subsampling_y :: int
  cm_film_grain_params :: aom_film_grain_t

text \<open>
  The loop over the points of one scaling function (2066-2073, 2089-2097, 2104-2112):
  \<open>i\<close> is the loop index, \<open>k\<close> the number of iterations left.
\<close>

fun read_scaling_points ::
  "string \<Rightarrow> aom_read_bit_buffer \<Rightarrow> (int \<times> int) list \<Rightarrow> nat \<Rightarrow> nat \<Rightarrow>
   error + ((int \<times> int) list \<times> aom_read_bit_buffer)" where
  "read_scaling_points msg rb pts i 0 = Inr (pts, rb)"
| "read_scaling_points msg rb pts i (Suc k) =
     bind (aom_rb_read_literal rb 8) (\<lambda>(x, rb1).
       if length pts \<le> i then Inl Out_Of_Bounds
       else
         let pts1 = pts[i := (x, snd (pts ! i))] in
         if i \<noteq> 0 \<and> fst (pts1 ! (i - 1)) \<ge> fst (pts1 ! i)
         then aom_internal_error AOM_CODEC_UNSUP_BITSTREAM msg
         else
           bind (aom_rb_read_literal rb1 8) (\<lambda>(y, rb2).
             read_scaling_points msg rb2 (pts1[i := (x, y)]) (Suc i) k))"

text \<open>The loops over the auto-regression coefficients (2134-2144).\<close>

fun read_ar_coeffs ::
  "aom_read_bit_buffer \<Rightarrow> int list \<Rightarrow> nat \<Rightarrow> nat \<Rightarrow> error + (int list \<times> aom_read_bit_buffer)" where
  "read_ar_coeffs rb cs i 0 = Inr (cs, rb)"
| "read_ar_coeffs rb cs i (Suc k) =
     bind (aom_rb_read_literal rb 8) (\<lambda>(v, rb1).
       if length cs \<le> i then Inl Out_Of_Bounds
       else read_ar_coeffs rb1 (cs[i := v - 128]) (Suc i) k)"

text \<open>
  \<open>av1_read_film_grain_params\<close>, lines 2060-2165: the parameters signalled afresh,
  in the order of the source: luma scaling points (2061-2073), the chroma-from-luma flag
  (2075-2076), chroma scaling points (2078-2120), the shifts and auto-regression
  coefficients (2122-2148), the chroma multipliers (2150-2160), the last two flags
  (2162-2164).
\<close>

definition read_luma_points ::
  "aom_film_grain_t \<Rightarrow> aom_read_bit_buffer \<Rightarrow> error + (aom_film_grain_t \<times> aom_read_bit_buffer)" where
  "read_luma_points pars rb =
   bind (aom_rb_read_literal rb 4) (\<lambda>(ny, rb1).
     if ny > 14 then aom_internal_error AOM_CODEC_UNSUP_BITSTREAM
       ''Number of points for film grain luma scaling function exceeds the maximum value.''
     else
       bind (read_scaling_points
          ''First coordinateg of the scaling function points shall be increasing.''
          rb1 (scaling_points_y pars) 0 (nat ny))
         (\<lambda>(py, rb2). Inr (pars\<lparr>num_y_points := ny, scaling_points_y := py\<rparr>, rb2)))"

definition read_chroma_from_luma ::
  "film_grain_cm \<Rightarrow> aom_film_grain_t \<Rightarrow> aom_read_bit_buffer \<Rightarrow>
   error + (aom_film_grain_t \<times> aom_read_bit_buffer)" where
  "read_chroma_from_luma cm pars rb =
     (if fg_monochrome cm = 0
      then bind (aom_rb_read_bit rb) (\<lambda>(b, rb1). Inr (pars\<lparr>chroma_scaling_from_luma := b\<rparr>, rb1))
      else Inr (pars, rb))"

definition read_cb_points ::
  "aom_film_grain_t \<Rightarrow> aom_read_bit_buffer \<Rightarrow> error + (aom_film_grain_t \<times> aom_read_bit_buffer)" where
  "read_cb_points pars rb =
   bind (aom_rb_read_literal rb 4) (\<lambda>(ncb, rb1).
     if ncb > 10 then aom_internal_error AOM_CODEC_UNSUP_BITSTREAM
       ''Number of points for film grain cb scaling function exceeds the maximum value.''
     else
       bind (read_scaling_points
          ''First coordinate of the scaling function points shall be increasing.''
          rb1 (scaling_points_cb pars) 0 (nat ncb))
         (\<lambda>(pcb, rb2). Inr (pars\<lparr>num_cb_points := ncb, scaling_points_cb := pcb\<rparr>, rb2)))"

definition read_cr_points ::
  "aom_film_grain_t \<Rightarrow> aom_read_bit_buffer \<Rightarrow> error + (aom_film_grain_t \<times> aom_read_bit_buffer)" where
  "read_cr_points pars rb =
   bind (aom_rb_read_literal rb 4) (\<lambda>(ncr, rb1).
     if ncr > 10 then aom_internal_error AOM_CODEC_UNSUP_BITSTREAM
       ''Number of points for film grain cr scaling function exceeds the maximum value.''
     else
       bind (read_scaling_points
          ''First coordinate of the scaling function points shall be increasing.''
          rb1 (scaling_points_cr pars) 0 (nat ncr))
         (\<lambda>(pcr, rb2). Inr (pars\<lparr>num_cr_points := ncr, scaling_points_cr := pcr\<rparr>, rb2)))"

definition read_chroma_points ::
  "film_grain_cm \<Rightarrow> aom_film_grain_t \<Rightarrow> aom_read_bit_buffer \<Rightarrow>
   error + (aom_film_grain_t \<times> aom_read_bit_buffer)" where
  "read_chroma_points cm pars rb =
     (if fg_monochrome cm \<noteq> 0 \<or> chroma_scaling_from_luma pars \<noteq> 0 \<or>
         (fg_subsampling_x cm = 1 \<and> fg_subsampling_y cm = 1 \<and> num_y_points pars = 0)
      then Inr (pars\<lparr>num_cb_points := 0, num_cr_points := 0\<rparr>, rb)
      else
        bind (read_cb_points pars rb) (\<lambda>(pars1, rb1).
        bind (read_cr_points pars1 rb1) (\<lambda>(pars2, rb2).
          if fg_subsampling_x cm = 1 \<and> fg_subsampling_y cm = 1 \<and>
             ((num_cb_points pars2 = 0 \<and> num_cr_points pars2 \<noteq> 0) \<or>
              (num_cb_points pars2 \<noteq> 0 \<and> num_cr_points pars2 = 0))
          then aom_internal_error AOM_CODEC_UNSUP_BITSTREAM
            ''In YCbCr 4:2:0, film grain shall be applied to both chroma components or neither.''
          else Inr (pars2, rb2))))"

definition read_ar_section ::
  "aom_film_grain_t \<Rightarrow> aom_read_bit_buffer \<Rightarrow> error + (aom_film_grain_t \<times> aom_read_bit_buffer)" where
  "read_ar_section pars rb =
   bind (aom_rb_read_literal rb 2) (\<lambda>(sh, rb1).
   bind (aom_rb_read_literal rb1 2) (\<lambda>(lag, rb2).
   let pars1 = pars\<lparr>scaling_shift := sh + 8, ar_coeff_lag := lag\<rparr>;
       num_pos_luma = 2 * lag * (lag + 1);
       num_pos_chroma = (if num_y_points pars1 > 0 then num_pos_luma + 1 else num_pos_luma)
   in
   bind (if num_y_points pars1 \<noteq> 0
         then bind (read_ar_coeffs rb2 (ar_coeffs_y pars1) 0 (nat num_pos_luma))
                (\<lambda>(cs, rb3). Inr (pars1\<lparr>ar_coeffs_y := cs\<rparr>, rb3))
         else Inr (pars1, rb2)) (\<lambda>(pars2, rb3).
   bind (if num_cb_points pars2 \<noteq> 0 \<or> chroma_scaling_from_luma pars2 \<noteq> 0
         then bind (read_ar_coeffs rb3 (ar_coeffs_cb pars2) 0 (nat num_pos_chroma))
                (\<lambda>(cs, rb4). Inr (pars2\<lparr>ar_coeffs_cb := cs\<rparr>, rb4))
         else Inr (pars2, rb3)) (\<lambda>(pars3, rb4).
   bind (if num_cr_points pars3 \<noteq> 0 \<or> chroma_scaling_from_luma pars3 \<noteq> 0
         then bind (read_ar_coeffs rb4 (ar_coeffs_cr pars3) 0 (nat num_pos_chroma))
                (\<lambda>(cs, rb5). Inr (pars3\<lparr>ar_coeffs_cr := cs\<rparr>, rb5))
         else Inr (pars3, rb4)) (\<lambda>(pars4, rb5).
   bind (aom_rb_read_literal rb5 2) (\<lambda>(ash, rb6).
   bind (aom_rb_read_literal rb6 2) (\<lambda>(gs, rb7).
     Inr (pars4\<lparr>ar_coeff_shift := ash + 6, grain_scale_shift := gs\<rparr>, rb7))))))))"

definition read_chroma_mults ::
  "aom_film_grain_t \<Rightarrow> aom_read_bit_buffer \<Rightarrow> error + (aom_film_grain_t \<times> aom_read_bit_buffer)" where
  "read_chroma_mults pars rb =
   bind (if num_cb_points pars \<noteq> 0
         then bind (aom_rb_read_literal rb 8) (\<lambda>(m, rb1).
              bind (aom_rb_read_literal rb1 8) (\<lambda>(lm, rb2).
              bind (aom_rb_read_literal rb2 9) (\<lambda>(off, rb3).
                Inr (pars\<lparr>cb_mult := m, cb_luma_mult := lm, cb_offset := off\<rparr>, rb3))))
         else Inr (pars, rb)) (\<lambda>(pars1, rb1).
     if num_cr_points pars1 \<noteq> 0
     then bind (aom_rb_read_literal rb1 8) (\<lambda>(m, rb2).
          bind (aom_rb_read_literal rb2 8) (\<lambda>(lm, rb3).
          bind (aom_rb_read_literal rb3 9) (\<lambda>(off, rb4).
            Inr (pars1\<lparr>cr_mult := m, cr_luma_mult := lm, cr_offset := off\<rparr>, rb4))))
     else Inr (pars1, rb1))"

definition read_new_film_grain_params ::
  "film_grain_cm \<Rightarrow> aom_film_grain_t \<Rightarrow> aom_read_bit_buffer \<Rightarrow>
   error + (aom_film_grain_t \<times> aom_read_bit_buffer)" where
  "read_new_film_grain_params cm pars rb =
   bind (read_luma_points pars rb) (\<lambda>(pars1, rb1).
   bind (read_chroma_from_luma cm pars1 rb1) (\<lambda>(pars2, rb2).
   bind (read_chroma_points cm pars2 rb2) (\<lambda>(pars3, rb3).
   bind (read_ar_section pars3 rb3) (\<lambda>(pars4, rb4).
   bind (read_chroma_mults pars4 rb4) (\<lambda>(pars5, rb5).
   bind (aom_rb_read_bit rb5) (\<lambda>(ov, rb6).
   bind (aom_rb_read_bit rb6) (\<lambda>(clip, rb7).
     Inr (pars5\<lparr>overlap_flag := ov, clip_to_restricted_range := clip\<rparr>, rb7))))))))"

text \<open>
  \<open>av1_read_film_grain_params\<close> (decodeframe.c, 2029-2165). The result is the
  parameter set \<open>cm->film_grain_params\<close> and the reader.
\<close>

definition av1_read_film_grain_params ::
  "film_grain_cm \<Rightarrow> aom_read_bit_buffer \<Rightarrow> error + (film_grain_cm \<times> aom_read_bit_buffer)" where
  "av1_read_film_grain_params cm rb =
   bind (aom_rb_read_bit rb) (\<lambda>(ag, rb).
   let pars = (cm_film_grain_params cm)\<lparr>apply_grain := ag\<rparr> in
   if ag = 0 then Inr (cm\<lparr>cm_film_grain_params := film_grain_zero\<rparr>, rb)
   else
   bind (aom_rb_read_literal rb 16) (\<lambda>(seed, rb).
   let pars = pars\<lparr>random_seed := seed\<rparr> in
   bind (if fg_frame_type cm = INTER_FRAME then aom_rb_read_bit rb else Inr (1, rb)) (\<lambda>(up, rb).
   let pars = pars\<lparr>update_parameters := up\<rparr> in
   if up = 0 then
     bind (aom_rb_read_literal rb 3) (\<lambda>(film_grain_params_ref_idx, rb).
     bind (array_read (fg_ref_frame_map cm) film_grain_params_ref_idx) (\<lambda>buf_idx.
     bind (array_read (fg_frame_bufs cm) buf_idx) (\<lambda>buf.
     if film_grain_params_present buf = 0
     then aom_internal_error AOM_CODEC_UNSUP_BITSTREAM
            ''Film grain reference parameters not available''
     else
       let random_seed' = random_seed pars;
           pars = film_grain_params buf;
           pars = pars\<lparr>random_seed := random_seed'\<rparr>
       in Inr (cm\<lparr>cm_film_grain_params := pars\<rparr>, rb))))
   else
     bind (read_new_film_grain_params cm pars rb)
       (\<lambda>(pars, rb). Inr (cm\<lparr>cm_film_grain_params := pars\<rparr>, rb)))))"

section \<open>Global motion parameters\<close>

text \<open>
  \<open>WarpedMotionParams\<close>: the model type, the matrix \<open>wmmat[8]\<close>, the shear terms
  that \<^verbatim>\<open>get_shear_params\<close> derives, and the \<open>invalid\<close> mark.
\<close>

record WarpedMotionParams =
  wmtype :: int
  wmmat :: "int list"
  alpha :: int
  beta :: int
  gamma :: int
  delta :: int
  invalid :: int

text \<open>
  What \<open>read_global_motion_params\<close> and \<open>read_global_motion\<close> take from headers
  outside src/ (\<^verbatim>\<open>av1/common/mv.h\<close>, \<^verbatim>\<open>warped_motion.h\<close>,
  \<^verbatim>\<open>aom_dsp/binary_codes_reader.h\<close>, \<^verbatim>\<open>enums.h\<close>) is a parameter of the
  embedding: the enumerators and macros (those shared with the rest of the header in
  \<open>av1_enums\<close>), \<open>default_warp_params\<close>, the sub-exponential
  reader \<^verbatim>\<open>aom_rb_read_signed_primitive_refsubexpfin(rb, n, k, ref)\<close>, and
  \<^verbatim>\<open>get_shear_params\<close>, which writes the shear terms into the parameters and
  returns 0 when the matrix has no valid shear.
\<close>

record av1_enums =
  LAST_FRAME :: nat
  ALTREF_FRAME :: nat
  REF_FRAMES :: nat
  REF_FRAMES_LOG2 :: nat
  INTER_REFS_PER_FRAME :: nat

record gm_env = av1_enums +
  IDENTITY :: int
  TRANSLATION :: int
  ROTZOOM :: int
  AFFINE :: int
  GLOBAL_TRANS_TYPES :: int
  GLOBAL_TYPE_BITS :: nat
  GM_ALPHA_MAX :: int
  SUBEXPFIN_K :: int
  GM_ALPHA_PREC_DIFF :: nat
  GM_ALPHA_PREC_BITS :: nat
  GM_ALPHA_DECODE_FACTOR :: int
  WARPEDMODEL_PREC_BITS :: nat
  GM_ABS_TRANS_ONLY_BITS :: int
  GM_ABS_TRANS_BITS :: int
  GM_TRANS_ONLY_DECODE_FACTOR :: int
  GM_TRANS_DECODE_FACTOR :: int
  GM_TRANS_ONLY_PREC_DIFF :: int
  GM_TRANS_PREC_DIFF :: int
  default_warp_params :: WarpedMotionParams
  aom_rb_read_signed_primitive_refsubexpfin ::
    "aom_read_bit_buffer \<Rightarrow> int \<Rightarrow> int \<Rightarrow> int \<Rightarrow> error + (int \<times> aom_read_bit_buffer)"
  get_shear_params :: "WarpedMotionParams \<Rightarrow> int \<times> WarpedMotionParams"

text \<open>\<open>x >> k\<close> on a signed value: the arithmetic shift.\<close>

definition shr :: "int \<Rightarrow> nat \<Rightarrow> int" where
  "shr x k = x div 2 ^ k"

text \<open>Lines 2329-2339: the model type.\<close>

definition read_gm_type :: "gm_env \<Rightarrow> aom_read_bit_buffer \<Rightarrow> error + (int \<times> aom_read_bit_buffer)" where
  "read_gm_type E rb =
   bind (aom_rb_read_bit rb) (\<lambda>(type, rb1).
     if type \<noteq> IDENTITY E then
       if GLOBAL_TRANS_TYPES E > 4 then
         bind (aom_rb_read_literal rb1 (GLOBAL_TYPE_BITS E)) (\<lambda>(v, rb2). Inr (type + v, rb2))
       else
         bind (aom_rb_read_bit rb1) (\<lambda>(b, rb2).
           if b \<noteq> 0 then Inr (ROTZOOM E, rb2)
           else bind (aom_rb_read_bit rb2) (\<lambda>(c, rb3).
                  Inr (if c \<noteq> 0 then TRANSLATION E else AFFINE E, rb3)))
     else Inr (type, rb1))"

text \<open>Lines 2344-2355: the rotation and zoom terms.\<close>

definition read_gm_rotzoom ::
  "gm_env \<Rightarrow> int \<Rightarrow> int list \<Rightarrow> int list \<Rightarrow> aom_read_bit_buffer \<Rightarrow>
   error + (int list \<times> aom_read_bit_buffer)" where
  "read_gm_rotzoom E type ref_wmmat mat rb =
     (if type \<ge> ROTZOOM E then
        bind (aom_rb_read_signed_primitive_refsubexpfin E rb (GM_ALPHA_MAX E + 1) (SUBEXPFIN_K E)
                (shr (ref_wmmat ! 2) (GM_ALPHA_PREC_DIFF E) - 2 ^ GM_ALPHA_PREC_BITS E))
          (\<lambda>(v2, rb1).
        bind (aom_rb_read_signed_primitive_refsubexpfin E rb1 (GM_ALPHA_MAX E + 1) (SUBEXPFIN_K E)
                (shr (ref_wmmat ! 3) (GM_ALPHA_PREC_DIFF E)))
          (\<lambda>(v3, rb2).
          Inr (mat[2 := v2 * GM_ALPHA_DECODE_FACTOR E + 2 ^ WARPEDMODEL_PREC_BITS E,
                   3 := v3 * GM_ALPHA_DECODE_FACTOR E], rb2)))
      else Inr (mat, rb))"

text \<open>Lines 2357-2371: the affine terms.\<close>

definition read_gm_affine ::
  "gm_env \<Rightarrow> int \<Rightarrow> int list \<Rightarrow> int list \<Rightarrow> aom_read_bit_buffer \<Rightarrow>
   error + (int list \<times> aom_read_bit_buffer)" where
  "read_gm_affine E type ref_wmmat mat rb =
     (if type \<ge> AFFINE E then
        bind (aom_rb_read_signed_primitive_refsubexpfin E rb (GM_ALPHA_MAX E + 1) (SUBEXPFIN_K E)
                (shr (ref_wmmat ! 4) (GM_ALPHA_PREC_DIFF E)))
          (\<lambda>(v4, rb1).
        bind (aom_rb_read_signed_primitive_refsubexpfin E rb1 (GM_ALPHA_MAX E + 1) (SUBEXPFIN_K E)
                (shr (ref_wmmat ! 5) (GM_ALPHA_PREC_DIFF E) - 2 ^ GM_ALPHA_PREC_BITS E))
          (\<lambda>(v5, rb2).
          Inr (mat[4 := v4 * GM_ALPHA_DECODE_FACTOR E,
                   5 := v5 * GM_ALPHA_DECODE_FACTOR E + 2 ^ WARPEDMODEL_PREC_BITS E], rb2)))
      else Inr (mat[4 := - (mat ! 3), 5 := mat ! 2], rb))"

text \<open>Lines 2373-2391: the translation terms. \<open>nhp\<close> is \<open>!allow_hp\<close>.\<close>

definition read_gm_translation ::
  "gm_env \<Rightarrow> int \<Rightarrow> int \<Rightarrow> int list \<Rightarrow> int list \<Rightarrow> aom_read_bit_buffer \<Rightarrow>
   error + (int list \<times> aom_read_bit_buffer)" where
  "read_gm_translation E type allow_hp ref_wmmat mat rb =
     (if type \<ge> TRANSLATION E then
        let nhp = (if allow_hp = 0 then 1 else 0 :: int);
            trans_bits = (if type = TRANSLATION E then GM_ABS_TRANS_ONLY_BITS E - nhp
                          else GM_ABS_TRANS_BITS E);
            trans_dec_factor = (if type = TRANSLATION E
                                then GM_TRANS_ONLY_DECODE_FACTOR E * 2 ^ nat nhp
                                else GM_TRANS_DECODE_FACTOR E);
            trans_prec_diff = (if type = TRANSLATION E then GM_TRANS_ONLY_PREC_DIFF E + nhp
                               else GM_TRANS_PREC_DIFF E)
        in
        bind (aom_rb_read_signed_primitive_refsubexpfin E rb (2 ^ nat trans_bits + 1) (SUBEXPFIN_K E)
                (shr (ref_wmmat ! 0) (nat trans_prec_diff)))
          (\<lambda>(v0, rb1).
        bind (aom_rb_read_signed_primitive_refsubexpfin E rb1 (2 ^ nat trans_bits + 1) (SUBEXPFIN_K E)
                (shr (ref_wmmat ! 1) (nat trans_prec_diff)))
          (\<lambda>(v1, rb2).
          Inr (mat[0 := v0 * trans_dec_factor, 1 := v1 * trans_dec_factor], rb2)))
      else Inr (mat, rb))"

text \<open>
  \<open>read_global_motion_params\<close> (decodeframe.c, 2325-2399): the value returned (0 when
  \<^verbatim>\<open>get_shear_params\<close> rejects the matrix, else 1), \<open>*params\<close> and the reader.
  \<open>read_gm_matrix\<close> is its part before the shear check (lines 2329-2391): the
  parameters as decoded from the bits.
\<close>

definition read_gm_matrix ::
  "gm_env \<Rightarrow> WarpedMotionParams \<Rightarrow> aom_read_bit_buffer \<Rightarrow> int \<Rightarrow>
   error + (WarpedMotionParams \<times> aom_read_bit_buffer)" where
  "read_gm_matrix E ref_params rb allow_hp =
   bind (read_gm_type E rb) (\<lambda>(type, rb1).
   let params = (default_warp_params E)\<lparr>wmtype := type\<rparr> in
   bind (read_gm_rotzoom E type (wmmat ref_params) (wmmat params) rb1) (\<lambda>(mat1, rb2).
   bind (read_gm_affine E type (wmmat ref_params) mat1 rb2) (\<lambda>(mat2, rb3).
   bind (read_gm_translation E type allow_hp (wmmat ref_params) mat2 rb3) (\<lambda>(mat3, rb4).
     Inr (params\<lparr>wmmat := mat3\<rparr>, rb4)))))"

definition read_global_motion_params ::
  "gm_env \<Rightarrow> WarpedMotionParams \<Rightarrow> aom_read_bit_buffer \<Rightarrow> int \<Rightarrow>
   error + (int \<times> WarpedMotionParams \<times> aom_read_bit_buffer)" where
  "read_global_motion_params E ref_params rb allow_hp =
   bind (read_gm_matrix E ref_params rb allow_hp) (\<lambda>(params1, rb4).
   if wmtype params1 \<le> AFFINE E then
     (case get_shear_params E params1 of (good_shear_params, params2) \<Rightarrow>
        if good_shear_params = 0 then Inr (0, params2, rb4) else Inr (1, params2, rb4))
   else Inr (1, params1, rb4))"

text \<open>
  What \<open>read_global_motion\<close> touches of \<open>AV1_COMMON\<close>: \<open>prev_frame\<close> (its
  \<open>global_motion\<close> array, or \<open>None\<close> for a null pointer), \<open>global_motion\<close>,
  \<open>allow_high_precision_mv\<close> and the \<open>global_motion\<close> array of \<open>cur_frame\<close>.
\<close>

record gm_cm =
  prev_frame_global_motion :: "WarpedMotionParams list option"
  global_motion :: "WarpedMotionParams list"
  allow_high_precision_mv :: int
  cur_frame_global_motion :: "WarpedMotionParams list"

text \<open>One iteration of the loop of \<open>read_global_motion\<close> (2402-2414).\<close>

definition read_global_motion_frame ::
  "gm_env \<Rightarrow> gm_cm \<Rightarrow> aom_read_bit_buffer \<Rightarrow> nat \<Rightarrow> error + (gm_cm \<times> aom_read_bit_buffer)" where
  "read_global_motion_frame E cm rb frame =
   bind (case prev_frame_global_motion cm of
           Some gm \<Rightarrow> array_read gm (int frame)
         | None \<Rightarrow> Inr (default_warp_params E)) (\<lambda>ref_params.
   bind (read_global_motion_params E ref_params rb (allow_high_precision_mv cm))
     (\<lambda>(good_params, params, rb1).
     if length (global_motion cm) \<le> frame then Inl Out_Of_Bounds
     else
       let params1 = (if good_params = 0 then params\<lparr>invalid := 1\<rparr> else params)
       in Inr (cm\<lparr>global_motion := (global_motion cm)[frame := params1]\<rparr>, rb1)))"

text \<open>
  The loop \<^verbatim>\<open>for (frame = LAST_FRAME; frame <= ALTREF_FRAME; ++frame)\<close>, with \<open>k\<close>
  the number of iterations left, and \<open>read_global_motion\<close> (2401-2440).
\<close>

fun read_global_motion_loop ::
  "gm_env \<Rightarrow> gm_cm \<Rightarrow> aom_read_bit_buffer \<Rightarrow> nat \<Rightarrow> nat \<Rightarrow> error + (gm_cm \<times> aom_read_bit_buffer)" where
  "read_global_motion_loop E cm rb frame 0 = Inr (cm, rb)"
| "read_global_motion_loop E cm rb frame (Suc k) =
     bind (read_global_motion_frame E cm rb frame)
       (\<lambda>(cm1, rb1). read_global_motion_loop E cm1 rb1 (Suc frame) k)"

definition read_global_motion ::
  "gm_env \<Rightarrow> gm_cm \<Rightarrow> aom_read_bit_buffer \<Rightarrow> error + (gm_cm \<times> aom_read_bit_buffer)" where
  "read_global_motion E cm rb =
     bind (read_global_motion_loop E cm rb (LAST_FRAME E) (Suc (ALTREF_FRAME E) - LAST_FRAME E))
       (\<lambda>(cm1, rb1). Inr (cm1\<lparr>cur_frame_global_motion := global_motion cm1\<rparr>, rb1))"

text \<open>
  An instance of the parameters, to run \<open>read_global_motion\<close> on a concrete header.
  The enumerators, macros and \<open>default_warp_params\<close> have the values of the AV1 headers.
  \<open>refsubexpfin_sign_magnitude\<close> stands in for the sub-exponential reader: a sign bit
  and a 12-bit magnitude, a value within the range \<open>-GM_ALPHA_MAX .. GM_ALPHA_MAX\<close> the
  reader can deliver. \<open>shear_alpha_beta\<close> stands in for \<^verbatim>\<open>get_shear_params\<close>: it
  derives \<open>alpha\<close> and \<open>beta\<close> from the matrix and rejects it when
  \<open>4 * |alpha| + 7 * |beta|\<close> reaches \<open>1 << WARPEDMODEL_PREC_BITS\<close>.
\<close>

definition refsubexpfin_sign_magnitude ::
  "aom_read_bit_buffer \<Rightarrow> int \<Rightarrow> int \<Rightarrow> int \<Rightarrow> error + (int \<times> aom_read_bit_buffer)" where
  "refsubexpfin_sign_magnitude rb n k r =
     bind (aom_rb_read_bit rb) (\<lambda>(sg, rb1).
     bind (aom_rb_read_literal rb1 12) (\<lambda>(m, rb2). Inr (if sg \<noteq> 0 then - m else m, rb2)))"

definition shear_alpha_beta :: "WarpedMotionParams \<Rightarrow> int \<times> WarpedMotionParams" where
  "shear_alpha_beta p =
     (let a = wmmat p ! 2 - 65536; b = wmmat p ! 3 in
      (if 4 * \<bar>a\<bar> + 7 * \<bar>b\<bar> \<ge> 65536 then 0 else 1, p\<lparr>alpha := a, beta := b\<rparr>))"

definition gm_env_instance :: gm_env where
  "gm_env_instance =
     \<lparr>LAST_FRAME = 1, ALTREF_FRAME = 7, REF_FRAMES = 8, REF_FRAMES_LOG2 = 3,
      INTER_REFS_PER_FRAME = 7,
      IDENTITY = 0, TRANSLATION = 1, ROTZOOM = 2, AFFINE = 3,
      GLOBAL_TRANS_TYPES = 4, GLOBAL_TYPE_BITS = 3,
      GM_ALPHA_MAX = 4096, SUBEXPFIN_K = 3, GM_ALPHA_PREC_DIFF = 1, GM_ALPHA_PREC_BITS = 15,
      GM_ALPHA_DECODE_FACTOR = 2, WARPEDMODEL_PREC_BITS = 16,
      GM_ABS_TRANS_ONLY_BITS = 9, GM_ABS_TRANS_BITS = 12,
      GM_TRANS_ONLY_DECODE_FACTOR = 8192, GM_TRANS_DECODE_FACTOR = 1024,
      GM_TRANS_ONLY_PREC_DIFF = 13, GM_TRANS_PREC_DIFF = 10,
      default_warp_params =
        \<lparr>wmtype = 0, wmmat = [0, 0, 65536, 0, 0, 65536, 0, 0],
         alpha = 0, beta = 0, gamma = 0, delta = 0, invalid = 0\<rparr>,
      aom_rb_read_signed_primitive_refsubexpfin = refsubexpfin_sign_magnitude,
      get_shear_params = shear_alpha_beta\<rparr>"

text \<open>
  A header for seven references, none with a previous frame: the first signals ROTZOOM
  with both matrix residuals 4095 and zero translation, the other six IDENTITY.
\<close>

definition gm_cm_example :: gm_cm where
  "gm_cm_example =
     \<lparr>prev_frame_global_motion = None,
      global_motion = replicate 8 (default_warp_params gm_env_instance),
      allow_high_precision_mv = 1,
      cur_frame_global_motion = replicate 8 (default_warp_params gm_env_instance)\<rparr>"

definition gm_bits_example :: aom_read_bit_buffer where
  "gm_bits_example =
     [True, True] @ (False # replicate 12 True) @ (False # replicate 12 True) @
     replicate 13 False @ replicate 13 False @ replicate 6 False"

definition gm_rotzoom_example :: WarpedMotionParams where
  "gm_rotzoom_example =
     \<lparr>wmtype = 2, wmmat = [0, 0, 73726, 8190, - 8190, 73726, 0, 0],
      alpha = 0, beta = 0, gamma = 0, delta = 0, invalid = 0\<rparr>"

section \<open>Reference selection and the refresh mask in the uncompressed header\<close>

text \<open>
  The fields of \<open>AV1_COMMON\<close> and \<open>AV1Decoder\<close> that the reference part of
  \<open>read_uncompressed_header\<close> reads and writes. A \<open>RefBuffer\<close> is \<open>frame_refs[i]\<close>:
  its \<open>buf\<close> pointer is \<open>&frame_bufs[idx].buf\<close>, so \<open>idx\<close> stands for both.
  \<open>ref_count\<close> lists \<open>frame_bufs[b].ref_count\<close> of the pool.
\<close>

record RefBuffer =
  idx :: int
  map_idx :: int

record ref_cm =
  frame_type :: FRAME_TYPE
  enable_order_hint :: int
  frame_id_numbers_present_flag :: int
  frame_id_length :: int
  delta_frame_id_length :: int
  current_frame_id :: int
  ref_frame_id :: "int list"
  valid_for_referencing :: "int list"
  ref_frame_map :: "int list"
  next_ref_frame_map :: "int list"
  new_fb_idx :: int
  ref_count :: "int list"
  frame_refs :: "RefBuffer list"
  frame_refs_short_signaling :: int
  ref_frame_sign_bias :: "int list"
  is_reference_frame :: int
  refresh_frame_flags :: int

text \<open>
  Modelled from the spec: \<^verbatim>\<open>frame_is_sframe\<close> is an inline function of
  \<^verbatim>\<open>av1/common/onyxc_int.h\<close>, outside src/; an S-frame is the frame type that
  refreshes every slot and forces error resilience.
\<close>

definition frame_is_sframe :: "ref_cm \<Rightarrow> bool" where
  "frame_is_sframe cm \<longleftrightarrow> frame_type cm = S_FRAME"

text \<open>A C array write \<open>a[i] = v\<close>.\<close>

definition array_write :: "'a list \<Rightarrow> int \<Rightarrow> 'a \<Rightarrow> error + 'a list" where
  "array_write a i v =
     (if 0 \<le> i \<and> i < int (length a) then Inr (a[nat i := v]) else Inl Out_Of_Bounds)"

text \<open>C's \<open>%\<close>, which truncates towards zero.\<close>

definition c_rem :: "int \<Rightarrow> int \<Rightarrow> int" where
  "c_rem a b = sgn a * (\<bar>a\<bar> mod \<bar>b\<bar>)"

text \<open>
  Lines 2743-2766: short signalling of LAST and GOLDEN. \<^verbatim>\<open>av1_set_frame_refs\<close>
  (\<^verbatim>\<open>av1/common/mvref_common.c\<close>, outside src/) derives all of \<open>frame_refs\<close> from
  the two slots, or raises an error; it is the parameter \<open>set_frame_refs\<close>, which gives
  the new \<open>frame_refs\<close>.
\<close>

definition read_short_signaling ::
  "av1_enums \<Rightarrow> (ref_cm \<Rightarrow> int \<Rightarrow> int \<Rightarrow> error + RefBuffer list) \<Rightarrow> ref_cm \<Rightarrow>
   aom_read_bit_buffer \<Rightarrow>
   error + (ref_cm \<times> aom_read_bit_buffer)" where
  "read_short_signaling K set_frame_refs cm rb =
   bind (aom_rb_read_literal rb (REF_FRAMES_LOG2 K)) (\<lambda>(lst_ref, rb1).
   bind (array_read (ref_frame_map cm) lst_ref) (\<lambda>lst_idx.
   bind (aom_rb_read_literal rb1 (REF_FRAMES_LOG2 K)) (\<lambda>(gld_ref, rb2).
   bind (array_read (ref_frame_map cm) gld_ref) (\<lambda>gld_idx.
     if lst_idx = - 1
     then aom_internal_error AOM_CODEC_CORRUPT_FRAME
            ''Inter frame requests nonexistent reference''
     else if gld_idx = - 1
     then aom_internal_error AOM_CODEC_CORRUPT_FRAME
            ''Inter frame requests nonexistent reference''
     else bind (set_frame_refs cm lst_ref gld_ref)
            (\<lambda>refs. Inr (cm\<lparr>frame_refs := refs\<rparr>, rb2))))))"

text \<open>Lines 2769-2790: the slot of reference \<open>i\<close>, read or taken from \<open>frame_refs\<close>.\<close>

definition read_ref_slot ::
  "av1_enums \<Rightarrow> ref_cm \<Rightarrow> aom_read_bit_buffer \<Rightarrow> nat \<Rightarrow>
   error + (int \<times> ref_cm \<times> aom_read_bit_buffer)" where
  "read_ref_slot K cm rb i =
     (if frame_refs_short_signaling cm = 0 then
        bind (aom_rb_read_literal rb (REF_FRAMES_LOG2 K)) (\<lambda>(ref, rb1).
        bind (array_read (ref_frame_map cm) ref) (\<lambda>idx'.
          if idx' = - 1
          then aom_internal_error AOM_CODEC_CORRUPT_FRAME
                 ''Inter frame requests nonexistent reference''
          else
            bind (array_write (frame_refs cm) (int i) \<lparr>idx = idx', map_idx = ref\<rparr>)
              (\<lambda>refs. Inr (ref, cm\<lparr>frame_refs := refs\<rparr>, rb1))))
      else
        bind (array_read (frame_refs cm) (int i)) (\<lambda>rf. Inr (map_idx rf, cm, rb)))"

text \<open>Lines 2794-2808: the frame id of the reference, when frame ids are signalled.\<close>

definition check_ref_frame_id ::
  "ref_cm \<Rightarrow> aom_read_bit_buffer \<Rightarrow> int \<Rightarrow> error + aom_read_bit_buffer" where
  "check_ref_frame_id cm rb ref =
     (if frame_id_numbers_present_flag cm \<noteq> 0 then
        let frame_id_length' = frame_id_length cm; diff_len = delta_frame_id_length cm in
        bind (aom_rb_read_literal rb (nat diff_len)) (\<lambda>(delta_frame_id_minus1, rb1).
        let ref_frame_id' =
              c_rem (current_frame_id cm - (delta_frame_id_minus1 + 1) + 2 ^ nat frame_id_length')
                    (2 ^ nat frame_id_length') in
        bind (array_read (ref_frame_id cm) ref) (\<lambda>rid.
        bind (array_read (valid_for_referencing cm) ref) (\<lambda>valid.
          if ref_frame_id' \<noteq> rid \<or> valid = 0
          then aom_internal_error AOM_CODEC_CORRUPT_FRAME ''Reference buffer frame ID mismatch''
          else Inr rb1)))
      else Inr rb)"

text \<open>
  The loop \<^verbatim>\<open>for (i = 0; i < INTER_REFS_PER_FRAME; ++i)\<close> of lines 2768-2809, with
  \<open>k\<close> the number of iterations left.
\<close>

fun read_frame_refs_loop ::
  "av1_enums \<Rightarrow> ref_cm \<Rightarrow> aom_read_bit_buffer \<Rightarrow> nat \<Rightarrow> nat \<Rightarrow>
   error + (ref_cm \<times> aom_read_bit_buffer)" where
  "read_frame_refs_loop K cm rb i 0 = Inr (cm, rb)"
| "read_frame_refs_loop K cm rb i (Suc k) =
     bind (read_ref_slot K cm rb i) (\<lambda>(ref, cm1, rb1).
     bind (array_write (ref_frame_sign_bias cm1) (int (LAST_FRAME K + i)) 0) (\<lambda>bias.
     bind (check_ref_frame_id cm1 rb1 ref) (\<lambda>rb2.
       read_frame_refs_loop K (cm1\<lparr>ref_frame_sign_bias := bias\<rparr>) rb2 (Suc i) k)))"

text \<open>
  Lines 2730-2809 of \<open>read_uncompressed_header\<close>: the branch of an inter frame that
  needs no resync, from the refresh mask to the end of the loop over the references.
\<close>

definition read_refresh_flags_and_refs ::
  "av1_enums \<Rightarrow> (ref_cm \<Rightarrow> int \<Rightarrow> int \<Rightarrow> error + RefBuffer list) \<Rightarrow> ref_cm \<Rightarrow>
   aom_read_bit_buffer \<Rightarrow>
   error + (ref_cm \<times> aom_read_bit_buffer)" where
  "read_refresh_flags_and_refs K set_frame_refs cm rb =
   bind (if frame_is_sframe cm then Inr (255, rb) else aom_rb_read_literal rb (REF_FRAMES K))
     (\<lambda>(flags, rb1).
   let cm1 = cm\<lparr>refresh_frame_flags := flags\<rparr>;
       cm2 = (if refresh_frame_flags cm1 = 0 then cm1\<lparr>is_reference_frame := 0\<rparr> else cm1) in
   bind (if enable_order_hint cm2 \<noteq> 0
         then bind (aom_rb_read_bit rb1)
                (\<lambda>(b, rb2). Inr (cm2\<lparr>frame_refs_short_signaling := b\<rparr>, rb2))
         else Inr (cm2, rb1)) (\<lambda>(cm3, rb2).
   bind (if frame_refs_short_signaling cm3 \<noteq> 0
         then read_short_signaling K set_frame_refs cm3 rb2
         else Inr (cm3, rb2)) (\<lambda>(cm4, rb3).
     read_frame_refs_loop K cm4 rb3 0 (INTER_REFS_PER_FRAME K))))"

text \<open>
  Lines 2895-2919, "Generate next_ref_frame_map". \<open>inc_ref_count\<close> is
  \<^verbatim>\<open>++frame_bufs[b].ref_count\<close>. The first loop runs while the mask \<open>msk\<close> is not 0 and
  shifts it right; the second fills the slots that are left.
\<close>

definition inc_ref_count :: "int list \<Rightarrow> int \<Rightarrow> error + int list" where
  "inc_ref_count counts b =
     bind (array_read counts b) (\<lambda>c. array_write counts b (c + 1))"

definition hold_ref :: "int list \<Rightarrow> int list \<Rightarrow> nat \<Rightarrow> error + int list" where
  "hold_ref counts rfm ref_index =
     bind (array_read rfm (int ref_index)) (\<lambda>b.
       if b \<ge> 0 then inc_ref_count counts b else Inr counts)"

function next_ref_frame_map_mask_loop ::
  "int list \<Rightarrow> int \<Rightarrow> int list \<Rightarrow> int list \<Rightarrow> int \<Rightarrow> nat \<Rightarrow>
   error + (int list \<times> int list \<times> nat)" where
  "next_ref_frame_map_mask_loop rfm new_fb next counts msk ref_index =
     (if msk = 0 then Inr (next, counts, ref_index)
      else if length next \<le> ref_index then Inl Out_Of_Bounds
      else
        bind (if msk AND 1 \<noteq> 0
              then bind (inc_ref_count counts new_fb)
                     (\<lambda>counts1. Inr (next[ref_index := new_fb], counts1))
              else bind (array_read rfm (int ref_index))
                     (\<lambda>b. Inr (next[ref_index := b], counts))) (\<lambda>(next1, counts1).
        bind (hold_ref counts1 rfm ref_index) (\<lambda>counts2.
          next_ref_frame_map_mask_loop rfm new_fb next1 counts2 (shr msk 1) (Suc ref_index))))"
  by pat_completeness auto
termination
  by (relation "measure (\<lambda>(rfm, new_fb, next, counts, msk, ref_index). length next - ref_index)")
     (auto simp: bind_def split: if_splits sum.splits)

fun next_ref_frame_map_rest_loop ::
  "int list \<Rightarrow> int list \<Rightarrow> int list \<Rightarrow> nat \<Rightarrow> nat \<Rightarrow> error + (int list \<times> int list)" where
  "next_ref_frame_map_rest_loop rfm next counts ref_index 0 = Inr (next, counts)"
| "next_ref_frame_map_rest_loop rfm next counts ref_index (Suc k) =
     bind (array_read rfm (int ref_index)) (\<lambda>b.
     bind (array_write next (int ref_index) b) (\<lambda>next1.
     bind (hold_ref counts rfm ref_index) (\<lambda>counts1.
       next_ref_frame_map_rest_loop rfm next1 counts1 (Suc ref_index) k)))"

definition generate_next_ref_frame_map :: "av1_enums \<Rightarrow> ref_cm \<Rightarrow> error + ref_cm" where
  "generate_next_ref_frame_map K cm =
   bind (next_ref_frame_map_mask_loop (ref_frame_map cm) (new_fb_idx cm)
           (next_ref_frame_map cm) (ref_count cm) (refresh_frame_flags cm) 0)
     (\<lambda>(next1, counts1, ref_index).
   bind (next_ref_frame_map_rest_loop (ref_frame_map cm) next1 counts1 ref_index
           (REF_FRAMES K - ref_index))
     (\<lambda>(next2, counts2). Inr (cm\<lparr>next_ref_frame_map := next2, ref_count := counts2\<rparr>)))"

text \<open>
  A concrete decoder state for running the reference part of the header: the enumerators
  of AV1, two populated slots (0 and 1) of eight, a pool of four buffers, the new frame in
  buffer 2, no order hints and no frame ids. \<open>keep_frame_refs\<close> stands in for
  \<^verbatim>\<open>av1_set_frame_refs\<close>.
\<close>

definition av1_enums_instance :: av1_enums where
  "av1_enums_instance =
     \<lparr>LAST_FRAME = 1, ALTREF_FRAME = 7, REF_FRAMES = 8, REF_FRAMES_LOG2 = 3,
      INTER_REFS_PER_FRAME = 7\<rparr>"

definition ref_cm_example :: ref_cm where
  "ref_cm_example =
     \<lparr>frame_type = INTER_FRAME, enable_order_hint = 0, frame_id_numbers_present_flag = 0,
      frame_id_length = 0, delta_frame_id_length = 0, current_frame_id = 0,
      ref_frame_id = replicate 8 0, valid_for_referencing = replicate 8 0,
      ref_frame_map = [0, 1, - 1, - 1, - 1, - 1, - 1, - 1],
      next_ref_frame_map = replicate 8 (- 1), new_fb_idx = 2, ref_count = [1, 1, 1, 0],
      frame_refs = replicate 7 \<lparr>idx = - 1, map_idx = 0\<rparr>,
      frame_refs_short_signaling = 0, ref_frame_sign_bias = replicate 8 1,
      is_reference_frame = 1, refresh_frame_flags = 255\<rparr>"

definition keep_frame_refs :: "ref_cm \<Rightarrow> int \<Rightarrow> int \<Rightarrow> error + RefBuffer list" where
  "keep_frame_refs cm lst_ref gld_ref = Inr (frame_refs cm)"

text \<open>
  Header bits: the refresh mask 0, then the slots 0, 1, 0, 1, 0, 1, 0 for the seven
  references.
\<close>

definition ref_bits_example :: aom_read_bit_buffer where
  "ref_bits_example =
     replicate 8 False @
     [False, False, False, False, False, True, False, False, False, False, False, True,
      False, False, False, False, False, True, False, False, False]"

definition ref_cm_example_parsed :: ref_cm where
  "ref_cm_example_parsed =
     ref_cm_example\<lparr>refresh_frame_flags := 0, is_reference_frame := 0,
       frame_refs := [\<lparr>idx = 0, map_idx = 0\<rparr>, \<lparr>idx = 1, map_idx = 1\<rparr>,
                      \<lparr>idx = 0, map_idx = 0\<rparr>, \<lparr>idx = 1, map_idx = 1\<rparr>,
                      \<lparr>idx = 0, map_idx = 0\<rparr>, \<lparr>idx = 1, map_idx = 1\<rparr>,
                      \<lparr>idx = 0, map_idx = 0\<rparr>],
       ref_frame_sign_bias := [1, 0, 0, 0, 0, 0, 0, 0]\<rparr>"

section \<open>Lossless frames: quantiser, loop filter, CDEF, restoration and transform mode\<close>

datatype TX_MODE = ONLY_4X4 | TX_MODE_LARGEST | TX_MODE_SELECT

datatype RestorationType = RESTORE_NONE | RESTORE_WIENER | RESTORE_SGRPROJ | RESTORE_SWITCHABLE

record RestorationInfo =
  frame_restoration_type :: RestorationType
  restoration_unit_size :: int

text \<open>\<open>struct loopfilter\<close>, the fields \<open>setup_loopfilter\<close> writes.\<close>

record loopfilter =
  filter_level :: "int list"
  filter_level_u :: int
  filter_level_v :: int
  sharpness_level :: int
  mode_ref_delta_enabled :: int
  mode_ref_delta_update :: int
  ref_deltas :: "int list"
  mode_deltas :: "int list"

text \<open>
  The fields of \<open>AV1_COMMON\<close> (and \<open>lossless\<close>, \<open>qindex\<close> of \<open>MACROBLOCKD\<close>) that
  lines 2975-3011 of \<open>read_uncompressed_header\<close> and the functions they call read and
  write. \<open>prev_frame_deltas\<close> is \<open>None\<close> for a null \<open>prev_frame\<close>, else its
  \<open>ref_deltas\<close> and \<open>mode_deltas\<close>; \<open>sb_size\<close> is the enumerator's value.
\<close>

record hdr_cm =
  seg_enabled :: int
  base_qindex :: int
  y_dc_delta_q :: int
  u_dc_delta_q :: int
  u_ac_delta_q :: int
  v_dc_delta_q :: int
  v_ac_delta_q :: int
  xd_lossless :: "int list"
  xd_qindex :: "int list"
  coded_lossless :: int
  all_lossless :: int
  lf :: loopfilter
  cur_frame_ref_deltas :: "int list"
  cur_frame_mode_deltas :: "int list"
  prev_frame_deltas :: "(int list \<times> int list) option"
  cdef_pri_damping :: int
  cdef_sec_damping :: int
  cdef_bits :: int
  nb_cdef_strengths :: int
  cdef_strengths :: "int list"
  cdef_uv_strengths :: "int list"
  rst_info :: "RestorationInfo list"
  enable_cdef :: int
  enable_restoration :: int
  sb_size :: int
  allow_intrabc :: int
  monochrome :: int
  subsampling_x :: int
  subsampling_y :: int
  skip_loop_filter :: int
  tx_mode :: TX_MODE

text \<open>
  What these functions take from outside src/ is a parameter: the macros, the default
  loop filter deltas (\<^verbatim>\<open>av1_set_default_ref_deltas\<close>,
  \<^verbatim>\<open>av1_set_default_mode_deltas\<close>), the signed literal of the bit reader,
  \<^verbatim>\<open>av1_get_qindex(&cm->seg, i, base_qindex)\<close> as a function of \<open>i\<close> and the base
  index, and the value of \<^verbatim>\<open>av1_superres_unscaled(cm)\<close>, which compares frame
  widths that are not among the fields of \<open>hdr_cm\<close>.
\<close>

record hdr_env = av1_enums +
  NO_FILTER_FOR_IBC :: int
  MAX_SEGMENTS :: nat
  MAX_MB_PLANE :: int
  MAX_MODE_LF_DELTAS :: nat
  CDEF_STRENGTH_BITS :: nat
  RESTORATION_UNITSIZE_MAX :: int
  BLOCK_128X128 :: int
  default_ref_deltas :: "int list"
  default_mode_deltas :: "int list"
  aom_rb_read_inv_signed_literal ::
    "aom_read_bit_buffer \<Rightarrow> nat \<Rightarrow> error + (int \<times> aom_read_bit_buffer)"
  av1_get_qindex :: "nat \<Rightarrow> int \<Rightarrow> int"
  av1_superres_unscaled :: bool

text \<open>
  Modelled from the spec: \<^verbatim>\<open>av1_num_planes\<close> and \<^verbatim>\<open>is_coded_lossless\<close> are
  inline functions of \<^verbatim>\<open>av1/common/onyxc_int.h\<close>, outside src/. A monochrome
  stream has the luma plane only. A frame is coded lossless when every segment is
  lossless, which is segment 0 alone when segmentation is off ("base_qindex=0 and all
  delta_q=0 must set coded_lossless=true").
\<close>

definition av1_num_planes :: "hdr_env \<Rightarrow> hdr_cm \<Rightarrow> int" where
  "av1_num_planes E cm = (if monochrome cm \<noteq> 0 then 1 else MAX_MB_PLANE E)"

definition is_coded_lossless :: "hdr_env \<Rightarrow> hdr_cm \<Rightarrow> int" where
  "is_coded_lossless E cm =
     (if seg_enabled cm \<noteq> 0
      then (if \<forall>i < MAX_SEGMENTS E. i < length (xd_lossless cm) \<and> xd_lossless cm ! i \<noteq> 0
            then 1 else 0)
      else (if xd_lossless cm \<noteq> [] \<and> xd_lossless cm ! 0 \<noteq> 0 then 1 else 0))"

text \<open>\<open>read_tx_mode\<close> (decodeframe.c, 125-128).\<close>

definition read_tx_mode ::
  "hdr_cm \<Rightarrow> aom_read_bit_buffer \<Rightarrow> error + (TX_MODE \<times> aom_read_bit_buffer)" where
  "read_tx_mode cm rb =
     (if coded_lossless cm \<noteq> 0 then Inr (ONLY_4X4, rb)
      else bind (aom_rb_read_bit rb)
             (\<lambda>(b, rb1). Inr (if b \<noteq> 0 then TX_MODE_SELECT else TX_MODE_LARGEST, rb1)))"

text \<open>
  \<open>read_tx_size\<close> (decodeframe.c, 609-626). The block size, the lookups on it and the
  symbol reader are external; \<open>TX_4X4\<close> is the smallest transform size.
\<close>

definition read_tx_size ::
  "'t \<Rightarrow> ('b \<Rightarrow> bool) \<Rightarrow> ('b \<Rightarrow> bool \<Rightarrow> 'r \<Rightarrow> 't \<times> 'r) \<Rightarrow> ('b \<Rightarrow> TX_MODE \<Rightarrow> 't) \<Rightarrow> ('b \<Rightarrow> 't) \<Rightarrow>
   hdr_cm \<Rightarrow> 'b \<Rightarrow> int \<Rightarrow> bool \<Rightarrow> bool \<Rightarrow> 'r \<Rightarrow> error + ('t \<times> 'r)" where
  "read_tx_size TX_4X4 block_signals_txsize read_selected_tx_size tx_size_from_tx_mode
     get_max_rect_tx_size cm bsize segment_id is_inter allow_select_inter r =
     bind (array_read (xd_lossless cm) segment_id) (\<lambda>ll.
       if ll \<noteq> 0 then Inr (TX_4X4, r)
       else if block_signals_txsize bsize then
         if (\<not> is_inter \<or> allow_select_inter) \<and> tx_mode cm = TX_MODE_SELECT
         then Inr (read_selected_tx_size bsize is_inter r)
         else Inr (tx_size_from_tx_mode bsize (tx_mode cm), r)
       else Inr (get_max_rect_tx_size bsize, r))"

text \<open>
  \<open>setup_loopfilter\<close> (decodeframe.c, 1095-1144), in three parts: the filter levels
  (1113-1121), the delta updates (1125-1139), and the function.
\<close>

definition read_lf_levels ::
  "hdr_env \<Rightarrow> hdr_cm \<Rightarrow> loopfilter \<Rightarrow> aom_read_bit_buffer \<Rightarrow>
   error + (loopfilter \<times> aom_read_bit_buffer)" where
  "read_lf_levels E cm lf0 rb =
   bind (aom_rb_read_literal rb 6) (\<lambda>(l0, rb1).
   bind (aom_rb_read_literal rb1 6) (\<lambda>(l1, rb2).
   let lf1 = lf0\<lparr>filter_level := (filter_level lf0)[0 := l0, 1 := l1]\<rparr> in
   bind (if av1_num_planes E cm > 1 \<and> (l0 \<noteq> 0 \<or> l1 \<noteq> 0)
         then bind (aom_rb_read_literal rb2 6) (\<lambda>(lu, rb3).
              bind (aom_rb_read_literal rb3 6) (\<lambda>(lv, rb4).
                Inr (lf1\<lparr>filter_level_u := lu, filter_level_v := lv\<rparr>, rb4)))
         else Inr (lf1, rb2)) (\<lambda>(lf2, rb5).
   bind (aom_rb_read_literal rb5 3) (\<lambda>(sh, rb6).
     Inr (lf2\<lparr>sharpness_level := sh\<rparr>, rb6)))))"

fun read_lf_delta_array ::
  "hdr_env \<Rightarrow> aom_read_bit_buffer \<Rightarrow> int list \<Rightarrow> nat \<Rightarrow> nat \<Rightarrow>
   error + (int list \<times> aom_read_bit_buffer)" where
  "read_lf_delta_array E rb ds i 0 = Inr (ds, rb)"
| "read_lf_delta_array E rb ds i (Suc k) =
     bind (aom_rb_read_bit rb) (\<lambda>(b, rb1).
       if b \<noteq> 0 then
         bind (aom_rb_read_inv_signed_literal E rb1 6) (\<lambda>(v, rb2).
         bind (array_write ds (int i) v) (\<lambda>ds1. read_lf_delta_array E rb2 ds1 (Suc i) k))
       else read_lf_delta_array E rb1 ds (Suc i) k)"

definition read_lf_deltas ::
  "hdr_env \<Rightarrow> loopfilter \<Rightarrow> aom_read_bit_buffer \<Rightarrow> error + (loopfilter \<times> aom_read_bit_buffer)" where
  "read_lf_deltas E lf0 rb =
   bind (aom_rb_read_bit rb) (\<lambda>(en, rb1).
   let lf1 = lf0\<lparr>mode_ref_delta_update := 0, mode_ref_delta_enabled := en\<rparr> in
   if en \<noteq> 0 then
     bind (aom_rb_read_bit rb1) (\<lambda>(up, rb2).
     let lf2 = lf1\<lparr>mode_ref_delta_update := up\<rparr> in
     if up \<noteq> 0 then
       bind (read_lf_delta_array E rb2 (ref_deltas lf2) 0 (REF_FRAMES E)) (\<lambda>(rd, rb3).
       bind (read_lf_delta_array E rb3 (mode_deltas lf2) 0 (MAX_MODE_LF_DELTAS E)) (\<lambda>(md, rb4).
         Inr (lf2\<lparr>ref_deltas := rd, mode_deltas := md\<rparr>, rb4)))
     else Inr (lf2, rb2))
   else Inr (lf1, rb1))"

definition setup_loopfilter ::
  "hdr_env \<Rightarrow> hdr_cm \<Rightarrow> aom_read_bit_buffer \<Rightarrow> error + (hdr_cm \<times> aom_read_bit_buffer)" where
  "setup_loopfilter E cm rb =
     (if (allow_intrabc cm \<noteq> 0 \<and> NO_FILTER_FOR_IBC E \<noteq> 0) \<or> coded_lossless cm \<noteq> 0 then
        Inr (cm\<lparr>cur_frame_ref_deltas := default_ref_deltas E,
                cur_frame_mode_deltas := default_mode_deltas E\<rparr>, rb)
      else
        let lf0 = (case prev_frame_deltas cm of
                     Some (rd, md) \<Rightarrow> (lf cm)\<lparr>ref_deltas := rd, mode_deltas := md\<rparr>
                   | None \<Rightarrow> (lf cm)\<lparr>ref_deltas := default_ref_deltas E,
                                        mode_deltas := default_mode_deltas E\<rparr>) in
        bind (read_lf_levels E cm lf0 rb) (\<lambda>(lf1, rb1).
        bind (read_lf_deltas E lf1 rb1) (\<lambda>(lf2, rb2).
          Inr (cm\<lparr>lf := lf2, cur_frame_ref_deltas := ref_deltas lf2,
                  cur_frame_mode_deltas := mode_deltas lf2\<rparr>, rb2))))"

text \<open>\<open>setup_cdef\<close> (decodeframe.c, 1146-1157).\<close>

fun read_cdef_strengths ::
  "hdr_env \<Rightarrow> int \<Rightarrow> aom_read_bit_buffer \<Rightarrow> int list \<Rightarrow> int list \<Rightarrow> nat \<Rightarrow> nat \<Rightarrow>
   error + (int list \<times> int list \<times> aom_read_bit_buffer)" where
  "read_cdef_strengths E num_planes rb ys uvs i 0 = Inr (ys, uvs, rb)"
| "read_cdef_strengths E num_planes rb ys uvs i (Suc k) =
     bind (aom_rb_read_literal rb (CDEF_STRENGTH_BITS E)) (\<lambda>(y, rb1).
     bind (array_write ys (int i) y) (\<lambda>ys1.
     bind (if num_planes > 1 then aom_rb_read_literal rb1 (CDEF_STRENGTH_BITS E)
           else Inr (0, rb1)) (\<lambda>(uv, rb2).
     bind (array_write uvs (int i) uv) (\<lambda>uvs1.
       read_cdef_strengths E num_planes rb2 ys1 uvs1 (Suc i) k))))"

definition setup_cdef ::
  "hdr_env \<Rightarrow> hdr_cm \<Rightarrow> aom_read_bit_buffer \<Rightarrow> error + (hdr_cm \<times> aom_read_bit_buffer)" where
  "setup_cdef E cm rb =
     (if allow_intrabc cm \<noteq> 0 \<and> NO_FILTER_FOR_IBC E \<noteq> 0 then Inr (cm, rb)
      else
        bind (aom_rb_read_literal rb 2) (\<lambda>(d, rb1).
        bind (aom_rb_read_literal rb1 2) (\<lambda>(bits, rb2).
        bind (read_cdef_strengths E (av1_num_planes E cm) rb2 (cdef_strengths cm)
                (cdef_uv_strengths cm) 0 (2 ^ nat bits)) (\<lambda>(ys, uvs, rb3).
          Inr (cm\<lparr>cdef_pri_damping := d + 3, cdef_sec_damping := d + 3, cdef_bits := bits,
                  nb_cdef_strengths := 2 ^ nat bits, cdef_strengths := ys,
                  cdef_uv_strengths := uvs\<rparr>, rb3)))))"

text \<open>
  \<open>decode_restoration_mode\<close> (decodeframe.c, 900-954): the loop over the planes that
  reads the frame restoration types (906-919), the loops that set the unit size of the
  first \<open>num_planes\<close> planes (925-926, 938-939), and the function.
\<close>

fun read_restoration_types ::
  "aom_read_bit_buffer \<Rightarrow> RestorationInfo list \<Rightarrow> bool \<Rightarrow> bool \<Rightarrow> nat \<Rightarrow> nat \<Rightarrow>
   error + (RestorationInfo list \<times> bool \<times> bool \<times> aom_read_bit_buffer)" where
  "read_restoration_types rb rst all_none chroma_none p 0 = Inr (rst, all_none, chroma_none, rb)"
| "read_restoration_types rb rst all_none chroma_none p (Suc k) =
     bind (array_read rst (int p)) (\<lambda>rsi.
     bind (aom_rb_read_bit rb) (\<lambda>(b, rb1).
     bind (aom_rb_read_bit rb1) (\<lambda>(c, rb2).
       let ty = (if b \<noteq> 0 then (if c \<noteq> 0 then RESTORE_SGRPROJ else RESTORE_WIENER)
                 else (if c \<noteq> 0 then RESTORE_SWITCHABLE else RESTORE_NONE));
           rst1 = rst[p := rsi\<lparr>frame_restoration_type := ty\<rparr>]
       in if ty \<noteq> RESTORE_NONE
          then read_restoration_types rb2 rst1 False (chroma_none \<and> p = 0) (Suc p) k
          else read_restoration_types rb2 rst1 all_none chroma_none (Suc p) k)))"

fun set_restoration_unit_size ::
  "RestorationInfo list \<Rightarrow> int \<Rightarrow> nat \<Rightarrow> nat \<Rightarrow> error + RestorationInfo list" where
  "set_restoration_unit_size rst sz p 0 = Inr rst"
| "set_restoration_unit_size rst sz p (Suc k) =
     bind (array_read rst (int p)) (\<lambda>rsi.
       set_restoration_unit_size (rst[p := rsi\<lparr>restoration_unit_size := sz\<rparr>]) sz (Suc p) k)"

definition read_luma_unit_size ::
  "hdr_env \<Rightarrow> hdr_cm \<Rightarrow> RestorationInfo list \<Rightarrow> bool \<Rightarrow> int \<Rightarrow> aom_read_bit_buffer \<Rightarrow>
   error + (RestorationInfo list \<times> aom_read_bit_buffer)" where
  "read_luma_unit_size E cm rst all_none num_planes rb =
     (if \<not> all_none then
        let sb = (if sb_size cm = BLOCK_128X128 E then 128 else 64 :: int) in
        bind (set_restoration_unit_size rst sb 0 (nat num_planes)) (\<lambda>rst1.
        bind (array_read rst1 0) (\<lambda>rsi.
        bind (if sb = 64
              then bind (aom_rb_read_bit rb) (\<lambda>(b, rb1).
                     Inr (rsi\<lparr>restoration_unit_size := restoration_unit_size rsi * 2 ^ nat b\<rparr>, rb1))
              else Inr (rsi, rb)) (\<lambda>(rsi1, rb1).
        bind (if restoration_unit_size rsi1 > 64
              then bind (aom_rb_read_bit rb1) (\<lambda>(b, rb2).
                     Inr (rsi1\<lparr>restoration_unit_size := restoration_unit_size rsi1 * 2 ^ nat b\<rparr>, rb2))
              else Inr (rsi1, rb1)) (\<lambda>(rsi2, rb2). Inr (rst1[0 := rsi2], rb2)))))
      else
        bind (set_restoration_unit_size rst (RESTORATION_UNITSIZE_MAX E) 0 (nat num_planes))
          (\<lambda>rst1. Inr (rst1, rb)))"

definition read_chroma_unit_size ::
  "hdr_cm \<Rightarrow> RestorationInfo list \<Rightarrow> bool \<Rightarrow> int \<Rightarrow> aom_read_bit_buffer \<Rightarrow>
   error + (RestorationInfo list \<times> aom_read_bit_buffer)" where
  "read_chroma_unit_size cm rst chroma_none num_planes rb =
     (if num_planes > 1 then
        let s = min (subsampling_x cm) (subsampling_y cm) in
        bind (array_read rst 0) (\<lambda>r0.
        bind (array_read rst 1) (\<lambda>r1.
        bind (array_read rst 2) (\<lambda>r2.
        bind (if s \<noteq> 0 \<and> \<not> chroma_none
              then bind (aom_rb_read_bit rb) (\<lambda>(b, rb1).
                     Inr (shr (restoration_unit_size r0) (nat (b * s)), rb1))
              else Inr (restoration_unit_size r0, rb)) (\<lambda>(sz, rb1).
          Inr (rst[1 := r1\<lparr>restoration_unit_size := sz\<rparr>,
                   2 := r2\<lparr>restoration_unit_size := sz\<rparr>], rb1)))))
      else Inr (rst, rb))"

definition decode_restoration_mode ::
  "hdr_env \<Rightarrow> hdr_cm \<Rightarrow> aom_read_bit_buffer \<Rightarrow> error + (hdr_cm \<times> aom_read_bit_buffer)" where
  "decode_restoration_mode E cm rb =
     (let num_planes = av1_num_planes E cm in
      if allow_intrabc cm \<noteq> 0 \<and> NO_FILTER_FOR_IBC E \<noteq> 0 then Inr (cm, rb)
      else
        bind (read_restoration_types rb (rst_info cm) True True 0 (nat num_planes))
          (\<lambda>(rst1, all_none, chroma_none, rb1).
        bind (read_luma_unit_size E cm rst1 all_none num_planes rb1) (\<lambda>(rst2, rb2).
        bind (read_chroma_unit_size cm rst2 chroma_none num_planes rb2) (\<lambda>(rst3, rb3).
          Inr (cm\<lparr>rst_info := rst3\<rparr>, rb3)))))"

text \<open>
  Lines 2975-3011 of \<open>read_uncompressed_header\<close>: the lossless flag and the quantiser
  index of every segment, \<open>coded_lossless\<close> and \<open>all_lossless\<close>, the filter parameters
  forced by them, then the loop filter, CDEF and restoration syntax and the transform
  mode. \<open>setup_segmentation_dequant\<close> (1198-1234), called in between, writes the
  dequantiser tables and matrices only, which are not among the fields of \<open>hdr_cm\<close>.
\<close>

definition segment_qindex :: "hdr_env \<Rightarrow> hdr_cm \<Rightarrow> nat \<Rightarrow> int" where
  "segment_qindex E cm i =
     (if seg_enabled cm \<noteq> 0 then av1_get_qindex E i (base_qindex cm) else base_qindex cm)"

definition segment_lossless :: "hdr_env \<Rightarrow> hdr_cm \<Rightarrow> nat \<Rightarrow> int" where
  "segment_lossless E cm i =
     (if segment_qindex E cm i = 0 \<and> y_dc_delta_q cm = 0 \<and> u_dc_delta_q cm = 0 \<and>
         u_ac_delta_q cm = 0 \<and> v_dc_delta_q cm = 0 \<and> v_ac_delta_q cm = 0
      then 1 else 0)"

definition set_rst_none :: "RestorationInfo list \<Rightarrow> RestorationInfo list" where
  "set_rst_none rst =
     rst[0 := (rst ! 0)\<lparr>frame_restoration_type := RESTORE_NONE\<rparr>,
         1 := (rst ! 1)\<lparr>frame_restoration_type := RESTORE_NONE\<rparr>,
         2 := (rst ! 2)\<lparr>frame_restoration_type := RESTORE_NONE\<rparr>]"

definition setup_lossless_and_filters ::
  "hdr_env \<Rightarrow> hdr_cm \<Rightarrow> aom_read_bit_buffer \<Rightarrow> error + (hdr_cm \<times> aom_read_bit_buffer)" where
  "setup_lossless_and_filters E cm rb =
     (let cm1 = cm\<lparr>xd_lossless := map (segment_lossless E cm) [0..<MAX_SEGMENTS E],
                    xd_qindex := map (segment_qindex E cm) [0..<MAX_SEGMENTS E]\<rparr>;
          cm2 = cm1\<lparr>coded_lossless := is_coded_lossless E cm1\<rparr>;
          cm3 = cm2\<lparr>all_lossless :=
                  (if coded_lossless cm2 \<noteq> 0 \<and> av1_superres_unscaled E then 1 else 0)\<rparr>;
          cm4 = (if coded_lossless cm3 \<noteq> 0
                 then cm3\<lparr>lf := (lf cm3)\<lparr>filter_level := (filter_level (lf cm3))[0 := 0, 1 := 0]\<rparr>\<rparr>
                 else cm3);
          cm5 = (if coded_lossless cm4 \<noteq> 0 \<or> enable_cdef cm4 = 0
                 then cm4\<lparr>cdef_bits := 0, cdef_strengths := (cdef_strengths cm4)[0 := 0],
                          cdef_uv_strengths := (cdef_uv_strengths cm4)[0 := 0]\<rparr>
                 else cm4);
          cm6 = (if all_lossless cm5 \<noteq> 0 \<or> enable_restoration cm5 = 0
                 then cm5\<lparr>rst_info := set_rst_none (rst_info cm5)\<rparr>
                 else cm5)
      in
      bind (setup_loopfilter E cm6 rb) (\<lambda>(cm7, rb1).
      bind (if coded_lossless cm7 = 0 \<and> enable_cdef cm7 \<noteq> 0
            then setup_cdef E cm7 rb1 else Inr (cm7, rb1)) (\<lambda>(cm8, rb2).
      bind (if all_lossless cm8 = 0 \<and> enable_restoration cm8 \<noteq> 0
            then decode_restoration_mode E cm8 rb2 else Inr (cm8, rb2)) (\<lambda>(cm9, rb3).
      bind (read_tx_mode cm9 rb3) (\<lambda>(m, rb4). Inr (cm9\<lparr>tx_mode := m\<rparr>, rb4))))))"

text \<open>
  The conditions under which the post filters run: \<open>decode_tiles\<close> calls
  \<^verbatim>\<open>av1_loop_filter_frame\<close> (1983-1999), \<open>av1_decode_tg_tiles_and_wrapup\<close> calls
  \<^verbatim>\<open>av1_cdef_frame\<close> (3251-3261) and the loop restoration (3251, 3265-3270).
\<close>

definition deblocking_runs :: "hdr_env \<Rightarrow> hdr_cm \<Rightarrow> bool" where
  "deblocking_runs E cm \<longleftrightarrow>
     \<not> (allow_intrabc cm \<noteq> 0 \<and> NO_FILTER_FOR_IBC E \<noteq> 0) \<and>
     (filter_level (lf cm) ! 0 \<noteq> 0 \<or> filter_level (lf cm) ! 1 \<noteq> 0)"

definition cdef_runs :: "hdr_env \<Rightarrow> hdr_cm \<Rightarrow> bool" where
  "cdef_runs E cm \<longleftrightarrow>
     \<not> (allow_intrabc cm \<noteq> 0 \<and> NO_FILTER_FOR_IBC E \<noteq> 0) \<and>
     skip_loop_filter cm = 0 \<and> coded_lossless cm = 0 \<and>
     (cdef_bits cm \<noteq> 0 \<or> cdef_strengths cm ! 0 \<noteq> 0 \<or> cdef_uv_strengths cm ! 0 \<noteq> 0)"

definition loop_restoration_runs :: "hdr_env \<Rightarrow> hdr_cm \<Rightarrow> bool" where
  "loop_restoration_runs E cm \<longleftrightarrow>
     \<not> (allow_intrabc cm \<noteq> 0 \<and> NO_FILTER_FOR_IBC E \<noteq> 0) \<and>
     (frame_restoration_type (rst_info cm ! 0) \<noteq> RESTORE_NONE \<or>
      frame_restoration_type (rst_info cm ! 1) \<noteq> RESTORE_NONE \<or>
      frame_restoration_type (rst_info cm ! 2) \<noteq> RESTORE_NONE)"

text \<open>
  An instance of the header parameters and a frame state with segmentation on, nonzero
  filter levels, CDEF strengths and restoration types left over, to run lines 2975-3011.
  \<open>inv_signed_literal_twos_complement\<close> stands in for the signed literal of the bit
  reader; the quantiser index of a segment is the base index (no segment changes it).
\<close>

definition inv_signed_literal_twos_complement ::
  "aom_read_bit_buffer \<Rightarrow> nat \<Rightarrow> error + (int \<times> aom_read_bit_buffer)" where
  "inv_signed_literal_twos_complement rb bits =
     bind (aom_rb_read_literal rb (Suc bits))
       (\<lambda>(v, rb1). Inr (if v \<ge> 2 ^ bits then v - 2 ^ Suc bits else v, rb1))"

definition hdr_env_instance :: hdr_env where
  "hdr_env_instance =
     \<lparr>LAST_FRAME = 1, ALTREF_FRAME = 7, REF_FRAMES = 8, REF_FRAMES_LOG2 = 3,
      INTER_REFS_PER_FRAME = 7,
      NO_FILTER_FOR_IBC = 1, MAX_SEGMENTS = 8, MAX_MB_PLANE = 3, MAX_MODE_LF_DELTAS = 2,
      CDEF_STRENGTH_BITS = 6, RESTORATION_UNITSIZE_MAX = 256, BLOCK_128X128 = 15,
      default_ref_deltas = [1, 0, 0, 0, - 1, 0, - 1, - 1], default_mode_deltas = [0, 0],
      aom_rb_read_inv_signed_literal = inv_signed_literal_twos_complement,
      av1_get_qindex = (\<lambda>i base. base), av1_superres_unscaled = True\<rparr>"

definition hdr_cm_example :: hdr_cm where
  "hdr_cm_example =
     \<lparr>seg_enabled = 1, base_qindex = 0, y_dc_delta_q = 0, u_dc_delta_q = 0, u_ac_delta_q = 0,
      v_dc_delta_q = 0, v_ac_delta_q = 0,
      xd_lossless = replicate 8 0, xd_qindex = replicate 8 0,
      coded_lossless = 0, all_lossless = 0,
      lf = \<lparr>filter_level = [5, 7], filter_level_u = 3, filter_level_v = 3,
             sharpness_level = 0, mode_ref_delta_enabled = 0, mode_ref_delta_update = 0,
             ref_deltas = replicate 8 0, mode_deltas = [0, 0]\<rparr>,
      cur_frame_ref_deltas = replicate 8 0, cur_frame_mode_deltas = [0, 0],
      prev_frame_deltas = None,
      cdef_pri_damping = 3, cdef_sec_damping = 3, cdef_bits = 2, nb_cdef_strengths = 4,
      cdef_strengths = replicate 16 9, cdef_uv_strengths = replicate 16 9,
      rst_info = replicate 3 \<lparr>frame_restoration_type = RESTORE_WIENER,
                                 restoration_unit_size = 64\<rparr>,
      enable_cdef = 1, enable_restoration = 1, sb_size = 12, allow_intrabc = 0,
      monochrome = 0, subsampling_x = 1, subsampling_y = 1, skip_loop_filter = 0,
      tx_mode = TX_MODE_SELECT\<rparr>"

definition hdr_cm_example_parsed :: hdr_cm where
  "hdr_cm_example_parsed =
     hdr_cm_example
       \<lparr>xd_lossless := replicate 8 1, coded_lossless := 1, all_lossless := 1,
        lf := (lf hdr_cm_example)\<lparr>filter_level := [0, 0]\<rparr>,
        cur_frame_ref_deltas := [1, 0, 0, 0, - 1, 0, - 1, - 1],
        cdef_bits := 0, cdef_strengths := 0 # replicate 15 9,
        cdef_uv_strengths := 0 # replicate 15 9,
        rst_info := replicate 3 \<lparr>frame_restoration_type = RESTORE_NONE,
                                     restoration_unit_size = 64\<rparr>,
        tx_mode := ONLY_4X4\<rparr>"

section \<open>Tile buffers and the tile loop\<close>

text \<open>
  The frame payload is a list of bytes; a pointer into it is an offset, \<open>data_end\<close> the
  offset one past the last byte of the payload handed to \<open>decode_tiles\<close>. \<open>size_t\<close>
  is an unsigned type of \<open>size_t_bits\<close> bits: a conversion to it reduces modulo
  \<open>2 ^ size_t_bits\<close>.
\<close>

record TileBufferDec =
  buf_data :: int
  buf_size :: nat
  buf_col :: int

text \<open>
  The fields of \<open>AV1_COMMON\<close> that \<open>decode_tiles\<close> and \<open>get_tile_buffers\<close> use beyond
  those of \<open>hdr_cm\<close>, and the fields of \<open>AV1Decoder\<close>. \<open>tile_data_allocated\<close> is
  \<open>pbi->tile_data != NULL\<close>.
\<close>

record tile_cm = hdr_cm +
  tile_cols :: int
  tile_rows :: int
  large_scale_tile :: int
  disable_cdf_update :: int
  largest_tile_size :: nat
  largest_tile_id :: int

record AV1Decoder =
  tile_size_bytes :: int
  dec_tile_row :: int
  dec_tile_col :: int
  inv_tile_order :: int
  allocated_tiles :: int
  tile_data_allocated :: bool

text \<open>
  The collaborators of \<open>decode_tiles\<close> outside this embedding, over a state \<open>'s\<close> that
  holds the tile data, the readers and the pixels: the macro
  \<^verbatim>\<open>AV1_MIN_TILE_SIZE_BYTES\<close>, the width of \<open>size_t\<close>, \<open>get_ls_tile_buffers\<close> for
  large-scale tiles, the allocation of \<open>tile_data\<close> (\<open>False\<close> when it fails), the
  statements of the loading loop before and after \<open>setup_bool_decoder\<close>
  (\<open>init_tile_data\<close>, \<open>init_tile_context\<close>), \<^verbatim>\<open>aom_reader_init\<close> on the reader of
  a tile (nonzero when it fails), the store to \<open>r->allow_update_cdf\<close>, \<open>decode_tile\<close>,
  \<^verbatim>\<open>av1_loop_filter_frame\<close> with its two levels and its plane,
  \<^verbatim>\<open>aom_reader_find_end\<close> of a tile's reader, and the field \<open>raw_data_end\<close> that
  \<open>get_ls_tile_buffers\<close> alone sets.
\<close>

record 's tile_ext =
  AV1_MIN_TILE_SIZE_BYTES :: int
  size_t_bits :: nat
  get_ls_tile_buffers ::
    "8 word list \<Rightarrow> int \<Rightarrow> int \<Rightarrow> (nat \<times> nat \<Rightarrow> TileBufferDec) \<Rightarrow>
     error + (nat \<times> nat \<Rightarrow> TileBufferDec)"
  aom_memalign_tile_data :: "int \<Rightarrow> bool"
  init_tile_data :: "int \<Rightarrow> int \<Rightarrow> 's \<Rightarrow> 's"
  aom_reader_init :: "int \<Rightarrow> int \<Rightarrow> nat \<Rightarrow> 's \<Rightarrow> int \<times> 's"
  set_allow_update_cdf :: "int \<Rightarrow> bool \<Rightarrow> 's \<Rightarrow> 's"
  init_tile_context :: "int \<Rightarrow> int \<Rightarrow> 's \<Rightarrow> 's"
  decode_tile :: "int \<Rightarrow> int \<Rightarrow> 's \<Rightarrow> error + 's"
  av1_loop_filter_frame :: "int \<Rightarrow> int \<Rightarrow> int \<Rightarrow> 's \<Rightarrow> 's"
  aom_reader_find_end :: "int \<Rightarrow> 's \<Rightarrow> int"
  raw_data_end :: "(nat \<times> nat \<Rightarrow> TileBufferDec) \<Rightarrow> int \<Rightarrow> int \<Rightarrow> int"

definition to_size_t :: "'s tile_ext \<Rightarrow> int \<Rightarrow> nat" where
  "to_size_t X v = nat (v mod 2 ^ size_t_bits X)"

text \<open>\<open>read_is_valid\<close> (decodeframe.c, 121-123), on offsets.\<close>

definition read_is_valid :: "'s tile_ext \<Rightarrow> int \<Rightarrow> nat \<Rightarrow> int \<Rightarrow> bool" where
  "read_is_valid X start len end \<longleftrightarrow> len \<noteq> 0 \<and> len \<le> to_size_t X (end - start)"

text \<open>
  \<open>mem_get_varsize\<close> (decodeframe.c, 1593-1601). Modelled from the spec:
  \<^verbatim>\<open>mem_get_le16\<close>, \<^verbatim>\<open>mem_get_le24\<close> and \<^verbatim>\<open>mem_get_le32\<close>
  (\<^verbatim>\<open>aom_ports/mem_ops.h\<close>, outside src/) read "1-4 byte little-endian" size
  fields. The function returns \<open>int\<close>: a four-byte value from \<open>2 ^ 31\<close> on is returned
  as the negative number with the same 32 bits.
\<close>

fun le_value :: "8 word list \<Rightarrow> nat" where
  "le_value [] = 0"
| "le_value (b # bs) = unat b + 256 * le_value bs"

definition mem_get_varsize :: "8 word list \<Rightarrow> int \<Rightarrow> int \<Rightarrow> error + int" where
  "mem_get_varsize payload src sz =
     (if sz = 1 \<or> sz = 2 \<or> sz = 3 \<or> sz = 4 then
        if 0 \<le> src \<and> src + sz \<le> int (length payload)
        then Inr (sint (word_of_nat (le_value (take (nat sz) (drop (nat src) payload))) :: 32 word))
        else Inl Out_Of_Bounds
      else Inr (- 1))"

text \<open>
  \<open>get_tile_buffer\<close> (decodeframe.c, 1741-1766): from the cursor \<open>*data\<close> it gives
  the tile's buffer and the new cursor. The sum
  \<^verbatim>\<open>mem_get_varsize(...) + AV1_MIN_TILE_SIZE_BYTES\<close> is computed in \<open>int\<close> (32 bits,
  wrapping) and converted to \<open>size_t\<close>.
\<close>

definition int_add :: "int \<Rightarrow> int \<Rightarrow> int" where
  "int_add a b = sint (word_of_int (a + b) :: 32 word)"

definition get_tile_buffer ::
  "'s tile_ext \<Rightarrow> 8 word list \<Rightarrow> int \<Rightarrow> int \<Rightarrow> bool \<Rightarrow> int \<Rightarrow> TileBufferDec \<Rightarrow>
   error + (int \<times> TileBufferDec)" where
  "get_tile_buffer X payload data_end tile_size_bytes' is_last data buf =
   bind (if \<not> is_last then
           if \<not> read_is_valid X data (to_size_t X tile_size_bytes') data_end
           then aom_internal_error AOM_CODEC_CORRUPT_FRAME
                  ''Truncated packet or corrupt tile length''
           else
             bind (mem_get_varsize payload data tile_size_bytes') (\<lambda>v.
             let sz = to_size_t X (int_add v (AV1_MIN_TILE_SIZE_BYTES X));
                 data1 = data + tile_size_bytes' in
             if sz > to_size_t X (data_end - data1)
             then aom_internal_error AOM_CODEC_CORRUPT_FRAME
                    ''Truncated packet or corrupt tile size''
             else Inr (sz, data1))
         else Inr (to_size_t X (data_end - data), data)) (\<lambda>(sz, data1).
     Inr (data1 + int sz, buf\<lparr>buf_data := data1, buf_size := sz\<rparr>))"

text \<open>
  \<open>get_tile_buffers\<close> (decodeframe.c, 1768-1806). \<open>tile_list\<close> enumerates the two
  nested loops with the running count \<open>tc\<close>; \<open>get_tile_buffers_loop\<close> is their body
  over the tiles still to visit.
\<close>

definition tile_list :: "int \<Rightarrow> int \<Rightarrow> (int \<times> nat \<times> nat) list" where
  "tile_list tile_rows' tile_cols' =
     concat (map (\<lambda>r. map (\<lambda>c. (int r * tile_cols' + int c, r, c)) [0..<nat tile_cols'])
                 [0..<nat tile_rows'])"

fun get_tile_buffers_loop ::
  "'s tile_ext \<Rightarrow> AV1Decoder \<Rightarrow> 8 word list \<Rightarrow> int \<Rightarrow> int \<Rightarrow> int \<Rightarrow>
   (int \<times> nat \<times> nat) list \<Rightarrow> ('a tile_cm_scheme) \<Rightarrow> int \<Rightarrow> (nat \<times> nat \<Rightarrow> TileBufferDec) \<Rightarrow>
   error + ('a tile_cm_scheme \<times> int \<times> (nat \<times> nat \<Rightarrow> TileBufferDec))" where
  "get_tile_buffers_loop X pbi payload data_end startTile endTile [] cm data tile_buffers =
     Inr (cm, data, tile_buffers)"
| "get_tile_buffers_loop X pbi payload data_end startTile endTile ((tc, r, c) # rest)
     cm data tile_buffers =
     (let is_last = (tc = endTile) in
      if tc < startTile \<or> tc > endTile
      then get_tile_buffers_loop X pbi payload data_end startTile endTile rest cm data tile_buffers
      else if data \<ge> data_end
      then aom_internal_error AOM_CODEC_CORRUPT_FRAME ''Data ended before all tiles were read.''
      else
        bind (get_tile_buffer X payload data_end (tile_size_bytes pbi) is_last data
                ((tile_buffers (r, c))\<lparr>buf_col := int c\<rparr>)) (\<lambda>(data1, buf).
        let cm1 = (if buf_size buf > largest_tile_size cm
                   then cm\<lparr>largest_tile_size := buf_size buf,
                           largest_tile_id := int r * tile_cols cm + int c\<rparr>
                   else cm)
        in get_tile_buffers_loop X pbi payload data_end startTile endTile rest cm1 data1
             (tile_buffers((r, c) := buf))))"

definition get_tile_buffers ::
  "'s tile_ext \<Rightarrow> AV1Decoder \<Rightarrow> 8 word list \<Rightarrow> ('a tile_cm_scheme) \<Rightarrow> int \<Rightarrow> int \<Rightarrow>
   (nat \<times> nat \<Rightarrow> TileBufferDec) \<Rightarrow> int \<Rightarrow> int \<Rightarrow>
   error + ('a tile_cm_scheme \<times> (nat \<times> nat \<Rightarrow> TileBufferDec))" where
  "get_tile_buffers X pbi payload cm data data_end tile_buffers startTile endTile =
     (let cm0 = (if startTile = 0 then cm\<lparr>largest_tile_size := 0, largest_tile_id := 0\<rparr> else cm)
      in bind (get_tile_buffers_loop X pbi payload data_end startTile endTile
                 (tile_list (tile_rows cm) (tile_cols cm)) cm0 data tile_buffers)
           (\<lambda>(cm1, data1, tb). Inr (cm1, tb)))"

text \<open>
  \<open>setup_bool_decoder\<close> (decodeframe.c, 810-826) on the reader of the tile with index
  \<open>t\<close> in \<open>tile_data\<close>.
\<close>

definition setup_bool_decoder ::
  "'s tile_ext \<Rightarrow> int \<Rightarrow> int \<Rightarrow> nat \<Rightarrow> int \<Rightarrow> bool \<Rightarrow> 's \<Rightarrow> error + 's" where
  "setup_bool_decoder X data data_end read_size t allow_update_cdf s =
     (if \<not> read_is_valid X data read_size data_end
      then aom_internal_error AOM_CODEC_CORRUPT_FRAME ''Truncated packet or corrupt tile length''
      else case aom_reader_init X t data read_size s of (failed, s1) \<Rightarrow>
        if failed \<noteq> 0
        then aom_internal_error AOM_CODEC_MEM_ERROR ''Failed to allocate bool decoder 1''
        else Inr (set_allow_update_cdf X t allow_update_cdf s1))"

text \<open>
  \<open>decode_tiles\<close> (decodeframe.c, 1863-2013). \<open>tile_range\<close> enumerates the pairs
  \<open>(tile_row, tile_col)\<close> of the two nested loops; \<open>load_tiles\<close> is the loop that
  fills \<open>tile_data\<close>, \<open>decode_tiles_loop\<close> the loop that calls \<open>decode_tile\<close>,
  \<open>loop_filter_frame\<close> the deblocking of lines 1983-1999. The result is the state and
  the offset the function returns. Modelled from the spec: \<^verbatim>\<open>CHECK_MEM_ERROR\<close>
  (\<^verbatim>\<open>av1/common/onyxc_int.h\<close>, outside src/) raises a memory error when the
  allocation fails.
\<close>

definition tile_range :: "int \<Rightarrow> int \<Rightarrow> int \<Rightarrow> int \<Rightarrow> (int \<times> int) list" where
  "tile_range rows_start rows_end cols_start cols_end =
     concat (map (\<lambda>r. map (\<lambda>c. (r, c)) [cols_start..cols_end - 1]) [rows_start..rows_end - 1])"

fun load_tiles ::
  "'s tile_ext \<Rightarrow> int \<Rightarrow> int \<Rightarrow> int \<Rightarrow> int \<Rightarrow> bool \<Rightarrow> (nat \<times> nat \<Rightarrow> TileBufferDec) \<Rightarrow>
   (int \<times> int) list \<Rightarrow> 's \<Rightarrow> error + 's" where
  "load_tiles X tile_cols' data_end startTile endTile allow_update_cdf tile_buffers [] s = Inr s"
| "load_tiles X tile_cols' data_end startTile endTile allow_update_cdf tile_buffers
     ((tile_row, tile_col) # rest) s =
     (let t = tile_row * tile_cols' + tile_col in
      if t < startTile \<or> t > endTile
      then load_tiles X tile_cols' data_end startTile endTile allow_update_cdf tile_buffers rest s
      else if tile_row < 0 \<or> tile_col < 0 then Inl Out_Of_Bounds
      else
        let buf = tile_buffers (nat tile_row, nat tile_col) in
        bind (setup_bool_decoder X (buf_data buf) data_end (buf_size buf) t allow_update_cdf
                (init_tile_data X tile_row tile_col s)) (\<lambda>s1.
        load_tiles X tile_cols' data_end startTile endTile allow_update_cdf tile_buffers rest
          (init_tile_context X tile_row tile_col s1)))"

fun decode_tiles_loop ::
  "'s tile_ext \<Rightarrow> int \<Rightarrow> int \<Rightarrow> bool \<Rightarrow> bool \<Rightarrow> int \<Rightarrow> int \<Rightarrow> (int \<times> int) list \<Rightarrow> 's \<Rightarrow>
   error + 's" where
  "decode_tiles_loop X tile_rows' tile_cols' inv_row_order inv_col_order startTile endTile [] s =
     Inr s"
| "decode_tiles_loop X tile_rows' tile_cols' inv_row_order inv_col_order startTile endTile
     ((tile_row, tile_col) # rest) s =
     (let row = (if inv_row_order then tile_rows' - 1 - tile_row else tile_row);
          col = (if inv_col_order then tile_cols' - 1 - tile_col else tile_col);
          t = tile_row * tile_cols' + tile_col in
      if t < startTile \<or> t > endTile
      then decode_tiles_loop X tile_rows' tile_cols' inv_row_order inv_col_order startTile endTile
             rest s
      else bind (decode_tile X row col s)
             (decode_tiles_loop X tile_rows' tile_cols' inv_row_order inv_col_order startTile
                endTile rest))"

definition loop_filter_frame ::
  "'s tile_ext \<Rightarrow> hdr_env \<Rightarrow> ('a tile_cm_scheme) \<Rightarrow> int \<Rightarrow> 's \<Rightarrow> error + 's" where
  "loop_filter_frame X E cm endTile s =
     (if \<not> (allow_intrabc cm \<noteq> 0 \<and> NO_FILTER_FOR_IBC E \<noteq> 0) \<and>
         endTile = tile_rows cm * tile_cols cm - 1
      then
        bind (array_read (filter_level (lf cm)) 0) (\<lambda>l0.
        bind (array_read (filter_level (lf cm)) 1) (\<lambda>l1.
          if l0 \<noteq> 0 \<or> l1 \<noteq> 0 then
            let s1 = av1_loop_filter_frame X l0 l1 0 s in
            if av1_num_planes E (hdr_cm.truncate cm) > 1
            then Inr (av1_loop_filter_frame X (filter_level_v (lf cm)) (filter_level_v (lf cm)) 2
                       (av1_loop_filter_frame X (filter_level_u (lf cm)) (filter_level_u (lf cm))
                          1 s1))
            else Inr s1
          else Inr s))
      else Inr s)"

definition decode_tiles ::
  "'s tile_ext \<Rightarrow> hdr_env \<Rightarrow> AV1Decoder \<Rightarrow> 8 word list \<Rightarrow> ('a tile_cm_scheme) \<Rightarrow> int \<Rightarrow> int \<Rightarrow>
   int \<Rightarrow> int \<Rightarrow> (nat \<times> nat \<Rightarrow> TileBufferDec) \<Rightarrow> 's \<Rightarrow>
   error + ('a tile_cm_scheme \<times> AV1Decoder \<times> (nat \<times> nat \<Rightarrow> TileBufferDec) \<times> 's \<times> int)" where
  "decode_tiles X E pbi payload cm data data_end startTile endTile tile_buffers s =
     (let n_tiles = tile_cols cm * tile_rows cm;
          dec_tile_row' = min (dec_tile_row pbi) (tile_rows cm);
          single_row = (dec_tile_row pbi \<ge> 0);
          dec_tile_col' = min (dec_tile_col pbi) (tile_cols cm);
          single_col = (dec_tile_col pbi \<ge> 0);
          ls = (large_scale_tile cm \<noteq> 0);
          tile_rows_start = (if ls \<and> single_row then dec_tile_row' else 0);
          tile_rows_end = (if ls \<and> single_row then dec_tile_row' + 1 else tile_rows cm);
          tile_cols_start = (if ls \<and> single_col then dec_tile_col' else 0);
          tile_cols_end = (if ls \<and> single_col then tile_cols_start + 1 else tile_cols cm);
          inv_col_order = (if ls then inv_tile_order pbi \<noteq> 0 \<and> \<not> single_col
                           else inv_tile_order pbi \<noteq> 0);
          inv_row_order = (if ls then inv_tile_order pbi \<noteq> 0 \<and> \<not> single_row
                           else inv_tile_order pbi \<noteq> 0);
          allow_update_cdf = (\<not> ls \<and> disable_cdf_update cm = 0);
          range = tile_range tile_rows_start tile_rows_end tile_cols_start tile_cols_end
      in
      if tile_rows_end \<le> tile_rows_start \<or> tile_cols_end \<le> tile_cols_start
      then Inr (cm, pbi, tile_buffers, s, data)
      else
        bind (if ls
              then bind (get_ls_tile_buffers X payload data data_end tile_buffers)
                     (\<lambda>tb. Inr (cm, tb))
              else get_tile_buffers X pbi payload cm data data_end tile_buffers startTile endTile)
          (\<lambda>(cm1, tb).
        bind (if \<not> tile_data_allocated pbi \<or> n_tiles \<noteq> allocated_tiles pbi
              then if aom_memalign_tile_data X n_tiles
                   then Inr (pbi\<lparr>allocated_tiles := n_tiles, tile_data_allocated := True\<rparr>)
                   else aom_internal_error AOM_CODEC_MEM_ERROR ''Failed to allocate pbi->tile_data''
              else Inr pbi) (\<lambda>pbi1.
        bind (load_tiles X (tile_cols cm) data_end startTile endTile allow_update_cdf tb range s)
          (\<lambda>s1.
        bind (decode_tiles_loop X (tile_rows cm) (tile_cols cm) inv_row_order inv_col_order
                startTile endTile range s1) (\<lambda>s2.
        bind (loop_filter_frame X E cm1 endTile s2) (\<lambda>s3.
          Inr (cm1, pbi1, tb, s3,
               if ls then
                 if n_tiles = 1 then aom_reader_find_end X 0 s3
                 else raw_data_end X tb (tile_rows cm - 1) (tile_cols cm - 1)
               else aom_reader_find_end X endTile s3)))))))"

text \<open>
  A frame of one row of three tiles with one-byte size fields: the first tile has the
  field 0 (one byte of data), the second the field 9 with two bytes left in the
  payload. The state of the stand-in collaborators counts the calls of \<open>decode_tile\<close>.
\<close>

definition tile_ext_instance :: "nat tile_ext" where
  "tile_ext_instance =
     \<lparr>AV1_MIN_TILE_SIZE_BYTES = 1, size_t_bits = 64,
      get_ls_tile_buffers = (\<lambda>payload data data_end tb. Inr tb),
      aom_memalign_tile_data = (\<lambda>n. True),
      init_tile_data = (\<lambda>r c s. s),
      aom_reader_init = (\<lambda>t data n s. (0, s)),
      set_allow_update_cdf = (\<lambda>t b s. s),
      init_tile_context = (\<lambda>r c s. s),
      decode_tile = (\<lambda>r c s. Inr (Suc s)),
      av1_loop_filter_frame = (\<lambda>l0 l1 plane s. s),
      aom_reader_find_end = (\<lambda>t s. 0),
      raw_data_end = (\<lambda>tb r c. 0)\<rparr>"

definition tile_cm_example :: tile_cm where
  "tile_cm_example = hdr_cm.extend hdr_cm_example (tile_cm.fields 3 1 0 0 0 0)"

definition pbi_example :: AV1Decoder where
  "pbi_example =
     \<lparr>tile_size_bytes = 1, dec_tile_row = - 1, dec_tile_col = - 1, inv_tile_order = 0,
      allocated_tiles = 0, tile_data_allocated = False\<rparr>"

definition tile_payload_example :: "8 word list" where
  "tile_payload_example = [0, 170, 9, 187]"

definition tile_buffers_example :: "nat \<times> nat \<Rightarrow> TileBufferDec" where
  "tile_buffers_example = (\<lambda>rc. \<lparr>buf_data = 0, buf_size = 0, buf_col = 0\<rparr>)"

section \<open>Partition tree, blocks and the superblock row of a tile\<close>

text \<open>
  A \<open>TileData\<close> is the flag \<open>xd.corrupted\<close> with the rest of the tile's state (the
  reader, the contexts, the mode info and the pixels it writes), on which the
  collaborators outside this embedding work.
\<close>

record 't TileData =
  xd_corrupted :: int
  td_rest :: 't

record block_cm = tile_cm +
  mi_rows :: int
  mi_cols :: int
  mib_size :: int

text \<open>
  Block sizes and partition types are the values of their enumerators. The record
  holds the enumerators and tables of \<^verbatim>\<open>av1/common\<close> the partition code uses, and
  the collaborators of \<open>read_partition\<close>, \<open>decode_partition\<close>, \<open>decode_block\<close> and
  \<open>decode_tile_sb_row\<close>: \<open>aom_read_symbol\<close> is given the index \<open>ctx\<close> of the table
  \<open>ec_ctx->partition_cdf[ctx]\<close> it reads with and adapts; \<open>loop_restoration_read\<close> is
  the loop of lines 715-729; \<open>set_mbmi_partition\<close> the store to
  \<open>xd->mi[0]->mbmi.partition\<close>; \<open>read_palette_and_tx_size\<close> lines 633-660 of
  \<open>decode_block\<close>; \<open>token_and_recon\<close> the body of \<open>decode_token_and_recon_block\<close>
  before its last two lines.
\<close>

record 't block_ext =
  BLOCK_8X8 :: int
  BLOCK_INVALID :: int
  PARTITION_NONE :: int
  PARTITION_HORZ :: int
  PARTITION_VERT :: int
  PARTITION_SPLIT :: int
  PARTITION_HORZ_A :: int
  PARTITION_HORZ_B :: int
  PARTITION_VERT_A :: int
  PARTITION_VERT_B :: int
  PARTITION_HORZ_4 :: int
  PARTITION_VERT_4 :: int
  mi_size_wide :: "int \<Rightarrow> int"
  mi_size_high :: "int \<Rightarrow> int"
  subsize_lookup :: "int \<Rightarrow> int \<Rightarrow> int"
  get_subsize :: "int \<Rightarrow> int \<Rightarrow> int"
  ss_size_lookup :: "int \<Rightarrow> int \<Rightarrow> int \<Rightarrow> int"
  get_plane_block_size_u :: "int \<Rightarrow> 't TileData \<Rightarrow> int"
  partition_plane_context :: "'t TileData \<Rightarrow> int \<Rightarrow> int \<Rightarrow> int \<Rightarrow> int"
  partition_cdf :: "'t TileData \<Rightarrow> int \<Rightarrow> int list"
  partition_cdf_length :: "int \<Rightarrow> int"
  partition_gather_vert_alike :: "int list \<Rightarrow> int \<Rightarrow> int list"
  partition_gather_horz_alike :: "int list \<Rightarrow> int \<Rightarrow> int list"
  aom_read_symbol :: "int \<Rightarrow> int \<Rightarrow> 't TileData \<Rightarrow> int \<times> 't TileData"
  aom_read_cdf :: "int list \<Rightarrow> int \<Rightarrow> 't TileData \<Rightarrow> int \<times> 't TileData"
  loop_restoration_read :: "int \<Rightarrow> int \<Rightarrow> int \<Rightarrow> 't TileData \<Rightarrow> 't TileData"
  set_offsets ::
    "int \<Rightarrow> int \<Rightarrow> int \<Rightarrow> int \<Rightarrow> int \<Rightarrow> int \<Rightarrow> int \<Rightarrow> 't TileData \<Rightarrow> 't TileData"
  set_mbmi_partition :: "int \<Rightarrow> 't TileData \<Rightarrow> 't TileData"
  av1_read_mode_info :: "int \<Rightarrow> int \<Rightarrow> int \<Rightarrow> int \<Rightarrow> 't TileData \<Rightarrow> 't TileData"
  aom_reader_has_error :: "'t TileData \<Rightarrow> int"
  read_palette_and_tx_size :: "int \<Rightarrow> 't TileData \<Rightarrow> 't TileData"
  token_and_recon :: "int \<Rightarrow> int \<Rightarrow> int \<Rightarrow> 't TileData \<Rightarrow> error + 't TileData"
  update_ext_partition_context ::
    "int \<Rightarrow> int \<Rightarrow> int \<Rightarrow> int \<Rightarrow> int \<Rightarrow> 't TileData \<Rightarrow> 't TileData"
  av1_zero_left_context :: "'t TileData \<Rightarrow> 't TileData"

text \<open>
  Modelled from the spec: \<^verbatim>\<open>aom_merge_corrupted_flag\<close> (\<^verbatim>\<open>aom_dsp\<close>, outside
  src/) merges the new flag into the stored one by "sticky OR".
\<close>

definition aom_merge_corrupted_flag :: "int \<Rightarrow> int \<Rightarrow> int" where
  "aom_merge_corrupted_flag corrupted new_corrupted = corrupted OR new_corrupted"

text \<open>C's \<open>/\<close>, which truncates towards zero.\<close>

definition c_div :: "int \<Rightarrow> int \<Rightarrow> int" where
  "c_div a b = sgn a * sgn b * (\<bar>a\<bar> div \<bar>b\<bar>)"

text \<open>
  \<open>decode_mbmi_block\<close> (decodeframe.c, 310-335); \<open>read_block_mode_info\<close> is its part
  up to the call of \<^verbatim>\<open>av1_read_mode_info\<close> (lines 313-324).
\<close>

definition read_block_mode_info ::
  "'t block_ext \<Rightarrow> ('a block_cm_scheme) \<Rightarrow> int \<Rightarrow> int \<Rightarrow> int \<Rightarrow> int \<Rightarrow> 't TileData \<Rightarrow>
   't TileData" where
  "read_block_mode_info X cm mi_row mi_col partition' bsize st =
     (let bw = mi_size_wide X bsize;
          bh = mi_size_high X bsize;
          x_mis = min bw (mi_cols cm - mi_col);
          y_mis = min bh (mi_rows cm - mi_row);
          st1 = set_offsets X bsize mi_row mi_col bw bh x_mis y_mis st;
          st2 = set_mbmi_partition X partition' st1
      in av1_read_mode_info X mi_row mi_col x_mis y_mis st2)"

definition decode_mbmi_block ::
  "'t block_ext \<Rightarrow> ('a block_cm_scheme) \<Rightarrow> int \<Rightarrow> int \<Rightarrow> int \<Rightarrow> int \<Rightarrow> 't TileData \<Rightarrow>
   error + 't TileData" where
  "decode_mbmi_block X cm mi_row mi_col partition' bsize st =
     (let st3 = read_block_mode_info X cm mi_row mi_col partition' bsize st in
      if bsize \<ge> BLOCK_8X8 X \<and> (subsampling_x cm \<noteq> 0 \<or> subsampling_y cm \<noteq> 0) \<and>
         ss_size_lookup X bsize (subsampling_x cm) (subsampling_y cm) = BLOCK_INVALID X
      then aom_internal_error AOM_CODEC_CORRUPT_FRAME ''Invalid block size.''
      else
        let reader_corrupted_flag = aom_reader_has_error X st3 in
        Inr (st3\<lparr>xd_corrupted :=
                   aom_merge_corrupted_flag (xd_corrupted st3) reader_corrupted_flag\<rparr>))"

text \<open>
  \<open>decode_token_and_recon_block\<close> (decodeframe.c, 337-520): its body, then the merge
  of lines 518-519.
\<close>

definition decode_token_and_recon_block ::
  "'t block_ext \<Rightarrow> int \<Rightarrow> int \<Rightarrow> int \<Rightarrow> 't TileData \<Rightarrow> error + 't TileData" where
  "decode_token_and_recon_block X mi_row mi_col bsize st =
     bind (token_and_recon X mi_row mi_col bsize st) (\<lambda>st1.
       let reader_corrupted_flag = aom_reader_has_error X st1 in
       Inr (st1\<lparr>xd_corrupted :=
                  aom_merge_corrupted_flag (xd_corrupted st1) reader_corrupted_flag\<rparr>))"

text \<open>\<open>decode_block\<close> (decodeframe.c, 628-664).\<close>

definition decode_block ::
  "'t block_ext \<Rightarrow> ('a block_cm_scheme) \<Rightarrow> int \<Rightarrow> int \<Rightarrow> int \<Rightarrow> int \<Rightarrow> 't TileData \<Rightarrow>
   error + 't TileData" where
  "decode_block X cm mi_row mi_col partition' bsize st =
     bind (decode_mbmi_block X cm mi_row mi_col partition' bsize st) (\<lambda>st1.
       decode_token_and_recon_block X mi_row mi_col bsize
         (read_palette_and_tx_size X bsize st1))"

text \<open>
  \<open>read_partition\<close> (decodeframe.c, 666-693). The assertions are not compiled into a
  release build and have no effect here.
\<close>

definition read_partition ::
  "'t block_ext \<Rightarrow> 't TileData \<Rightarrow> int \<Rightarrow> int \<Rightarrow> bool \<Rightarrow> bool \<Rightarrow> int \<Rightarrow> int \<times> 't TileData" where
  "read_partition X st mi_row mi_col has_rows has_cols bsize =
     (let ctx = partition_plane_context X st mi_row mi_col bsize in
      if \<not> has_rows \<and> \<not> has_cols then (PARTITION_SPLIT X, st)
      else if has_rows \<and> has_cols
      then aom_read_symbol X ctx (partition_cdf_length X bsize) st
      else if \<not> has_rows \<and> has_cols
      then case aom_read_cdf X (partition_gather_vert_alike X (partition_cdf X st ctx) bsize) 2 st
           of (v, st1) \<Rightarrow> (if v \<noteq> 0 then PARTITION_SPLIT X else PARTITION_HORZ X, st1)
      else case aom_read_cdf X (partition_gather_horz_alike X (partition_cdf X st ctx) bsize) 2 st
           of (v, st1) \<Rightarrow> (if v \<noteq> 0 then PARTITION_SPLIT X else PARTITION_VERT X, st1))"

text \<open>
  \<open>decode_partition\<close> calls itself on the four quarters of a split block, and the loop
  of \<open>decode_tile_sb_row\<close> advances by \<open>mib_size\<close>: both are given a bound \<open>fuel\<close>
  on the depth of calls and the number of iterations, and the result \<open>None\<close> says
  that the bound was reached. \<open>bind_fuel\<close> sequences such results.
\<close>

definition bind_fuel ::
  "(error + 'a) option \<Rightarrow> ('a \<Rightarrow> (error + 'b) option) \<Rightarrow> (error + 'b) option" where
  "bind_fuel m f = (case m of None \<Rightarrow> None | Some (Inl e) \<Rightarrow> Some (Inl e) | Some (Inr x) \<Rightarrow> f x)"

text \<open>Lines 706-709 and 735-737 of \<open>decode_partition\<close>: the partition of the block.\<close>

definition has_rows :: "'t block_ext \<Rightarrow> ('a block_cm_scheme) \<Rightarrow> int \<Rightarrow> int \<Rightarrow> bool" where
  "has_rows X cm mi_row bsize \<longleftrightarrow> mi_row + shr (mi_size_wide X bsize) 1 < mi_rows cm"

definition has_cols :: "'t block_ext \<Rightarrow> ('a block_cm_scheme) \<Rightarrow> int \<Rightarrow> int \<Rightarrow> bool" where
  "has_cols X cm mi_col bsize \<longleftrightarrow> mi_col + shr (mi_size_wide X bsize) 1 < mi_cols cm"

definition read_block_partition ::
  "'t block_ext \<Rightarrow> ('a block_cm_scheme) \<Rightarrow> int \<Rightarrow> int \<Rightarrow> int \<Rightarrow> 't TileData \<Rightarrow>
   int \<times> 't TileData" where
  "read_block_partition X cm mi_row mi_col bsize st =
     (if bsize < BLOCK_8X8 X then (PARTITION_NONE X, st)
      else read_partition X st mi_row mi_col (has_rows X cm mi_row bsize)
             (has_cols X cm mi_col bsize) bsize)"

text \<open>The loops of the cases \<^verbatim>\<open>PARTITION_HORZ_4\<close> and \<^verbatim>\<open>PARTITION_VERT_4\<close>.\<close>

fun decode_horz_4 ::
  "'t block_ext \<Rightarrow> ('a block_cm_scheme) \<Rightarrow> int \<Rightarrow> int \<Rightarrow> int \<Rightarrow> int \<Rightarrow> int \<Rightarrow> int \<Rightarrow> nat \<Rightarrow>
   't TileData \<Rightarrow> error + 't TileData" where
  "decode_horz_4 X cm mi_row mi_col quarter_step partition' subsize i 0 st = Inr st"
| "decode_horz_4 X cm mi_row mi_col quarter_step partition' subsize i (Suc k) st =
     (let this_mi_row = mi_row + i * quarter_step in
      if i > 0 \<and> this_mi_row \<ge> mi_rows cm then Inr st
      else bind (decode_block X cm this_mi_row mi_col partition' subsize st)
             (decode_horz_4 X cm mi_row mi_col quarter_step partition' subsize (i + 1) k))"

fun decode_vert_4 ::
  "'t block_ext \<Rightarrow> ('a block_cm_scheme) \<Rightarrow> int \<Rightarrow> int \<Rightarrow> int \<Rightarrow> int \<Rightarrow> int \<Rightarrow> int \<Rightarrow> nat \<Rightarrow>
   't TileData \<Rightarrow> error + 't TileData" where
  "decode_vert_4 X cm mi_row mi_col quarter_step partition' subsize i 0 st = Inr st"
| "decode_vert_4 X cm mi_row mi_col quarter_step partition' subsize i (Suc k) st =
     (let this_mi_col = mi_col + i * quarter_step in
      if i > 0 \<and> this_mi_col \<ge> mi_cols cm then Inr st
      else bind (decode_block X cm mi_row this_mi_col partition' subsize st)
             (decode_vert_4 X cm mi_row mi_col quarter_step partition' subsize (i + 1) k))"

text \<open>
  The cases of the \<open>switch\<close> of \<open>decode_partition\<close> (lines 753-806) that call
  \<open>decode_block\<close> only; a partition that is none of the enumerators falls through
  the \<open>switch\<close>.
\<close>

definition decode_partition_blocks ::
  "'t block_ext \<Rightarrow> ('a block_cm_scheme) \<Rightarrow> int \<Rightarrow> int \<Rightarrow> int \<Rightarrow> int \<Rightarrow> int \<Rightarrow> 't TileData \<Rightarrow>
   error + 't TileData" where
  "decode_partition_blocks X cm mi_row mi_col bsize partition' subsize st =
     (let num_8x8_wh = mi_size_wide X bsize;
          hbs = shr num_8x8_wh 1;
          quarter_step = c_div num_8x8_wh 4;
          bsize2 = get_subsize X bsize (PARTITION_SPLIT X);
          DEC_BLOCK = (\<lambda>db_r db_c db_subsize. decode_block X cm db_r db_c partition' db_subsize)
      in
      if partition' = PARTITION_NONE X then DEC_BLOCK mi_row mi_col subsize st
      else if partition' = PARTITION_HORZ X then
        bind (DEC_BLOCK mi_row mi_col subsize st) (\<lambda>st1.
          if has_rows X cm mi_row bsize then DEC_BLOCK (mi_row + hbs) mi_col subsize st1
          else Inr st1)
      else if partition' = PARTITION_VERT X then
        bind (DEC_BLOCK mi_row mi_col subsize st) (\<lambda>st1.
          if has_cols X cm mi_col bsize then DEC_BLOCK mi_row (mi_col + hbs) subsize st1
          else Inr st1)
      else if partition' = PARTITION_HORZ_A X then
        bind (DEC_BLOCK mi_row mi_col bsize2 st) (\<lambda>st1.
        bind (DEC_BLOCK mi_row (mi_col + hbs) bsize2 st1)
          (DEC_BLOCK (mi_row + hbs) mi_col subsize))
      else if partition' = PARTITION_HORZ_B X then
        bind (DEC_BLOCK mi_row mi_col subsize st) (\<lambda>st1.
        bind (DEC_BLOCK (mi_row + hbs) mi_col bsize2 st1)
          (DEC_BLOCK (mi_row + hbs) (mi_col + hbs) bsize2))
      else if partition' = PARTITION_VERT_A X then
        bind (DEC_BLOCK mi_row mi_col bsize2 st) (\<lambda>st1.
        bind (DEC_BLOCK (mi_row + hbs) mi_col bsize2 st1)
          (DEC_BLOCK mi_row (mi_col + hbs) subsize))
      else if partition' = PARTITION_VERT_B X then
        bind (DEC_BLOCK mi_row mi_col subsize st) (\<lambda>st1.
        bind (DEC_BLOCK mi_row (mi_col + hbs) bsize2 st1)
          (DEC_BLOCK (mi_row + hbs) (mi_col + hbs) bsize2))
      else if partition' = PARTITION_HORZ_4 X then
        decode_horz_4 X cm mi_row mi_col quarter_step partition' subsize 0 4 st
      else if partition' = PARTITION_VERT_4 X then
        decode_vert_4 X cm mi_row mi_col quarter_step partition' subsize 0 4 st
      else Inr st)"

text \<open>
  \<open>decode_partition\<close> (decodeframe.c, 696-808). The cases of the \<open>switch\<close> are tried
  in the order of the source, so \<^verbatim>\<open>PARTITION_SPLIT\<close> comes after
  \<^verbatim>\<open>PARTITION_NONE\<close>, \<^verbatim>\<open>PARTITION_HORZ\<close> and \<^verbatim>\<open>PARTITION_VERT\<close>. The message of
  the error is the format string; the two numbers it is filled with are
  \<open>block_size_wide[subsize]\<close> and \<open>block_size_high[subsize]\<close>.
\<close>

fun decode_partition ::
  "'t block_ext \<Rightarrow> ('a block_cm_scheme) \<Rightarrow> nat \<Rightarrow> int \<Rightarrow> int \<Rightarrow> int \<Rightarrow> 't TileData \<Rightarrow>
   (error + 't TileData) option" where
  "decode_partition X cm 0 mi_row mi_col bsize st = None"
| "decode_partition X cm (Suc fuel) mi_row mi_col bsize st =
     (let hbs = shr (mi_size_wide X bsize) 1 in
      if mi_row \<ge> mi_rows cm \<or> mi_col \<ge> mi_cols cm then Some (Inr st)
      else
        case read_block_partition X cm mi_row mi_col bsize
               (loop_restoration_read X mi_row mi_col bsize st) of
          (partition', st1) \<Rightarrow>
        let subsize = subsize_lookup X partition' bsize in
        if get_plane_block_size_u X subsize st1 = BLOCK_INVALID X
        then Some (aom_internal_error AOM_CODEC_CORRUPT_FRAME
                     ''Block size %dx%d invalid with this subsampling mode'')
        else
          bind_fuel
            (if partition' = PARTITION_SPLIT X \<and> partition' \<noteq> PARTITION_NONE X \<and>
                partition' \<noteq> PARTITION_HORZ X \<and> partition' \<noteq> PARTITION_VERT X
             then
               bind_fuel (decode_partition X cm fuel mi_row mi_col subsize st1) (\<lambda>st2.
               bind_fuel (decode_partition X cm fuel mi_row (mi_col + hbs) subsize st2) (\<lambda>st3.
               bind_fuel (decode_partition X cm fuel (mi_row + hbs) mi_col subsize st3) (\<lambda>st4.
                 decode_partition X cm fuel (mi_row + hbs) (mi_col + hbs) subsize st4)))
             else Some (decode_partition_blocks X cm mi_row mi_col bsize partition' subsize st1))
            (\<lambda>st5. Some (Inr (update_ext_partition_context X mi_row mi_col subsize bsize
                                partition' st5))))"

text \<open>
  \<open>decode_tile_sb_row\<close> (decodeframe.c, 1808-1822) with the flag \<open>pbi->mb.corrupted\<close>
  and the columns \<open>mi_col_start\<close>, \<open>mi_col_end\<close> of the tile; \<open>decode_sb_cols\<close> is its
  loop from the column \<open>mi_col\<close> on.
\<close>

fun decode_sb_cols ::
  "'t block_ext \<Rightarrow> ('a block_cm_scheme) \<Rightarrow> nat \<Rightarrow> int \<Rightarrow> int \<Rightarrow> int \<Rightarrow> 't TileData \<Rightarrow>
   (error + 't TileData) option" where
  "decode_sb_cols X cm 0 mi_row mi_col mi_col_end st = None"
| "decode_sb_cols X cm (Suc fuel) mi_row mi_col mi_col_end st =
     (if mi_col < mi_col_end
      then bind_fuel (decode_partition X cm fuel mi_row mi_col (sb_size cm) st)
             (decode_sb_cols X cm fuel mi_row (mi_col + mib_size cm) mi_col_end)
      else Some (Inr st))"

definition decode_tile_sb_row ::
  "'t block_ext \<Rightarrow> ('a block_cm_scheme) \<Rightarrow> nat \<Rightarrow> int \<Rightarrow> int \<Rightarrow> int \<Rightarrow> int \<Rightarrow> 't TileData \<Rightarrow>
   (error + int \<times> 't TileData) option" where
  "decode_tile_sb_row X cm fuel mb_corrupted mi_col_start mi_col_end mi_row st =
     bind_fuel (decode_sb_cols X cm fuel mi_row mi_col_start mi_col_end
                  (av1_zero_left_context X st)) (\<lambda>st1.
       let mb_corrupted1 = aom_merge_corrupted_flag mb_corrupted (xd_corrupted st1) in
       if mb_corrupted1 \<noteq> 0
       then Some (aom_internal_error AOM_CODEC_CORRUPT_FRAME ''Failed to decode tile data'')
       else Some (Inr (mb_corrupted1, st1)))"

text \<open>
  What the collaborators are taken to do with \<open>xd.corrupted\<close>: none of them clears a
  flag that is set. In this file the flag is written by the two merges above and
  cleared where \<open>decode_tiles\<close> loads a tile (line 1940).
\<close>

definition keeps_corrupted :: "('t TileData \<Rightarrow> 't TileData) \<Rightarrow> bool" where
  "keeps_corrupted f \<longleftrightarrow> (\<forall>st. xd_corrupted st \<noteq> 0 \<longrightarrow> xd_corrupted (f st) \<noteq> 0)"

definition block_ext_sticky :: "'t block_ext \<Rightarrow> bool" where
  "block_ext_sticky X \<longleftrightarrow>
     (\<forall>ctx n. keeps_corrupted (\<lambda>st. snd (aom_read_symbol X ctx n st))) \<and>
     (\<forall>cdf n. keeps_corrupted (\<lambda>st. snd (aom_read_cdf X cdf n st))) \<and>
     (\<forall>r c b. keeps_corrupted (loop_restoration_read X r c b)) \<and>
     (\<forall>b r c bw bh x y. keeps_corrupted (set_offsets X b r c bw bh x y)) \<and>
     (\<forall>p. keeps_corrupted (set_mbmi_partition X p)) \<and>
     (\<forall>r c x y. keeps_corrupted (av1_read_mode_info X r c x y)) \<and>
     (\<forall>b. keeps_corrupted (read_palette_and_tx_size X b)) \<and>
     (\<forall>r c b st st1. token_and_recon X r c b st = Inr st1 \<longrightarrow> xd_corrupted st \<noteq> 0 \<longrightarrow>
        xd_corrupted st1 \<noteq> 0) \<and>
     (\<forall>r c s b p. keeps_corrupted (update_ext_partition_context X r c s b p)) \<and>
     keeps_corrupted (av1_zero_left_context X)"

text \<open>
  Stand-ins for a frame of 4 by 4 mode-info units with 16x16 superblocks. The rest of
  the tile state is the list of symbols still to read; a symbol read from the empty
  list is 0 and the reader then reports an error. Block sizes 0, 3, 6 stand for
  4x4, 8x8, 16x16; a split takes a size three enumerators down.
\<close>

definition read_next_symbol :: "int list TileData \<Rightarrow> int \<times> int list TileData" where
  "read_next_symbol st =
     (case td_rest st of [] \<Rightarrow> (0, st\<lparr>td_rest := [- 1]\<rparr>)
      | x # xs \<Rightarrow> if x < 0 then (0, st) else (x, st\<lparr>td_rest := xs\<rparr>))"

definition block_ext_instance :: "int list block_ext" where
  "block_ext_instance =
     \<lparr>BLOCK_8X8 = 3, BLOCK_INVALID = 255,
      PARTITION_NONE = 0, PARTITION_HORZ = 1, PARTITION_VERT = 2, PARTITION_SPLIT = 3,
      PARTITION_HORZ_A = 4, PARTITION_HORZ_B = 5, PARTITION_VERT_A = 6, PARTITION_VERT_B = 7,
      PARTITION_HORZ_4 = 8, PARTITION_VERT_4 = 9,
      mi_size_wide = (\<lambda>b. if b < 3 then 1 else if b < 6 then 2 else 4),
      mi_size_high = (\<lambda>b. if b < 3 then 1 else if b < 6 then 2 else 4),
      subsize_lookup = (\<lambda>p b. if p = 3 then (if b \<ge> 3 then b - 3 else 255) else b),
      get_subsize = (\<lambda>b p. if p = 3 then (if b \<ge> 3 then b - 3 else 255) else b),
      ss_size_lookup = (\<lambda>b x y. b),
      get_plane_block_size_u = (\<lambda>b st. b),
      partition_plane_context = (\<lambda>st r c b. 0),
      partition_cdf = (\<lambda>st ctx. []),
      partition_cdf_length = (\<lambda>b. 10),
      partition_gather_vert_alike = (\<lambda>cdf b. cdf),
      partition_gather_horz_alike = (\<lambda>cdf b. cdf),
      aom_read_symbol = (\<lambda>ctx n. read_next_symbol),
      aom_read_cdf = (\<lambda>cdf n. read_next_symbol),
      loop_restoration_read = (\<lambda>r c b st. st),
      set_offsets = (\<lambda>b r c bw bh x y st. st),
      set_mbmi_partition = (\<lambda>p st. st),
      av1_read_mode_info = (\<lambda>r c x y st. snd (read_next_symbol st)),
      aom_reader_has_error = (\<lambda>st. if td_rest st = [- 1] then 1 else 0),
      read_palette_and_tx_size = (\<lambda>b st. st),
      token_and_recon = (\<lambda>r c b st. Inr st),
      update_ext_partition_context = (\<lambda>r c s b p st. st),
      av1_zero_left_context = (\<lambda>st. st)\<rparr>"

definition block_cm_example :: block_cm where
  "block_cm_example = tile_cm.extend (tile_cm_example\<lparr>sb_size := 6\<rparr>) (block_cm.fields 4 4 4)"

section \<open>Theorems\<close>

lemma bind_Inr [simp]: "bind (Inr x) f = f x"
  by (simp add: bind_def)

lemma bind_Inl [simp]: "bind (Inl e) f = Inl e"
  by (simp add: bind_def)

lemma bind_eq_Inr_iff: "bind m f = Inr y \<longleftrightarrow> (\<exists>x. m = Inr x \<and> f x = Inr y)"
  by (cases m) simp_all

lemma aom_rb_read_bit_range:
  "aom_rb_read_bit rb = Inr (b, rb') \<Longrightarrow> (b = 0 \<or> b = 1) \<and> length rb = Suc (length rb')"
  by (auto simp: aom_rb_read_bit_def error_handler_def aom_internal_error_def
      split: list.splits if_splits)

lemma aom_rb_read_literal_range:
  "aom_rb_read_literal rb n = Inr (v, rb') \<Longrightarrow> 0 \<le> v \<and> v < 2 ^ n"
proof (induction n arbitrary: rb v rb')
  case 0
  then show ?case by simp
next
  case (Suc n)
  from Suc.prems obtain b rb1 w where b: "aom_rb_read_bit rb = Inr (b, rb1)"
    and w: "aom_rb_read_literal rb1 n = Inr (w, rb')" and v: "v = b * 2 ^ n + w"
    by (auto simp: bind_eq_Inr_iff)
  from aom_rb_read_bit_range [OF b] have "b = 0 \<or> b = 1" by blast
  with Suc.IH [OF w] v show ?case by auto
qed

lemma memset_dqcoeff_Inr:
  assumes "memset_dqcoeff dq n = Inr dq'"
  shows "0 \<le> n" and "n \<le> int (length dq)" and "length dq' = length dq"
    and "\<And>i. i < nat n \<Longrightarrow> dq' ! i = 0"
    and "\<And>i. nat n \<le> i \<Longrightarrow> i < length dq \<Longrightarrow> dq' ! i = dq ! i"
proof -
  from assms have n: "0 \<le> n" "n \<le> int (length dq)"
    and eq: "dq' = replicate (nat n) 0 @ drop (nat n) dq"
    by (auto simp: memset_dqcoeff_def split: if_splits)
  show "0 \<le> n" "n \<le> int (length dq)" by (rule n)+
  from n show "length dq' = length dq" by (simp add: eq)
  show "\<And>i. i < nat n \<Longrightarrow> dq' ! i = 0" by (simp add: eq nth_append)
  show "\<And>i. nat n \<le> i \<Longrightarrow> i < length dq \<Longrightarrow> dq' ! i = dq ! i"
    using n by (simp add: eq nth_append)
qed

text \<open>
  C4. After the inverse transform of a unit, \<open>inverse_transform_block\<close> leaves 0 in the
  coefficient buffer at every position from 0 to \<open>scan_line\<close> and keeps the length and
  the entries behind \<open>scan_line\<close> (\<open>scan_line\<close> lying in the buffer). Hence a unit that
  starts on an all-zero buffer and whose coefficient reader writes nothing behind the
  \<open>max_scan_line\<close> it reports (and nothing at all when it reports \<open>eob = 0\<close>) hands an
  all-zero buffer to the next unit: no unit sees coefficients of an earlier one.
\<close>

theorem inverse_transform_block_zeroes_dqcoeff:
  "(- 1 \<le> scan_line \<and> scan_line < int (length dqcoeff) \<longrightarrow>
      (\<exists>dqcoeff'. inverse_transform_block itx dqcoeff dst scan_line eob
                   = Inr (dqcoeff', itx dqcoeff eob dst) \<and>
         length dqcoeff' = length dqcoeff \<and>
         (\<forall>i. int i \<le> scan_line \<longrightarrow> dqcoeff' ! i = 0) \<and>
         (\<forall>i. scan_line < int i \<and> i < length dqcoeff \<longrightarrow> dqcoeff' ! i = dqcoeff ! i))) \<and>
   ((\<forall>i < length dq0. dq0 ! i = 0) \<and>
    read_coeffs r dq0 = (r1, dq1, max_scan_line, eob1) \<and>
    length dq1 = length dq0 \<and>
    (\<forall>i < length dq1. dq1 ! i \<noteq> 0 \<longrightarrow> eob1 \<noteq> 0 \<and> int i \<le> max_scan_line) \<and>
    - 1 \<le> max_scan_line \<and> max_scan_line < int (length dq1) \<longrightarrow>
      (\<exists>r2 dq2 dst2.
         predict_and_reconstruct_intra_block predict read_coeffs itx skip r dq0 dst
           = Inr (r2, dq2, dst2) \<and>
         length dq2 = length dq0 \<and> (\<forall>i < length dq2. dq2 ! i = 0)))"
proof (intro conjI impI)
  assume "- 1 \<le> scan_line \<and> scan_line < int (length dqcoeff)"
  then obtain dq' where m: "memset_dqcoeff dqcoeff (scan_line + 1) = Inr dq'"
    by (auto simp: memset_dqcoeff_def)
  have "inverse_transform_block itx dqcoeff dst scan_line eob = Inr (dq', itx dqcoeff eob dst)"
    by (simp add: inverse_transform_block_def bind_def Let_def m)
  moreover have "length dq' = length dqcoeff" by (rule memset_dqcoeff_Inr(3) [OF m])
  moreover have "\<forall>i. int i \<le> scan_line \<longrightarrow> dq' ! i = 0"
  proof (intro allI impI)
    fix i assume "int i \<le> scan_line"
    then have "i < nat (scan_line + 1)" by linarith
    then show "dq' ! i = 0" by (rule memset_dqcoeff_Inr(4) [OF m])
  qed
  moreover have "\<forall>i. scan_line < int i \<and> i < length dqcoeff \<longrightarrow> dq' ! i = dqcoeff ! i"
  proof (intro allI impI)
    fix i assume "scan_line < int i \<and> i < length dqcoeff"
    then have "nat (scan_line + 1) \<le> i" "i < length dqcoeff" by linarith+
    then show "dq' ! i = dqcoeff ! i" by (rule memset_dqcoeff_Inr(5) [OF m])
  qed
  ultimately show "\<exists>dqcoeff'. inverse_transform_block itx dqcoeff dst scan_line eob
                   = Inr (dqcoeff', itx dqcoeff eob dst) \<and>
         length dqcoeff' = length dqcoeff \<and>
         (\<forall>i. int i \<le> scan_line \<longrightarrow> dqcoeff' ! i = 0) \<and>
         (\<forall>i. scan_line < int i \<and> i < length dqcoeff \<longrightarrow> dqcoeff' ! i = dqcoeff ! i)"
    by blast
next
  assume h: "(\<forall>i < length dq0. dq0 ! i = 0) \<and>
    read_coeffs r dq0 = (r1, dq1, max_scan_line, eob1) \<and>
    length dq1 = length dq0 \<and>
    (\<forall>i < length dq1. dq1 ! i \<noteq> 0 \<longrightarrow> eob1 \<noteq> 0 \<and> int i \<le> max_scan_line) \<and>
    - 1 \<le> max_scan_line \<and> max_scan_line < int (length dq1)"
  then have z0: "\<forall>i < length dq0. dq0 ! i = 0"
    and rc: "read_coeffs r dq0 = (r1, dq1, max_scan_line, eob1)"
    and len1: "length dq1 = length dq0"
    and c: "\<forall>i < length dq1. dq1 ! i \<noteq> 0 \<longrightarrow> eob1 \<noteq> 0 \<and> int i \<le> max_scan_line"
    and rng: "- 1 \<le> max_scan_line" "max_scan_line < int (length dq1)"
    by blast+
  show "\<exists>r2 dq2 dst2.
         predict_and_reconstruct_intra_block predict read_coeffs itx skip r dq0 dst
           = Inr (r2, dq2, dst2) \<and>
         length dq2 = length dq0 \<and> (\<forall>i < length dq2. dq2 ! i = 0)"
  proof (cases skip)
    case True
    then have "predict_and_reconstruct_intra_block predict read_coeffs itx skip r dq0 dst
      = Inr (r, dq0, predict dst)"
      by (simp add: predict_and_reconstruct_intra_block_def Let_def)
    with z0 show ?thesis by blast
  next
    case False
    show ?thesis
    proof (cases "eob1 = 0")
      case True
      with False rc
      have "predict_and_reconstruct_intra_block predict read_coeffs itx skip r dq0 dst
        = Inr (r1, dq1, predict dst)"
        by (simp add: predict_and_reconstruct_intra_block_def Let_def)
      moreover from c True have "\<forall>i < length dq1. dq1 ! i = 0" by blast
      ultimately show ?thesis using len1 by blast
    next
      case nz: False
      from rng obtain dq2 where m0: "memset_dqcoeff dq1 (max_scan_line + 1) = Inr dq2"
        by (auto simp: memset_dqcoeff_def)
      note m = memset_dqcoeff_Inr [OF m0]
      from False nz rc m0
      have run: "predict_and_reconstruct_intra_block predict read_coeffs itx skip r dq0 dst
        = Inr (r1, dq2, itx dq1 eob1 (predict dst))"
        by (simp add: predict_and_reconstruct_intra_block_def inverse_transform_block_def
            bind_def Let_def)
      have "dq2 ! i = 0" if "i < length dq2" for i
      proof (cases "i < nat (max_scan_line + 1)")
        case True
        then show ?thesis by (rule m(4))
      next
        case False
        then have le: "nat (max_scan_line + 1) \<le> i" by simp
        from that m(3) have i1: "i < length dq1" by simp
        from le m(1) have "\<not> int i \<le> max_scan_line" by linarith
        with c i1 have "dq1 ! i = 0" by blast
        with m(5) [OF le i1] show ?thesis by simp
      qed
      with m(3) len1 run show ?thesis by auto
    qed
  qed
qed

theorem inverse_transform_block_zeroes_dqcoeff_witness:
  "inverse_transform_block (\<lambda>dq eob p. p + sum_list dq) [5, - 3, 0, 7] (10 :: int) 1 2
     = Inr ([0, 0, 0, 7], 19) \<and>
   predict_and_reconstruct_intra_block (\<lambda>p. p + 1)
     (\<lambda>r dq. (Suc r, [4, 0, - 2, 0], 2, 3)) (\<lambda>dq eob p. p + sum_list dq)
     False (0 :: nat) [0, 0, 0, 0] (10 :: int) = Inr (1, [0, 0, 0, 0], 13)"
proof -
  let ?itx = "\<lambda>(dq :: int list) (eob :: int) (p :: int). p + sum_list dq"
  let ?rc = "\<lambda>(r :: nat) (dq :: int list). (Suc r, [4, 0, - 2, 0 :: int], 2 :: int, 3 :: int)"
  note t = inverse_transform_block_zeroes_dqcoeff
    [where scan_line = 1 and dqcoeff = "[5, - 3, 0, 7]" and itx = ?itx and dst = 10
       and eob = 2 and ?dq0.0 = "[0, 0, 0, 0]" and read_coeffs = ?rc and r = 0 and ?r1.0 = 1
       and ?dq1.0 = "[4, 0, - 2, 0]" and max_scan_line = 2 and ?eob1.0 = 3
       and predict = "\<lambda>p. p + 1" and skip = False]
  have "\<forall>i < length [4, 0, - 2, 0 :: int]. [4, 0, - 2, 0 :: int] ! i \<noteq> 0
          \<longrightarrow> (3 :: int) \<noteq> 0 \<and> int i \<le> 2"
    by (simp add: less_Suc_eq nth_Cons')
  with t show ?thesis
    by (simp add: inverse_transform_block_def predict_and_reconstruct_intra_block_def
        memset_dqcoeff_def bind_def eval_nat_numeral)
qed

text \<open>
  C6. On an INTER frame whose header reads \<open>apply_grain\<close> as set, a 16-bit
  \<open>random_seed\<close>, \<open>update_parameters\<close> as 0 and a 3-bit reference index naming a
  populated slot (the table has its 8 slots and the slot holds a buffer of the pool):
  when that buffer has film grain parameters saved, the resulting parameter set is the
  saved one with only \<open>random_seed\<close> replaced by the value just read, and everything
  else of the frame state is as before; when it has none, parsing fails with
  UNSUP_BITSTREAM "Film grain reference parameters not available". The code does not
  test the slot: for an index naming a slot that holds no buffer (\<open>ref_frame_map\<close>
  is -1 there) it reads \<open>frame_bufs[-1]\<close>.
\<close>

theorem av1_read_film_grain_params_inherit:
  assumes "fg_frame_type cm = INTER_FRAME"
    and "aom_rb_read_bit rb = Inr (ag, rb1)" and "ag \<noteq> 0"
    and "aom_rb_read_literal rb1 16 = Inr (seed, rb2)"
    and "aom_rb_read_bit rb2 = Inr (0, rb3)"
    and "aom_rb_read_literal rb3 3 = Inr (ref_idx, rb4)"
    and "length (fg_ref_frame_map cm) = 8"
    and "buf_idx = fg_ref_frame_map cm ! nat ref_idx"
    and "0 \<le> buf_idx" and "buf_idx < int (length (fg_frame_bufs cm))"
    and "buf = fg_frame_bufs cm ! nat buf_idx"
  shows "av1_read_film_grain_params cm rb =
     (if film_grain_params_present buf \<noteq> 0
      then Inr (cm\<lparr>cm_film_grain_params := (film_grain_params buf)\<lparr>random_seed := seed\<rparr>\<rparr>, rb4)
      else Inl (Internal_Error AOM_CODEC_UNSUP_BITSTREAM
                  ''Film grain reference parameters not available''))"
proof -
  from aom_rb_read_literal_range [OF assms(6)] have "0 \<le> ref_idx" "ref_idx < 8" by simp_all
  with assms(7,8) have m: "array_read (fg_ref_frame_map cm) ref_idx = Inr buf_idx"
    by (simp add: array_read_def)
  from assms(9-11) have b: "array_read (fg_frame_bufs cm) buf_idx = Inr buf"
    by (simp add: array_read_def)
  show ?thesis
    unfolding av1_read_film_grain_params_def
    by (simp add: assms(1-6) m b aom_internal_error_def Let_def)
qed

theorem av1_read_film_grain_params_inherit_witness:
  "av1_read_film_grain_params
     \<lparr>fg_frame_type = INTER_FRAME, fg_ref_frame_map = [0, 1, - 1, - 1, - 1, - 1, - 1, - 1],
      fg_frame_bufs = [\<lparr>film_grain_params_present = 0, film_grain_params = film_grain_zero\<rparr>,
                       \<lparr>film_grain_params_present = 1,
                        film_grain_params = film_grain_zero\<lparr>apply_grain := 1, num_y_points := 2,
                                                              random_seed := 7\<rparr>\<rparr>],
      fg_monochrome = 0, fg_subsampling_x = 1, fg_subsampling_y = 1,
      cm_film_grain_params = film_grain_zero\<rparr>
     
       [True, False, False, False, False, False, False, False, False, False, False, False, False, False, False, True, True, False, False, False, True, True]
   = Inr (\<lparr>fg_frame_type = INTER_FRAME, fg_ref_frame_map = [0, 1, - 1, - 1, - 1, - 1, - 1, - 1],
      fg_frame_bufs = [\<lparr>film_grain_params_present = 0, film_grain_params = film_grain_zero\<rparr>,
                       \<lparr>film_grain_params_present = 1,
                        film_grain_params = film_grain_zero\<lparr>apply_grain := 1, num_y_points := 2,
                                                              random_seed := 7\<rparr>\<rparr>],
      fg_monochrome = 0, fg_subsampling_x = 1, fg_subsampling_y = 1,
      cm_film_grain_params = film_grain_zero\<lparr>apply_grain := 1, num_y_points := 2,
                                                random_seed := 3\<rparr>\<rparr>, [True]) \<and>
   av1_read_film_grain_params
     \<lparr>fg_frame_type = INTER_FRAME, fg_ref_frame_map = [0, 1, - 1, - 1, - 1, - 1, - 1, - 1],
      fg_frame_bufs = [\<lparr>film_grain_params_present = 0, film_grain_params = film_grain_zero\<rparr>],
      fg_monochrome = 0, fg_subsampling_x = 1, fg_subsampling_y = 1,
      cm_film_grain_params = film_grain_zero\<rparr>
     
       [True, False, False, False, False, False, False, False, False, False, False, False, False, False, False, True, True, False, False, False, False, True]
   = Inl (Internal_Error AOM_CODEC_UNSUP_BITSTREAM
            ''Film grain reference parameters not available'')"
proof -
  let ?b0 = "\<lparr>film_grain_params_present = 0, film_grain_params = film_grain_zero\<rparr>"
  let ?b1 = "\<lparr>film_grain_params_present = 1,
              film_grain_params = film_grain_zero\<lparr>apply_grain := 1, num_y_points := 2,
                                                    random_seed := 7\<rparr>\<rparr>"
  let ?cm = "\<lambda>bufs. \<lparr>fg_frame_type = INTER_FRAME,
      fg_ref_frame_map = [0, 1, - 1, - 1, - 1, - 1, - 1, - 1 :: int],
      fg_frame_bufs = bufs, fg_monochrome = 0, fg_subsampling_x = 1, fg_subsampling_y = 1,
      cm_film_grain_params = film_grain_zero\<rparr>"
  have a: "av1_read_film_grain_params (?cm [?b0, ?b1]) 
       [True, False, False, False, False, False, False, False, False, False, False, False, False, False, False, True, True, False, False, False, True, True]
    = (if film_grain_params_present ?b1 \<noteq> 0
       then Inr ((?cm [?b0, ?b1])\<lparr>cm_film_grain_params :=
              (film_grain_params ?b1)\<lparr>random_seed := 3\<rparr>\<rparr>, [True])
       else Inl (Internal_Error AOM_CODEC_UNSUP_BITSTREAM
                  ''Film grain reference parameters not available''))"
    by (rule av1_read_film_grain_params_inherit
          [where ag = 1 and ?rb1.0 = "[False, False, False, False, False, False, False, False, False, False, False, False, False, False, True, True, False, False, False, True, True]"
             and ?rb2.0 = "[False, False, False, True, True]"
             and ?rb3.0 = "[False, False, True, True]" and ref_idx = 1 and buf_idx = 1])
       (simp_all add: aom_rb_read_bit_def eval_nat_numeral)
  have b: "av1_read_film_grain_params (?cm [?b0]) 
       [True, False, False, False, False, False, False, False, False, False, False, False, False, False, False, True, True, False, False, False, False, True]
    = (if film_grain_params_present ?b0 \<noteq> 0
       then Inr ((?cm [?b0])\<lparr>cm_film_grain_params :=
              (film_grain_params ?b0)\<lparr>random_seed := 3\<rparr>\<rparr>, [True])
       else Inl (Internal_Error AOM_CODEC_UNSUP_BITSTREAM
                  ''Film grain reference parameters not available''))"
    by (rule av1_read_film_grain_params_inherit
          [where ag = 1 and ?rb1.0 = "[False, False, False, False, False, False, False, False, False, False, False, False, False, False, True, True, False, False, False, False, True]"
             and ?rb2.0 = "[False, False, False, False, True]"
             and ?rb3.0 = "[False, False, False, True]" and ref_idx = 0 and buf_idx = 0])
       (simp_all add: aom_rb_read_bit_def eval_nat_numeral)
  from a b show ?thesis by (simp add: film_grain_zero_def)
qed

text \<open>
  The same header with the reference index 2, a slot that holds no buffer: the read of
  \<open>frame_bufs\<close> is outside the array, so the parameters of no reference are inherited
  and UNSUP_BITSTREAM is not raised.
\<close>

theorem av1_read_film_grain_params_unpopulated_slot:
  "av1_read_film_grain_params
     \<lparr>fg_frame_type = INTER_FRAME, fg_ref_frame_map = [0, 1, - 1, - 1, - 1, - 1, - 1, - 1],
      fg_frame_bufs = [\<lparr>film_grain_params_present = 0, film_grain_params = film_grain_zero\<rparr>,
                       \<lparr>film_grain_params_present = 1,
                        film_grain_params = film_grain_zero\<lparr>apply_grain := 1, num_y_points := 2,
                                                              random_seed := 7\<rparr>\<rparr>],
      fg_monochrome = 0, fg_subsampling_x = 1, fg_subsampling_y = 1,
      cm_film_grain_params = film_grain_zero\<rparr>
     [True, False, False, False, False, False, False, False, False, False, False, False, False,
      False, False, True, True, False, False, True, False, True]
   = Inl Out_Of_Bounds"
  by code_simp

lemma read_gm_shear_irrelevant [simp]:
  "read_gm_type (E\<lparr>get_shear_params := sh\<rparr>) = read_gm_type E"
  "read_gm_rotzoom (E\<lparr>get_shear_params := sh\<rparr>) = read_gm_rotzoom E"
  "read_gm_affine (E\<lparr>get_shear_params := sh\<rparr>) = read_gm_affine E"
  "read_gm_translation (E\<lparr>get_shear_params := sh\<rparr>) = read_gm_translation E"
  by (simp_all add: fun_eq_iff read_gm_type_def read_gm_rotzoom_def read_gm_affine_def
      read_gm_translation_def Let_def cong: if_cong)

lemma read_gm_matrix_shear_irrelevant [simp]:
  "read_gm_matrix (E\<lparr>get_shear_params := sh\<rparr>) = read_gm_matrix E"
  by (simp add: fun_eq_iff read_gm_matrix_def)

definition same_outcome :: "error + ('a \<times> 'r) \<Rightarrow> error + ('b \<times> 'r) \<Rightarrow> bool" where
  "same_outcome x y =
     (case x of Inl e \<Rightarrow> y = Inl e | Inr (a, r) \<Rightarrow> (case y of Inl e \<Rightarrow> False | Inr (b, r') \<Rightarrow> r' = r))"

lemma read_global_motion_params_shear:
  "(\<exists>e. read_global_motion_params E ref rb hp = Inl e \<and>
         read_global_motion_params (E\<lparr>get_shear_params := sh\<rparr>) ref rb hp = Inl e) \<or>
   (\<exists>g p g' p' rb'. read_global_motion_params E ref rb hp = Inr (g, p, rb') \<and>
         read_global_motion_params (E\<lparr>get_shear_params := sh\<rparr>) ref rb hp = Inr (g', p', rb'))"
  unfolding read_global_motion_params_def
  by (cases "read_gm_matrix E ref rb hp") (auto split: prod.splits)

definition gm_frame_inputs_agree :: "gm_cm \<Rightarrow> gm_cm \<Rightarrow> bool" where
  "gm_frame_inputs_agree c1 c2 \<longleftrightarrow>
     prev_frame_global_motion c1 = prev_frame_global_motion c2 \<and>
     allow_high_precision_mv c1 = allow_high_precision_mv c2 \<and>
     length (global_motion c1) = length (global_motion c2)"

lemma read_global_motion_frame_shear:
  assumes "gm_frame_inputs_agree c1 c2"
  shows "(\<exists>e. read_global_motion_frame E c1 rb f = Inl e \<and>
         read_global_motion_frame (E\<lparr>get_shear_params := sh\<rparr>) c2 rb f = Inl e) \<or>
   (\<exists>d1 d2 rb'. read_global_motion_frame E c1 rb f = Inr (d1, rb') \<and>
         read_global_motion_frame (E\<lparr>get_shear_params := sh\<rparr>) c2 rb f = Inr (d2, rb') \<and>
         gm_frame_inputs_agree d1 d2)"
proof -
  let ?E' = "E\<lparr>get_shear_params := sh\<rparr>"
  let ?ref = "case prev_frame_global_motion c1 of
           Some gm \<Rightarrow> array_read gm (int f) | None \<Rightarrow> Inr (default_warp_params E)"
  from assms have eq: "prev_frame_global_motion c2 = prev_frame_global_motion c1"
    "allow_high_precision_mv c2 = allow_high_precision_mv c1"
    "length (global_motion c2) = length (global_motion c1)"
    by (simp_all add: gm_frame_inputs_agree_def)
  have ref': "(case prev_frame_global_motion c1 of
           Some gm \<Rightarrow> array_read gm (int f) | None \<Rightarrow> Inr (default_warp_params ?E')) = ?ref"
    by (simp split: option.splits)
  show ?thesis
  proof (cases ?ref)
    case (Inl e)
    then show ?thesis by (simp add: read_global_motion_frame_def eq ref')
  next
    case (Inr ref)
    from read_global_motion_params_shear [of E ref rb "allow_high_precision_mv c1" sh]
    show ?thesis
    proof (elim disjE exE conjE)
      fix e
      assume "read_global_motion_params E ref rb (allow_high_precision_mv c1) = Inl e"
        "read_global_motion_params ?E' ref rb (allow_high_precision_mv c1) = Inl e"
      then show ?thesis by (simp add: read_global_motion_frame_def eq ref' Inr)
    next
      fix g p g' p' rb'
      assume "read_global_motion_params E ref rb (allow_high_precision_mv c1) = Inr (g, p, rb')"
        "read_global_motion_params ?E' ref rb (allow_high_precision_mv c1) = Inr (g', p', rb')"
      then show ?thesis
        by (cases "length (global_motion c1) \<le> f")
           (simp_all add: read_global_motion_frame_def eq ref' Inr Let_def
              gm_frame_inputs_agree_def)
    qed
  qed
qed

lemma read_global_motion_loop_shear:
  "gm_frame_inputs_agree c1 c2 \<Longrightarrow>
   same_outcome (read_global_motion_loop E c1 rb f k)
     (read_global_motion_loop (E\<lparr>get_shear_params := sh\<rparr>) c2 rb f k)"
proof (induction k arbitrary: c1 c2 rb f)
  case 0
  then show ?case by (simp add: same_outcome_def)
next
  case (Suc k)
  from read_global_motion_frame_shear [OF Suc.prems, of E rb f sh]
  show ?case
  proof (elim disjE exE conjE)
    fix e
    assume "read_global_motion_frame E c1 rb f = Inl e"
      "read_global_motion_frame (E\<lparr>get_shear_params := sh\<rparr>) c2 rb f = Inl e"
    then show ?thesis by (simp add: same_outcome_def)
  next
    fix d1 d2 rb'
    assume "read_global_motion_frame E c1 rb f = Inr (d1, rb')"
      "read_global_motion_frame (E\<lparr>get_shear_params := sh\<rparr>) c2 rb f = Inr (d2, rb')"
      "gm_frame_inputs_agree d1 d2"
    with Suc.IH [of d1 d2 rb' "Suc f"] show ?thesis by simp
  qed
qed

text \<open>
  C5, as the code has it. A failure of \<^verbatim>\<open>get_shear_params\<close> does not fail the
  parse. When the parameters decoded for a reference have a model type up to AFFINE
  and \<^verbatim>\<open>get_shear_params\<close> rejects them (it returns 0),
  \<open>read_global_motion_params\<close> returns 0 with the bits of that reference read;
  \<open>read_global_motion\<close> then stores the parameters with \<open>invalid\<close> set to 1 and its
  loop goes on with the next reference. \<open>read_global_motion_params\<close> returns 0 or 1,
  and 0 only on such a rejection. Whether \<open>read_global_motion\<close> fails, with which
  error, and which bits it leaves unread is the same whatever \<^verbatim>\<open>get_shear_params\<close>
  answers (only the bit reads can fail).
\<close>

theorem read_global_motion_marks_invalid:
  "(read_gm_matrix E ref_params rb (allow_high_precision_mv cm) = Inr (params, rb1) \<and>
    wmtype params \<le> AFFINE E \<and>
    get_shear_params E params = (0, params2) \<longrightarrow>
      read_global_motion_params E ref_params rb (allow_high_precision_mv cm) =
        Inr (0, params2, rb1) \<and>
      ((case prev_frame_global_motion cm of
          Some gm \<Rightarrow> array_read gm (int frame) | None \<Rightarrow> Inr (default_warp_params E))
         = Inr ref_params \<and>
       frame < length (global_motion cm) \<longrightarrow>
         read_global_motion_frame E cm rb frame =
           Inr (cm\<lparr>global_motion := (global_motion cm)[frame := params2\<lparr>invalid := 1\<rparr>]\<rparr>, rb1) \<and>
         read_global_motion_loop E cm rb frame (Suc k) =
           read_global_motion_loop E
             (cm\<lparr>global_motion := (global_motion cm)[frame := params2\<lparr>invalid := 1\<rparr>]\<rparr>)
             rb1 (Suc frame) k)) \<and>
   (read_global_motion_params E ref_params rb hp = Inr (good_params, params', rb') \<longrightarrow>
      (good_params = 0 \<or> good_params = 1) \<and>
      (good_params = 0 \<longleftrightarrow>
         (\<exists>p. read_gm_matrix E ref_params rb hp = Inr (p, rb') \<and> wmtype p \<le> AFFINE E \<and>
              get_shear_params E p = (0, params')))) \<and>
   same_outcome (read_global_motion E cm rb)
     (read_global_motion (E\<lparr>get_shear_params := sh\<rparr>) cm rb)"
proof -
  have c1: "read_gm_matrix E ref_params rb (allow_high_precision_mv cm) = Inr (params, rb1) \<and>
    wmtype params \<le> AFFINE E \<and>
    get_shear_params E params = (0, params2) \<longrightarrow>
      read_global_motion_params E ref_params rb (allow_high_precision_mv cm) =
        Inr (0, params2, rb1) \<and>
      ((case prev_frame_global_motion cm of
          Some gm \<Rightarrow> array_read gm (int frame) | None \<Rightarrow> Inr (default_warp_params E))
         = Inr ref_params \<and>
       frame < length (global_motion cm) \<longrightarrow>
         read_global_motion_frame E cm rb frame =
           Inr (cm\<lparr>global_motion := (global_motion cm)[frame := params2\<lparr>invalid := 1\<rparr>]\<rparr>, rb1) \<and>
         read_global_motion_loop E cm rb frame (Suc k) =
           read_global_motion_loop E
             (cm\<lparr>global_motion := (global_motion cm)[frame := params2\<lparr>invalid := 1\<rparr>]\<rparr>)
             rb1 (Suc frame) k)"
  proof (rule impI)
    assume h: "read_gm_matrix E ref_params rb (allow_high_precision_mv cm) = Inr (params, rb1) \<and>
      wmtype params \<le> AFFINE E \<and> get_shear_params E params = (0, params2)"
    then have r: "read_global_motion_params E ref_params rb (allow_high_precision_mv cm) =
        Inr (0, params2, rb1)"
      by (simp add: read_global_motion_params_def)
    have f: "(case prev_frame_global_motion cm of
          Some gm \<Rightarrow> array_read gm (int frame) | None \<Rightarrow> Inr (default_warp_params E))
         = Inr ref_params \<and>
       frame < length (global_motion cm) \<longrightarrow>
         read_global_motion_frame E cm rb frame =
           Inr (cm\<lparr>global_motion := (global_motion cm)[frame := params2\<lparr>invalid := 1\<rparr>]\<rparr>, rb1) \<and>
         read_global_motion_loop E cm rb frame (Suc k) =
           read_global_motion_loop E
             (cm\<lparr>global_motion := (global_motion cm)[frame := params2\<lparr>invalid := 1\<rparr>]\<rparr>)
             rb1 (Suc frame) k"
    proof (rule impI)
      assume g: "(case prev_frame_global_motion cm of
          Some gm \<Rightarrow> array_read gm (int frame) | None \<Rightarrow> Inr (default_warp_params E))
         = Inr ref_params \<and> frame < length (global_motion cm)"
      then have fr: "read_global_motion_frame E cm rb frame =
           Inr (cm\<lparr>global_motion := (global_motion cm)[frame := params2\<lparr>invalid := 1\<rparr>]\<rparr>, rb1)"
        by (simp add: read_global_motion_frame_def r Let_def)
      then show "read_global_motion_frame E cm rb frame =
           Inr (cm\<lparr>global_motion := (global_motion cm)[frame := params2\<lparr>invalid := 1\<rparr>]\<rparr>, rb1) \<and>
         read_global_motion_loop E cm rb frame (Suc k) =
           read_global_motion_loop E
             (cm\<lparr>global_motion := (global_motion cm)[frame := params2\<lparr>invalid := 1\<rparr>]\<rparr>)
             rb1 (Suc frame) k"
        by simp
    qed
    from r f show "read_global_motion_params E ref_params rb (allow_high_precision_mv cm) =
        Inr (0, params2, rb1) \<and>
      ((case prev_frame_global_motion cm of
          Some gm \<Rightarrow> array_read gm (int frame) | None \<Rightarrow> Inr (default_warp_params E))
         = Inr ref_params \<and>
       frame < length (global_motion cm) \<longrightarrow>
         read_global_motion_frame E cm rb frame =
           Inr (cm\<lparr>global_motion := (global_motion cm)[frame := params2\<lparr>invalid := 1\<rparr>]\<rparr>, rb1) \<and>
         read_global_motion_loop E cm rb frame (Suc k) =
           read_global_motion_loop E
             (cm\<lparr>global_motion := (global_motion cm)[frame := params2\<lparr>invalid := 1\<rparr>]\<rparr>)
             rb1 (Suc frame) k)"
      by (rule conjI)
  qed
  have c2: "read_global_motion_params E ref_params rb hp = Inr (good_params, params', rb') \<longrightarrow>
      (good_params = 0 \<or> good_params = 1) \<and>
      (good_params = 0 \<longleftrightarrow>
         (\<exists>p. read_gm_matrix E ref_params rb hp = Inr (p, rb') \<and> wmtype p \<le> AFFINE E \<and>
              get_shear_params E p = (0, params')))"
  proof (cases "read_gm_matrix E ref_params rb hp")
    case (Inl e)
    then show ?thesis by (simp add: read_global_motion_params_def)
  next
    case (Inr y)
    obtain p r where y: "y = (p, r)" by (cases y)
    obtain g p2 where sh: "get_shear_params E p = (g, p2)" by (cases "get_shear_params E p")
    show ?thesis
      unfolding read_global_motion_params_def Inr y using sh
      by (auto split: if_splits)
  qed
  have "gm_frame_inputs_agree cm cm" by (simp add: gm_frame_inputs_agree_def)
  from read_global_motion_loop_shear [OF this, of E rb "LAST_FRAME E"
      "Suc (ALTREF_FRAME E) - LAST_FRAME E" sh]
  have c3: "same_outcome (read_global_motion E cm rb)
     (read_global_motion (E\<lparr>get_shear_params := sh\<rparr>) cm rb)"
    by (cases "read_global_motion_loop E cm rb (LAST_FRAME E) (Suc (ALTREF_FRAME E) - LAST_FRAME E)";
        cases "read_global_motion_loop (E\<lparr>get_shear_params := sh\<rparr>) cm rb (LAST_FRAME E)
                 (Suc (ALTREF_FRAME E) - LAST_FRAME E)")
       (auto simp: read_global_motion_def same_outcome_def)
  from c1 c2 c3 show ?thesis by (intro conjI)
qed

theorem read_global_motion_marks_invalid_witness:
  "read_global_motion_params gm_env_instance (default_warp_params gm_env_instance)
     gm_bits_example (allow_high_precision_mv gm_cm_example) =
     Inr (0, gm_rotzoom_example\<lparr>alpha := 8190, beta := 8190\<rparr>, replicate 6 False) \<and>
   read_global_motion_frame gm_env_instance gm_cm_example gm_bits_example 1 =
     Inr (gm_cm_example\<lparr>global_motion := (global_motion gm_cm_example)
            [1 := gm_rotzoom_example\<lparr>alpha := 8190, beta := 8190, invalid := 1\<rparr>]\<rparr>,
          replicate 6 False) \<and>
   same_outcome (read_global_motion gm_env_instance gm_cm_example gm_bits_example)
     (read_global_motion (gm_env_instance\<lparr>get_shear_params := \<lambda>p. (1, p)\<rparr>)
        gm_cm_example gm_bits_example)"
proof -
  let ?E = gm_env_instance and ?cm = gm_cm_example
  let ?p2 = "gm_rotzoom_example\<lparr>alpha := 8190, beta := 8190\<rparr>"
  have a: "read_gm_matrix ?E (default_warp_params ?E) gm_bits_example
             (allow_high_precision_mv ?cm) = Inr (gm_rotzoom_example, replicate 6 False) \<and>
           wmtype gm_rotzoom_example \<le> AFFINE ?E \<and>
           get_shear_params ?E gm_rotzoom_example = (0, ?p2)"
    by code_simp
  have b: "(case prev_frame_global_motion ?cm of
       Some gm \<Rightarrow> array_read gm (int 1) | None \<Rightarrow> Inr (default_warp_params ?E))
    = Inr (default_warp_params ?E) \<and> 1 < length (global_motion ?cm)"
    by (simp add: gm_cm_example_def)
  note t = read_global_motion_marks_invalid
    [where E = ?E and cm = ?cm and rb = gm_bits_example
       and ref_params = "default_warp_params ?E" and params = gm_rotzoom_example
       and ?params2.0 = ?p2 and ?rb1.0 = "replicate 6 False" and frame = 1
       and sh = "\<lambda>p. (1, p)" and hp = "allow_high_precision_mv ?cm" and good_params = 0
       and params' = ?p2 and rb' = "replicate 6 False"]
  from t[THEN conjunct1, rule_format, OF a]
  have r: "read_global_motion_params ?E (default_warp_params ?E) gm_bits_example
             (allow_high_precision_mv ?cm) = Inr (0, ?p2, replicate 6 False)"
    and f: "(case prev_frame_global_motion ?cm of
          Some gm \<Rightarrow> array_read gm (int 1) | None \<Rightarrow> Inr (default_warp_params ?E))
         = Inr (default_warp_params ?E) \<and> 1 < length (global_motion ?cm) \<longrightarrow>
         read_global_motion_frame ?E ?cm gm_bits_example 1 =
           Inr (?cm\<lparr>global_motion := (global_motion ?cm)[1 := ?p2\<lparr>invalid := 1\<rparr>]\<rparr>,
                replicate 6 False) \<and>
         read_global_motion_loop ?E ?cm gm_bits_example 1 (Suc k) =
           read_global_motion_loop ?E
             (?cm\<lparr>global_motion := (global_motion ?cm)[1 := ?p2\<lparr>invalid := 1\<rparr>]\<rparr>)
             (replicate 6 False) (Suc 1) k"
    by blast+
  from f b have fr: "read_global_motion_frame ?E ?cm gm_bits_example 1 =
           Inr (?cm\<lparr>global_motion := (global_motion ?cm)[1 := ?p2\<lparr>invalid := 1\<rparr>]\<rparr>,
                replicate 6 False)"
    by blast
  from t[THEN conjunct2, THEN conjunct1, rule_format, OF r]
  have "\<exists>p. read_gm_matrix ?E (default_warp_params ?E) gm_bits_example
               (allow_high_precision_mv ?cm) = Inr (p, replicate 6 False) \<and>
             wmtype p \<le> AFFINE ?E \<and> get_shear_params ?E p = (0, ?p2)"
    by blast
  from t[THEN conjunct2, THEN conjunct2]
  have so: "same_outcome (read_global_motion ?E ?cm gm_bits_example)
     (read_global_motion (?E\<lparr>get_shear_params := \<lambda>p. (1, p)\<rparr>) ?cm gm_bits_example)" .
  from r fr so show ?thesis by simp
qed

text \<open>
  C5 as stated fails: on \<open>gm_bits_example\<close> the matrix decoded for the first reference
  is rejected by \<^verbatim>\<open>get_shear_params\<close> (it returns 0), and \<open>read_global_motion\<close>
  returns normally, all bits read, with that reference marked invalid.
\<close>

theorem read_global_motion_shear_counterexample:
  "get_shear_params gm_env_instance gm_rotzoom_example
     = (0, gm_rotzoom_example\<lparr>alpha := 8190, beta := 8190\<rparr>) \<and>
   read_global_motion gm_env_instance gm_cm_example gm_bits_example =
     Inr (gm_cm_example\<lparr>global_motion := (global_motion gm_cm_example)
            [1 := gm_rotzoom_example\<lparr>alpha := 8190, beta := 8190, invalid := 1\<rparr>],
          cur_frame_global_motion := (global_motion gm_cm_example)
            [1 := gm_rotzoom_example\<lparr>alpha := 8190, beta := 8190, invalid := 1\<rparr>]\<rparr>, [])"
  by code_simp

lemma array_read_Inr: "array_read a i = Inr v \<longleftrightarrow> 0 \<le> i \<and> i < int (length a) \<and> v = a ! nat i"
  by (auto simp: array_read_def)

lemma array_write_Inr:
  "array_write a i v = Inr a' \<longleftrightarrow> 0 \<le> i \<and> i < int (length a) \<and> a' = a[nat i := v]"
  by (auto simp: array_write_def)

lemma hold_ref_Inr:
  assumes "ri < length rfm" and "rfm ! ri < int (length counts)"
  shows "hold_ref counts rfm ri =
           Inr (if rfm ! ri \<ge> 0 then counts[nat (rfm ! ri) := counts ! nat (rfm ! ri) + 1] else counts)"
  using assms by (simp add: hold_ref_def inc_ref_count_def array_read_def array_write_def)

lemma next_ref_frame_map_rest_loop_result:
  assumes "ri + k = length rfm" and "length next = length rfm"
    and "\<forall>j. ri \<le> j \<and> j < length rfm \<longrightarrow> rfm ! j < int (length counts)"
  shows "\<exists>counts'. next_ref_frame_map_rest_loop rfm next counts ri k
            = Inr (take ri next @ drop ri rfm, counts') \<and>
          length counts' = length counts \<and>
          (\<forall>b < length counts.
             counts' ! b = counts ! b + int (count_list (drop ri rfm) (int b)))"
  using assms
proof (induction k arbitrary: ri "next" counts)
  case 0
  then show ?case by simp
next
  case (Suc k)
  from Suc.prems have ri: "ri < length rfm" "ri < length next" by simp_all
  from Suc.prems ri have bnd: "rfm ! ri < int (length counts)" by simp
  let ?c1 = "if rfm ! ri \<ge> 0 then counts[nat (rfm ! ri) := counts ! nat (rfm ! ri) + 1] else counts"
  let ?n1 = "next[ri := rfm ! ri]"
  have len1: "length ?c1 = length counts" by simp
  have step: "next_ref_frame_map_rest_loop rfm next counts ri (Suc k)
      = next_ref_frame_map_rest_loop rfm ?n1 ?c1 (Suc ri) k"
    using ri by (simp add: array_read_def array_write_def hold_ref_Inr [OF ri(1) bnd])
  have "\<exists>counts'. next_ref_frame_map_rest_loop rfm ?n1 ?c1 (Suc ri) k
            = Inr (take (Suc ri) ?n1 @ drop (Suc ri) rfm, counts') \<and>
          length counts' = length ?c1 \<and>
          (\<forall>b < length ?c1.
             counts' ! b = ?c1 ! b + int (count_list (drop (Suc ri) rfm) (int b)))"
    using Suc.prems by (intro Suc.IH) (simp_all only: len1, simp_all)
  then obtain counts' where r: "next_ref_frame_map_rest_loop rfm ?n1 ?c1 (Suc ri) k
            = Inr (take (Suc ri) ?n1 @ drop (Suc ri) rfm, counts')"
    and l: "length counts' = length counts"
    and c: "\<forall>b < length counts.
             counts' ! b = ?c1 ! b + int (count_list (drop (Suc ri) rfm) (int b))"
    by (auto simp only: len1)
  have t: "take (Suc ri) ?n1 @ drop (Suc ri) rfm = take ri next @ drop ri rfm"
    using ri by (simp add: take_Suc_conv_app_nth Cons_nth_drop_Suc)
  have d: "drop ri rfm = rfm ! ri # drop (Suc ri) rfm"
    using ri by (simp add: Cons_nth_drop_Suc)
  have "counts' ! b = counts ! b + int (count_list (drop ri rfm) (int b))"
    if "b < length counts" for b
  proof -
    from c that have "counts' ! b = ?c1 ! b + int (count_list (drop (Suc ri) rfm) (int b))"
      by blast
    moreover have "?c1 ! b = counts ! b + (if rfm ! ri = int b then 1 else 0)"
      using that by (auto simp: nth_list_update)
    ultimately show ?thesis by (simp add: d)
  qed
  with r l t step show ?case by auto
qed


lemma read_ref_slot_Inr:
  assumes "read_ref_slot K cm rb i = Inr (ref, cm1, rb1)"
  shows "\<exists>refs. cm1 = cm\<lparr>frame_refs := refs\<rparr> \<and> length refs = length (frame_refs cm) \<and>
     (frame_refs_short_signaling cm = 0 \<longrightarrow>
        aom_rb_read_literal rb (REF_FRAMES_LOG2 K) = Inr (ref, rb1) \<and>
        0 \<le> ref \<and> ref < int (length (ref_frame_map cm)) \<and>
        ref_frame_map cm ! nat ref \<noteq> - 1 \<and> i < length (frame_refs cm) \<and>
        refs = (frame_refs cm)[i := \<lparr>idx = ref_frame_map cm ! nat ref, map_idx = ref\<rparr>])"
proof (cases "frame_refs_short_signaling cm = 0")
  case True
  with assms show ?thesis
    by (auto simp: read_ref_slot_def bind_eq_Inr_iff array_read_Inr array_write_Inr
        aom_internal_error_def split: if_splits)
next
  case False
  with assms have "cm1 = cm"
    by (auto simp: read_ref_slot_def bind_eq_Inr_iff)
  then have "cm1 = cm\<lparr>frame_refs := frame_refs cm\<rparr>" by simp
  with False show ?thesis by blast
qed

lemma read_frame_refs_loop_Inr:
  assumes "read_frame_refs_loop K cm rb i k = Inr (cm', rb')"
  shows "\<exists>refs bias. cm' = cm\<lparr>frame_refs := refs, ref_frame_sign_bias := bias\<rparr> \<and>
     length refs = length (frame_refs cm) \<and>
     (frame_refs_short_signaling cm = 0 \<longrightarrow>
        (\<forall>j. i \<le> j \<and> j < i + k \<longrightarrow>
           j < length refs \<and>
           0 \<le> map_idx (refs ! j) \<and> map_idx (refs ! j) < int (length (ref_frame_map cm)) \<and>
           idx (refs ! j) = ref_frame_map cm ! nat (map_idx (refs ! j)) \<and>
           idx (refs ! j) \<noteq> - 1) \<and>
        (\<forall>j < i. refs ! j = frame_refs cm ! j))"
  using assms
proof (induction k arbitrary: cm rb i)
  case 0
  then have "cm' = cm\<lparr>frame_refs := frame_refs cm, ref_frame_sign_bias := ref_frame_sign_bias cm\<rparr>"
    by simp
  then show ?case by (intro exI [of _ "frame_refs cm"] exI [of _ "ref_frame_sign_bias cm"]) simp
next
  case (Suc k)
  from Suc.prems obtain ref cm1 rb1 bias rb2 where
    slot: "read_ref_slot K cm rb i = Inr (ref, cm1, rb1)"
    and rest: "read_frame_refs_loop K (cm1\<lparr>ref_frame_sign_bias := bias\<rparr>) rb2 (Suc i) k
                 = Inr (cm', rb')"
    by (auto simp: bind_eq_Inr_iff)
  from read_ref_slot_Inr [OF slot] obtain refs1 where
    cm1: "cm1 = cm\<lparr>frame_refs := refs1\<rparr>" and len1: "length refs1 = length (frame_refs cm)"
    and ex: "frame_refs_short_signaling cm = 0 \<longrightarrow>
        0 \<le> ref \<and> ref < int (length (ref_frame_map cm)) \<and>
        ref_frame_map cm ! nat ref \<noteq> - 1 \<and> i < length (frame_refs cm) \<and>
        refs1 = (frame_refs cm)[i := \<lparr>idx = ref_frame_map cm ! nat ref, map_idx = ref\<rparr>]"
    by blast
  let ?cm2 = "cm1\<lparr>ref_frame_sign_bias := bias\<rparr>"
  from Suc.IH [OF rest] obtain refs bias' where
    cm': "cm' = ?cm2\<lparr>frame_refs := refs, ref_frame_sign_bias := bias'\<rparr>"
    and len: "length refs = length (frame_refs ?cm2)"
    and ih: "frame_refs_short_signaling ?cm2 = 0 \<longrightarrow>
        (\<forall>j. Suc i \<le> j \<and> j < Suc i + k \<longrightarrow>
           j < length refs \<and>
           0 \<le> map_idx (refs ! j) \<and> map_idx (refs ! j) < int (length (ref_frame_map ?cm2)) \<and>
           idx (refs ! j) = ref_frame_map ?cm2 ! nat (map_idx (refs ! j)) \<and>
           idx (refs ! j) \<noteq> - 1) \<and>
        (\<forall>j < Suc i. refs ! j = frame_refs ?cm2 ! j)"
    by blast
  have a: "cm' = cm\<lparr>frame_refs := refs, ref_frame_sign_bias := bias'\<rparr>"
    by (simp add: cm' cm1)
  have b: "length refs = length (frame_refs cm)" using len len1 by (simp add: cm1)
  have c: "(\<forall>j. i \<le> j \<and> j < i + Suc k \<longrightarrow>
           j < length refs \<and>
           0 \<le> map_idx (refs ! j) \<and> map_idx (refs ! j) < int (length (ref_frame_map cm)) \<and>
           idx (refs ! j) = ref_frame_map cm ! nat (map_idx (refs ! j)) \<and>
           idx (refs ! j) \<noteq> - 1) \<and>
        (\<forall>j < i. refs ! j = frame_refs cm ! j)" if s0: "frame_refs_short_signaling cm = 0"
  proof (intro conjI allI impI)
    from s0 ex have e: "0 \<le> ref" "ref < int (length (ref_frame_map cm))"
      "ref_frame_map cm ! nat ref \<noteq> - 1" "i < length (frame_refs cm)"
      "refs1 = (frame_refs cm)[i := \<lparr>idx = ref_frame_map cm ! nat ref, map_idx = ref\<rparr>]"
      by blast+
    have fl: "frame_refs_short_signaling ?cm2 = 0" "ref_frame_map ?cm2 = ref_frame_map cm"
      "frame_refs ?cm2 = refs1"
      by (simp_all add: cm1 s0)
    from ih fl(1) have "(\<forall>j. Suc i \<le> j \<and> j < Suc i + k \<longrightarrow>
           j < length refs \<and>
           0 \<le> map_idx (refs ! j) \<and> map_idx (refs ! j) < int (length (ref_frame_map ?cm2)) \<and>
           idx (refs ! j) = ref_frame_map ?cm2 ! nat (map_idx (refs ! j)) \<and>
           idx (refs ! j) \<noteq> - 1) \<and>
        (\<forall>j < Suc i. refs ! j = frame_refs ?cm2 ! j)"
      by blast
    then have ih': "(\<forall>j. Suc i \<le> j \<and> j < Suc i + k \<longrightarrow>
           j < length refs \<and>
           0 \<le> map_idx (refs ! j) \<and> map_idx (refs ! j) < int (length (ref_frame_map cm)) \<and>
           idx (refs ! j) = ref_frame_map cm ! nat (map_idx (refs ! j)) \<and>
           idx (refs ! j) \<noteq> - 1) \<and>
        (\<forall>j < Suc i. refs ! j = refs1 ! j)"
      unfolding fl(2,3) .
    have ih1: "j < length refs \<and>
           0 \<le> map_idx (refs ! j) \<and> map_idx (refs ! j) < int (length (ref_frame_map cm)) \<and>
           idx (refs ! j) = ref_frame_map cm ! nat (map_idx (refs ! j)) \<and>
           idx (refs ! j) \<noteq> - 1" if "Suc i \<le> j" "j < Suc i + k" for j
      using ih' that by blast
    have ih2: "refs ! j = refs1 ! j" if "j < Suc i" for j
      using ih' that by blast
    have at_i: "refs ! i = \<lparr>idx = ref_frame_map cm ! nat ref, map_idx = ref\<rparr>"
      using ih2 [of i] e(4,5) by simp
    have all: "j < length refs \<and>
           0 \<le> map_idx (refs ! j) \<and> map_idx (refs ! j) < int (length (ref_frame_map cm)) \<and>
           idx (refs ! j) = ref_frame_map cm ! nat (map_idx (refs ! j)) \<and>
           idx (refs ! j) \<noteq> - 1" if j: "i \<le> j \<and> j < i + Suc k" for j
    proof (cases "j = i")
      case True
      with at_i e b show ?thesis by simp
    next
      case False
      with j have "Suc i \<le> j" "j < Suc i + k" by simp_all
      then show ?thesis by (rule ih1)
    qed
    {
      fix j assume j: "i \<le> j \<and> j < i + Suc k"
      from all [OF j] show "j < length refs" "0 \<le> map_idx (refs ! j)"
        "map_idx (refs ! j) < int (length (ref_frame_map cm))"
        "idx (refs ! j) = ref_frame_map cm ! nat (map_idx (refs ! j))"
        "idx (refs ! j) \<noteq> - 1" by blast+
    }
    fix j assume "j < i"
    then show "refs ! j = frame_refs cm ! j" using ih2 [of j] e(5) by simp
  qed
  from a b c show ?case by blast
qed


lemma read_short_signaling_Inr:
  assumes "read_short_signaling K sfr cm rb = Inr (cm', rb')"
  shows "\<exists>refs. cm' = cm\<lparr>frame_refs := refs\<rparr>"
  using assms
  by (auto simp: read_short_signaling_def bind_eq_Inr_iff aom_internal_error_def
      split: if_splits)

text \<open>
  C1. In the header of an inter frame, a signalled reference slot that was never populated
  (its \<open>ref_frame_map\<close> entry is -1) fails the parse with CORRUPT_FRAME "Inter frame
  requests nonexistent reference": with short signalling when the slot read for LAST or
  for GOLDEN is unpopulated, with explicit signalling at whichever iteration of the loop
  reads such a slot. When the reference part of the header returns under explicit
  signalling, every \<open>frame_refs\<close> entry holds the buffer index its slot has in
  \<open>ref_frame_map\<close>, and that index is not -1: no reference comes from an unpopulated
  slot.
\<close>

theorem read_frame_refs_nonexistent_reference:
  "(aom_rb_read_literal rb (REF_FRAMES_LOG2 K) = Inr (lst_ref, rb1) \<and>
    aom_rb_read_literal rb1 (REF_FRAMES_LOG2 K) = Inr (gld_ref, rb2) \<and>
    length (ref_frame_map cm) = 2 ^ REF_FRAMES_LOG2 K \<and>
    (ref_frame_map cm ! nat lst_ref = - 1 \<or> ref_frame_map cm ! nat gld_ref = - 1) \<longrightarrow>
      read_short_signaling K set_frame_refs cm rb =
        Inl (Internal_Error AOM_CODEC_CORRUPT_FRAME
               ''Inter frame requests nonexistent reference'')) \<and>
   (frame_refs_short_signaling cm = 0 \<and>
    aom_rb_read_literal rb (REF_FRAMES_LOG2 K) = Inr (ref, rb3) \<and>
    length (ref_frame_map cm) = 2 ^ REF_FRAMES_LOG2 K \<and>
    ref_frame_map cm ! nat ref = - 1 \<longrightarrow>
      read_frame_refs_loop K cm rb i (Suc k) =
        Inl (Internal_Error AOM_CODEC_CORRUPT_FRAME
               ''Inter frame requests nonexistent reference'')) \<and>
   (read_refresh_flags_and_refs K set_frame_refs cm rb = Inr (cm', rb') \<and>
    frame_refs_short_signaling cm' = 0 \<longrightarrow>
      (\<forall>j < INTER_REFS_PER_FRAME K.
         j < length (frame_refs cm') \<and>
         0 \<le> map_idx (frame_refs cm' ! j) \<and>
         map_idx (frame_refs cm' ! j) < int (length (ref_frame_map cm)) \<and>
         idx (frame_refs cm' ! j) = ref_frame_map cm ! nat (map_idx (frame_refs cm' ! j)) \<and>
         idx (frame_refs cm' ! j) \<noteq> - 1))"
proof (intro conjI impI)
  assume h: "aom_rb_read_literal rb (REF_FRAMES_LOG2 K) = Inr (lst_ref, rb1) \<and>
    aom_rb_read_literal rb1 (REF_FRAMES_LOG2 K) = Inr (gld_ref, rb2) \<and>
    length (ref_frame_map cm) = 2 ^ REF_FRAMES_LOG2 K \<and>
    (ref_frame_map cm ! nat lst_ref = - 1 \<or> ref_frame_map cm ! nat gld_ref = - 1)"
  then have l: "aom_rb_read_literal rb (REF_FRAMES_LOG2 K) = Inr (lst_ref, rb1)"
    and g: "aom_rb_read_literal rb1 (REF_FRAMES_LOG2 K) = Inr (gld_ref, rb2)"
    and len: "int (length (ref_frame_map cm)) = 2 ^ REF_FRAMES_LOG2 K"
    and m: "ref_frame_map cm ! nat lst_ref = - 1 \<or> ref_frame_map cm ! nat gld_ref = - 1"
    by simp_all
  from aom_rb_read_literal_range [OF l] len
  have rl: "array_read (ref_frame_map cm) lst_ref = Inr (ref_frame_map cm ! nat lst_ref)"
    by (simp add: array_read_def)
  from aom_rb_read_literal_range [OF g] len
  have rg: "array_read (ref_frame_map cm) gld_ref = Inr (ref_frame_map cm ! nat gld_ref)"
    by (simp add: array_read_def)
  from m show "read_short_signaling K set_frame_refs cm rb =
        Inl (Internal_Error AOM_CODEC_CORRUPT_FRAME
               ''Inter frame requests nonexistent reference'')"
    by (auto simp: read_short_signaling_def l g rl rg aom_internal_error_def)
next
  assume h: "frame_refs_short_signaling cm = 0 \<and>
    aom_rb_read_literal rb (REF_FRAMES_LOG2 K) = Inr (ref, rb3) \<and>
    length (ref_frame_map cm) = 2 ^ REF_FRAMES_LOG2 K \<and>
    ref_frame_map cm ! nat ref = - 1"
  then have s0: "frame_refs_short_signaling cm = 0"
    and r: "aom_rb_read_literal rb (REF_FRAMES_LOG2 K) = Inr (ref, rb3)"
    and len: "int (length (ref_frame_map cm)) = 2 ^ REF_FRAMES_LOG2 K"
    and m: "ref_frame_map cm ! nat ref = - 1"
    by simp_all
  from aom_rb_read_literal_range [OF r] len m
  have "array_read (ref_frame_map cm) ref = Inr (- 1)"
    by (simp add: array_read_def)
  then have "read_ref_slot K cm rb i =
        Inl (Internal_Error AOM_CODEC_CORRUPT_FRAME
               ''Inter frame requests nonexistent reference'')"
    by (simp add: read_ref_slot_def s0 r aom_internal_error_def)
  then show "read_frame_refs_loop K cm rb i (Suc k) =
        Inl (Internal_Error AOM_CODEC_CORRUPT_FRAME
               ''Inter frame requests nonexistent reference'')"
    by simp
next
  assume h: "read_refresh_flags_and_refs K set_frame_refs cm rb = Inr (cm', rb') \<and>
    frame_refs_short_signaling cm' = 0"
  then have run: "read_refresh_flags_and_refs K set_frame_refs cm rb = Inr (cm', rb')"
    and s0: "frame_refs_short_signaling cm' = 0" by simp_all
  from run obtain cm4 rb4 where
    loop: "read_frame_refs_loop K cm4 rb4 0 (INTER_REFS_PER_FRAME K) = Inr (cm', rb')"
    and map4: "ref_frame_map cm4 = ref_frame_map cm"
    by (auto simp: read_refresh_flags_and_refs_def bind_eq_Inr_iff Let_def
        dest!: read_short_signaling_Inr split: if_splits)
  from read_frame_refs_loop_Inr [OF loop] obtain refs bias where
    cm': "cm' = cm4\<lparr>frame_refs := refs, ref_frame_sign_bias := bias\<rparr>"
    and all: "frame_refs_short_signaling cm4 = 0 \<longrightarrow>
        (\<forall>j. 0 \<le> j \<and> j < 0 + INTER_REFS_PER_FRAME K \<longrightarrow>
           j < length refs \<and>
           0 \<le> map_idx (refs ! j) \<and> map_idx (refs ! j) < int (length (ref_frame_map cm4)) \<and>
           idx (refs ! j) = ref_frame_map cm4 ! nat (map_idx (refs ! j)) \<and>
           idx (refs ! j) \<noteq> - 1) \<and>
        (\<forall>j < 0. refs ! j = frame_refs cm4 ! j)"
    by blast
  from cm' s0 have s4: "frame_refs_short_signaling cm4 = 0" by simp
  from cm' have fr: "frame_refs cm' = refs" by simp
  show "\<forall>j < INTER_REFS_PER_FRAME K.
         j < length (frame_refs cm') \<and>
         0 \<le> map_idx (frame_refs cm' ! j) \<and>
         map_idx (frame_refs cm' ! j) < int (length (ref_frame_map cm)) \<and>
         idx (frame_refs cm' ! j) = ref_frame_map cm ! nat (map_idx (frame_refs cm' ! j)) \<and>
         idx (frame_refs cm' ! j) \<noteq> - 1"
    unfolding fr map4 [symmetric]
  proof (intro allI impI)
    fix j assume "j < INTER_REFS_PER_FRAME K"
    then have "0 \<le> j \<and> j < 0 + INTER_REFS_PER_FRAME K" by simp
    with all s4 show "j < length refs \<and>
           0 \<le> map_idx (refs ! j) \<and> map_idx (refs ! j) < int (length (ref_frame_map cm4)) \<and>
           idx (refs ! j) = ref_frame_map cm4 ! nat (map_idx (refs ! j)) \<and>
           idx (refs ! j) \<noteq> - 1"
      by blast
  qed
qed


theorem read_frame_refs_nonexistent_reference_witness:
  "read_short_signaling av1_enums_instance keep_frame_refs ref_cm_example
     [False, False, False, False, True, False]
     = Inl (Internal_Error AOM_CODEC_CORRUPT_FRAME
              ''Inter frame requests nonexistent reference'') \<and>
   read_frame_refs_loop av1_enums_instance ref_cm_example [False, True, True] 0 (Suc 6)
     = Inl (Internal_Error AOM_CODEC_CORRUPT_FRAME
              ''Inter frame requests nonexistent reference'') \<and>
   read_refresh_flags_and_refs av1_enums_instance keep_frame_refs ref_cm_example
     ref_bits_example = Inr (ref_cm_example_parsed, []) \<and>
   idx (frame_refs ref_cm_example_parsed ! 1) = ref_frame_map ref_cm_example ! 1 \<and>
   idx (frame_refs ref_cm_example_parsed ! 1) \<noteq> - 1"
proof -
  have c1: "read_short_signaling av1_enums_instance keep_frame_refs ref_cm_example
     [False, False, False, False, True, False]
     = Inl (Internal_Error AOM_CODEC_CORRUPT_FRAME
              ''Inter frame requests nonexistent reference'')"
  proof (rule read_frame_refs_nonexistent_reference
      [THEN conjunct1, rule_format,
        where lst_ref = 0 and ?rb1.0 = "[False, True, False]" and gld_ref = 2 and ?rb2.0 = "[]"])
    show "aom_rb_read_literal [False, False, False, False, True, False]
            (REF_FRAMES_LOG2 av1_enums_instance) = Inr (0, [False, True, False]) \<and>
          aom_rb_read_literal [False, True, False] (REF_FRAMES_LOG2 av1_enums_instance)
            = Inr (2, []) \<and>
          length (ref_frame_map ref_cm_example) = 2 ^ REF_FRAMES_LOG2 av1_enums_instance \<and>
          (ref_frame_map ref_cm_example ! nat 0 = - 1 \<or>
           ref_frame_map ref_cm_example ! nat 2 = - 1)"
      by code_simp
  qed
  have c2: "read_frame_refs_loop av1_enums_instance ref_cm_example [False, True, True] 0 (Suc 6)
     = Inl (Internal_Error AOM_CODEC_CORRUPT_FRAME
              ''Inter frame requests nonexistent reference'')"
  proof (rule read_frame_refs_nonexistent_reference
      [THEN conjunct2, THEN conjunct1, rule_format, where ref = 3 and ?rb3.0 = "[]"])
    show "frame_refs_short_signaling ref_cm_example = 0 \<and>
          aom_rb_read_literal [False, True, True] (REF_FRAMES_LOG2 av1_enums_instance)
            = Inr (3, []) \<and>
          length (ref_frame_map ref_cm_example) = 2 ^ REF_FRAMES_LOG2 av1_enums_instance \<and>
          ref_frame_map ref_cm_example ! nat 3 = - 1"
      by code_simp
  qed
  have run: "read_refresh_flags_and_refs av1_enums_instance keep_frame_refs ref_cm_example
     ref_bits_example = Inr (ref_cm_example_parsed, [])"
    by code_simp
  have sh: "frame_refs_short_signaling ref_cm_example_parsed = 0"
    by code_simp
  have "1 < INTER_REFS_PER_FRAME av1_enums_instance"
    by (simp add: av1_enums_instance_def)
  with read_frame_refs_nonexistent_reference
      [THEN conjunct2, THEN conjunct2, rule_format, OF conjI [OF run sh], of 1]
  have c3: "idx (frame_refs ref_cm_example_parsed ! 1)
              = ref_frame_map ref_cm_example ! nat (map_idx (frame_refs ref_cm_example_parsed ! 1))"
    "idx (frame_refs ref_cm_example_parsed ! 1) \<noteq> - 1"
    by blast+
  have "nat (map_idx (frame_refs ref_cm_example_parsed ! 1)) = 1"
    by code_simp
  with c1 c2 run c3 show ?thesis by simp
qed

text \<open>
  C9. A frame that is not an S-frame and reads \<open>refresh_frame_flags\<close> as 0 leaves the
  reference part of the header with \<open>is_reference_frame\<close> 0, the mask 0, and the slot
  table, the pool counts and \<open>new_fb_idx\<close> as they were. With the mask 0 the commit
  (lines 2895-2919) makes every \<open>next_ref_frame_map\<close> slot equal to the
  \<open>ref_frame_map\<close> slot; each buffer's count grows only by the number of slots that
  already hold it (the decoder's own hold), so the count of the new frame buffer, which no
  slot holds, is not incremented.
\<close>

theorem refresh_frame_flags_zero_commits_nothing:
  "(\<not> frame_is_sframe cm \<and>
    aom_rb_read_literal rb (REF_FRAMES K) = Inr (0, rb1) \<and>
    read_refresh_flags_and_refs K set_frame_refs cm rb = Inr (cm1, rb2) \<longrightarrow>
      is_reference_frame cm1 = 0 \<and> refresh_frame_flags cm1 = 0 \<and>
      ref_frame_map cm1 = ref_frame_map cm \<and> next_ref_frame_map cm1 = next_ref_frame_map cm \<and>
      new_fb_idx cm1 = new_fb_idx cm \<and> ref_count cm1 = ref_count cm) \<and>
   (refresh_frame_flags cm2 = 0 \<and>
    length (ref_frame_map cm2) = REF_FRAMES K \<and>
    length (next_ref_frame_map cm2) = REF_FRAMES K \<and>
    (\<forall>b \<in> set (ref_frame_map cm2). b < int (length (ref_count cm2))) \<longrightarrow>
      (\<exists>counts.
         generate_next_ref_frame_map K cm2 =
           Inr (cm2\<lparr>next_ref_frame_map := ref_frame_map cm2, ref_count := counts\<rparr>) \<and>
         length counts = length (ref_count cm2) \<and>
         (\<forall>b < length (ref_count cm2).
            counts ! b = ref_count cm2 ! b + int (count_list (ref_frame_map cm2) (int b))) \<and>
         (new_fb_idx cm2 \<notin> set (ref_frame_map cm2) \<and> 0 \<le> new_fb_idx cm2 \<and>
          new_fb_idx cm2 < int (length (ref_count cm2)) \<longrightarrow>
            counts ! nat (new_fb_idx cm2) = ref_count cm2 ! nat (new_fb_idx cm2))))"
proof (rule conjI; rule impI)
  assume h: "\<not> frame_is_sframe cm \<and>
    aom_rb_read_literal rb (REF_FRAMES K) = Inr (0, rb1) \<and>
    read_refresh_flags_and_refs K set_frame_refs cm rb = Inr (cm1, rb2)"
  let ?cm2 = "cm\<lparr>refresh_frame_flags := 0, is_reference_frame := 0\<rparr>"
  from h obtain cm4 rb4 where
    loop: "read_frame_refs_loop K cm4 rb4 0 (INTER_REFS_PER_FRAME K) = Inr (cm1, rb2)"
    and cm4: "\<exists>sh refs. cm4 = ?cm2\<lparr>frame_refs_short_signaling := sh, frame_refs := refs\<rparr>"
  proof -
    from h have run: "read_refresh_flags_and_refs K set_frame_refs cm rb = Inr (cm1, rb2)"
      and fl: "\<not> frame_is_sframe cm" "aom_rb_read_literal rb (REF_FRAMES K) = Inr (0, rb1)"
      by simp_all
    from run obtain cm3 rb3 cm4 rb4 where
      a: "(if enable_order_hint ?cm2 \<noteq> 0
         then bind (aom_rb_read_bit rb1)
                (\<lambda>(b, rb2). Inr (?cm2\<lparr>frame_refs_short_signaling := b\<rparr>, rb2))
         else Inr (?cm2, rb1)) = Inr (cm3, rb3)"
      and b: "(if frame_refs_short_signaling cm3 \<noteq> 0
         then read_short_signaling K set_frame_refs cm3 rb3
         else Inr (cm3, rb3)) = Inr (cm4, rb4)"
      and c: "read_frame_refs_loop K cm4 rb4 0 (INTER_REFS_PER_FRAME K) = Inr (cm1, rb2)"
      by (auto simp: read_refresh_flags_and_refs_def fl bind_eq_Inr_iff Let_def cong: if_cong)
    from a have "\<exists>sh. cm3 = ?cm2\<lparr>frame_refs_short_signaling := sh\<rparr>"
    proof (cases "enable_order_hint ?cm2 \<noteq> 0")
      case True
      with a show ?thesis by (auto simp: bind_eq_Inr_iff)
    next
      case False
      with a have "cm3 = ?cm2\<lparr>frame_refs_short_signaling := frame_refs_short_signaling ?cm2\<rparr>"
        by simp
      then show ?thesis by blast
    qed
    then obtain sh where cm3: "cm3 = ?cm2\<lparr>frame_refs_short_signaling := sh\<rparr>" by blast
    from b have "\<exists>refs. cm4 = cm3\<lparr>frame_refs := refs\<rparr>"
    proof (cases "frame_refs_short_signaling cm3 \<noteq> 0")
      case True
      with b show ?thesis by (auto dest: read_short_signaling_Inr)
    next
      case False
      with b have "cm4 = cm3\<lparr>frame_refs := frame_refs cm3\<rparr>" by simp
      then show ?thesis by blast
    qed
    with cm3 have "\<exists>sh refs. cm4 = ?cm2\<lparr>frame_refs_short_signaling := sh, frame_refs := refs\<rparr>"
      by auto
    with c that show ?thesis by blast
  qed
  from read_frame_refs_loop_Inr [OF loop] obtain refs bias where
    "cm1 = cm4\<lparr>frame_refs := refs, ref_frame_sign_bias := bias\<rparr>" by blast
  with cm4 show "is_reference_frame cm1 = 0 \<and> refresh_frame_flags cm1 = 0 \<and>
      ref_frame_map cm1 = ref_frame_map cm \<and> next_ref_frame_map cm1 = next_ref_frame_map cm \<and>
      new_fb_idx cm1 = new_fb_idx cm \<and> ref_count cm1 = ref_count cm"
    by auto
next
  assume h: "refresh_frame_flags cm2 = 0 \<and>
    length (ref_frame_map cm2) = REF_FRAMES K \<and>
    length (next_ref_frame_map cm2) = REF_FRAMES K \<and>
    (\<forall>b \<in> set (ref_frame_map cm2). b < int (length (ref_count cm2)))"
  let ?rfm = "ref_frame_map cm2"
  from h have z: "refresh_frame_flags cm2 = 0" and l1: "length ?rfm = REF_FRAMES K"
    and l2: "length (next_ref_frame_map cm2) = length ?rfm"
    and bnd: "\<forall>j. 0 \<le> j \<and> j < length ?rfm \<longrightarrow> ?rfm ! j < int (length (ref_count cm2))"
    by auto
  from next_ref_frame_map_rest_loop_result
    [of 0 "REF_FRAMES K" ?rfm "next_ref_frame_map cm2" "ref_count cm2"] l1 l2 bnd
  obtain counts where
    r: "next_ref_frame_map_rest_loop ?rfm (next_ref_frame_map cm2) (ref_count cm2) 0 (REF_FRAMES K)
          = Inr (?rfm, counts)"
    and lc: "length counts = length (ref_count cm2)"
    and c: "\<forall>b < length (ref_count cm2).
              counts ! b = ref_count cm2 ! b + int (count_list ?rfm (int b))"
    by auto
  have g: "generate_next_ref_frame_map K cm2 =
           Inr (cm2\<lparr>next_ref_frame_map := ?rfm, ref_count := counts\<rparr>)"
    by (simp add: generate_next_ref_frame_map_def z r)
  have n: "counts ! nat (new_fb_idx cm2) = ref_count cm2 ! nat (new_fb_idx cm2)"
    if "new_fb_idx cm2 \<notin> set ?rfm \<and> 0 \<le> new_fb_idx cm2 \<and>
          new_fb_idx cm2 < int (length (ref_count cm2))"
  proof -
    from that have nn: "0 \<le> new_fb_idx cm2" "new_fb_idx cm2 < int (length (ref_count cm2))"
      "new_fb_idx cm2 \<notin> set ?rfm" by blast+
    then have "nat (new_fb_idx cm2) < length (ref_count cm2)" by linarith
    with c have "counts ! nat (new_fb_idx cm2) = ref_count cm2 ! nat (new_fb_idx cm2)
        + int (count_list ?rfm (int (nat (new_fb_idx cm2))))" by blast
    moreover from nn have "count_list ?rfm (int (nat (new_fb_idx cm2))) = 0"
      by (simp add: count_list_0_iff)
    ultimately show ?thesis by simp
  qed
  from g lc c n show "\<exists>counts.
         generate_next_ref_frame_map K cm2 =
           Inr (cm2\<lparr>next_ref_frame_map := ref_frame_map cm2, ref_count := counts\<rparr>) \<and>
         length counts = length (ref_count cm2) \<and>
         (\<forall>b < length (ref_count cm2).
            counts ! b = ref_count cm2 ! b + int (count_list (ref_frame_map cm2) (int b))) \<and>
         (new_fb_idx cm2 \<notin> set (ref_frame_map cm2) \<and> 0 \<le> new_fb_idx cm2 \<and>
          new_fb_idx cm2 < int (length (ref_count cm2)) \<longrightarrow>
            counts ! nat (new_fb_idx cm2) = ref_count cm2 ! nat (new_fb_idx cm2))"
    by blast
qed

theorem refresh_frame_flags_zero_commits_nothing_witness:
  "is_reference_frame ref_cm_example_parsed = 0 \<and>
   refresh_frame_flags ref_cm_example_parsed = 0 \<and>
   generate_next_ref_frame_map av1_enums_instance ref_cm_example_parsed =
     Inr (ref_cm_example_parsed
            \<lparr>next_ref_frame_map := [0, 1, - 1, - 1, - 1, - 1, - 1, - 1],
             ref_count := [2, 2, 1, 0]\<rparr>)"
proof -
  have p1: "\<not> frame_is_sframe ref_cm_example \<and>
    aom_rb_read_literal ref_bits_example (REF_FRAMES av1_enums_instance)
      = Inr (0, drop 8 ref_bits_example) \<and>
    read_refresh_flags_and_refs av1_enums_instance keep_frame_refs ref_cm_example
      ref_bits_example = Inr (ref_cm_example_parsed, [])"
    by code_simp
  note a = refresh_frame_flags_zero_commits_nothing
    [THEN conjunct1, rule_format, OF p1]
  have p2: "refresh_frame_flags ref_cm_example_parsed = 0 \<and>
    length (ref_frame_map ref_cm_example_parsed) = REF_FRAMES av1_enums_instance \<and>
    length (next_ref_frame_map ref_cm_example_parsed) = REF_FRAMES av1_enums_instance \<and>
    (\<forall>b \<in> set (ref_frame_map ref_cm_example_parsed).
       b < int (length (ref_count ref_cm_example_parsed)))"
    by code_simp
  from refresh_frame_flags_zero_commits_nothing
    [THEN conjunct2, rule_format, OF p2]
  obtain counts where
    g: "generate_next_ref_frame_map av1_enums_instance ref_cm_example_parsed =
           Inr (ref_cm_example_parsed\<lparr>next_ref_frame_map := ref_frame_map ref_cm_example_parsed,
                  ref_count := counts\<rparr>)"
    by blast
  have e: "generate_next_ref_frame_map av1_enums_instance ref_cm_example_parsed =
     Inr (ref_cm_example_parsed
            \<lparr>next_ref_frame_map := [0, 1, - 1, - 1, - 1, - 1, - 1, - 1],
             ref_count := [2, 2, 1, 0]\<rparr>)"
    by code_simp
  from a g e show ?thesis by simp
qed

lemma decode_restoration_mode_Inr:
  "decode_restoration_mode E cm rb = Inr (cm', rb') \<Longrightarrow> \<exists>rst. cm' = cm\<lparr>rst_info := rst\<rparr>"
proof -
  assume a: "decode_restoration_mode E cm rb = Inr (cm', rb')"
  show ?thesis
  proof (cases "allow_intrabc cm \<noteq> 0 \<and> NO_FILTER_FOR_IBC E \<noteq> 0")
    case True
    with a have "cm' = cm\<lparr>rst_info := rst_info cm\<rparr>"
      by (simp add: decode_restoration_mode_def Let_def)
    then show ?thesis by blast
  next
    case False
    with a show ?thesis
      by (auto simp: decode_restoration_mode_def Let_def bind_eq_Inr_iff)
  qed
qed

lemma set_rst_none_nth:
  "length rst = 3 \<Longrightarrow> i < 3 \<Longrightarrow> frame_restoration_type (set_rst_none rst ! i) = RESTORE_NONE"
  by (auto simp: set_rst_none_def nth_list_update less_Suc_eq numeral_3_eq_3)

text \<open>
  C2. A frame header with \<open>base_qindex\<close> 0 and all of the y/u/v DC and AC delta-q values
  0, every segment's quantiser index being 0 as well when segmentation is on: whenever
  lines 2975-3011 return, \<open>coded_lossless\<close> is set, every segment is lossless,
  \<open>read_tx_mode\<close> has given ONLY_4X4 and \<open>read_tx_size\<close> gives the 4x4 size for every
  segment, both deblocking filter levels are 0, the CDEF bits and first strengths are 0,
  and neither deblocking nor CDEF runs. When superres leaves the frame unscaled, the lines
  return without reading a bit, \<open>all_lossless\<close> is set, the restoration type of all
  three planes is RESTORE_NONE and loop restoration does not run.
\<close>

theorem lossless_frame_skips_filters:
  assumes q: "base_qindex cm = 0" "y_dc_delta_q cm = 0" "u_dc_delta_q cm = 0"
      "u_ac_delta_q cm = 0" "v_dc_delta_q cm = 0" "v_ac_delta_q cm = 0"
    and seg: "seg_enabled cm \<noteq> 0 \<longrightarrow> (\<forall>i < MAX_SEGMENTS E. av1_get_qindex E i 0 = 0)"
    and n: "0 < MAX_SEGMENTS E"
    and len: "length (filter_level (lf cm)) = 2" "cdef_strengths cm \<noteq> []"
      "cdef_uv_strengths cm \<noteq> []" "length (rst_info cm) = 3"
  shows "(setup_lossless_and_filters E cm rb = Inr (cm', rb') \<longrightarrow>
            coded_lossless cm' = 1 \<and> tx_mode cm' = ONLY_4X4 \<and>
            (\<forall>i < MAX_SEGMENTS E. xd_lossless cm' ! i = 1) \<and>
            filter_level (lf cm') = [0, 0] \<and>
            cdef_bits cm' = 0 \<and> cdef_strengths cm' ! 0 = 0 \<and> cdef_uv_strengths cm' ! 0 = 0 \<and>
            \<not> deblocking_runs E cm' \<and> \<not> cdef_runs E cm' \<and>
            (\<forall>segment_id < int (MAX_SEGMENTS E). 0 \<le> segment_id \<longrightarrow>
               read_tx_size TX_4X4 block_signals_txsize read_selected_tx_size
                 tx_size_from_tx_mode get_max_rect_tx_size cm' bsize segment_id is_inter
                 allow_select_inter r = Inr (TX_4X4, r))) \<and>
         (av1_superres_unscaled E \<longrightarrow>
            (\<exists>cm''. setup_lossless_and_filters E cm rb = Inr (cm'', rb) \<and>
               all_lossless cm'' = 1 \<and>
               frame_restoration_type (rst_info cm'' ! 0) = RESTORE_NONE \<and>
               frame_restoration_type (rst_info cm'' ! 1) = RESTORE_NONE \<and>
               frame_restoration_type (rst_info cm'' ! 2) = RESTORE_NONE \<and>
               \<not> loop_restoration_runs E cm''))"
proof -
  let ?N = "MAX_SEGMENTS E"
  have ql: "segment_lossless E cm i = 1" if "i < ?N" for i
    using q seg that by (simp add: segment_lossless_def segment_qindex_def)
  let ?ll = "map (segment_lossless E cm) [0..<?N]"
  have ll: "?ll ! i = 1" "i < length ?ll" if "i < ?N" for i
    using that ql by simp_all
  let ?cm1 = "cm\<lparr>xd_lossless := ?ll, xd_qindex := map (segment_qindex E cm) [0..<?N]\<rparr>"
  have icl: "is_coded_lossless E ?cm1 = 1"
    using ll n by (auto simp: is_coded_lossless_def)
  let ?al = "if av1_superres_unscaled E then 1 else 0 :: int"
  let ?rst = "if ?al \<noteq> 0 \<or> enable_restoration cm = 0 then set_rst_none (rst_info cm)
              else rst_info cm"
  let ?cm6 = "?cm1\<lparr>coded_lossless := 1, all_lossless := ?al,
      lf := (lf cm)\<lparr>filter_level := (filter_level (lf cm))[0 := 0, 1 := 0]\<rparr>,
      cdef_bits := 0, cdef_strengths := (cdef_strengths cm)[0 := 0],
      cdef_uv_strengths := (cdef_uv_strengths cm)[0 := 0], rst_info := ?rst\<rparr>"
  define c7 where "c7 = ?cm6\<lparr>cur_frame_ref_deltas := default_ref_deltas E,
      cur_frame_mode_deltas := default_mode_deltas E\<rparr>"
  have unf: "setup_lossless_and_filters E cm rb =
      bind (if all_lossless c7 = 0 \<and> enable_restoration c7 \<noteq> 0
            then decode_restoration_mode E c7 rb else Inr (c7, rb))
        (\<lambda>(cm9, rb3). bind (read_tx_mode cm9 rb3) (\<lambda>(m, rb4). Inr (cm9\<lparr>tx_mode := m\<rparr>, rb4)))"
    by (simp add: setup_lossless_and_filters_def Let_def icl setup_loopfilter_def c7_def)
  have fl: "(filter_level (lf cm))[0 := 0, 1 := 0] = [0, 0]"
    using len(1) by (cases "filter_level (lf cm)"; cases "tl (filter_level (lf cm))") auto
  have c0: "(cdef_strengths cm)[0 := 0] ! 0 = 0" "(cdef_uv_strengths cm)[0 := 0] ! 0 = 0"
    using len(2,3) by simp_all
  have c7: "coded_lossless c7 = 1" "xd_lossless c7 = ?ll" "filter_level (lf c7) = [0, 0]"
    "cdef_bits c7 = 0" "cdef_strengths c7 ! 0 = 0" "cdef_uv_strengths c7 ! 0 = 0"
    "all_lossless c7 = ?al" "rst_info c7 = ?rst"
    using fl c0 by (simp_all add: c7_def)
  have props: "coded_lossless c = 1 \<and> tx_mode (c\<lparr>tx_mode := ONLY_4X4\<rparr>) = ONLY_4X4 \<and>
            (\<forall>i < ?N. xd_lossless c ! i = 1) \<and>
            filter_level (lf c) = [0, 0] \<and>
            cdef_bits c = 0 \<and> cdef_strengths c ! 0 = 0 \<and> cdef_uv_strengths c ! 0 = 0"
    if "\<exists>rst. c = c7\<lparr>rst_info := rst\<rparr>" for c
    using that c7(1-6) ll by auto
  show ?thesis
  proof (rule conjI; rule impI)
    assume run: "setup_lossless_and_filters E cm rb = Inr (cm', rb')"
    from run obtain cm9 rb3 where
      r: "(if all_lossless c7 = 0 \<and> enable_restoration c7 \<noteq> 0
            then decode_restoration_mode E c7 rb else Inr (c7, rb)) = Inr (cm9, rb3)"
      and t: "bind (read_tx_mode cm9 rb3) (\<lambda>(m, rb4). Inr (cm9\<lparr>tx_mode := m\<rparr>, rb4))
                = Inr (cm', rb')"
      unfolding unf by (auto simp: bind_eq_Inr_iff)
    have ex: "\<exists>rst. cm9 = c7\<lparr>rst_info := rst\<rparr>"
    proof (cases "all_lossless c7 = 0 \<and> enable_restoration c7 \<noteq> 0")
      case True
      with r have "decode_restoration_mode E c7 rb = Inr (cm9, rb3)" by simp
      then show ?thesis by (rule decode_restoration_mode_Inr)
    next
      case False
      with r have "cm9 = c7\<lparr>rst_info := rst_info c7\<rparr>" by simp
      then show ?thesis by blast
    qed
    note p9 = props [OF ex]
    from p9 have cl9: "coded_lossless cm9 = 1" by blast
    with t have cm': "cm' = cm9\<lparr>tx_mode := ONLY_4X4\<rparr>"
      by (auto simp: read_tx_mode_def)
    have tx: "read_tx_size TX_4X4 block_signals_txsize read_selected_tx_size
                 tx_size_from_tx_mode get_max_rect_tx_size cm' bsize segment_id is_inter
                 allow_select_inter r = Inr (TX_4X4, r)"
      if "segment_id < int ?N" "0 \<le> segment_id" for segment_id
    proof -
      from that have "nat segment_id < ?N" by simp
      with ex ll [of "nat segment_id"] that
      have "array_read (xd_lossless cm') segment_id = Inr 1"
        by (auto simp: cm' array_read_def c7(2))
      then show ?thesis by (simp add: read_tx_size_def)
    qed
    from p9 have "\<not> deblocking_runs E cm'" "\<not> cdef_runs E cm'"
      by (simp_all add: cm' deblocking_runs_def cdef_runs_def)
    with p9 tx show "coded_lossless cm' = 1 \<and> tx_mode cm' = ONLY_4X4 \<and>
            (\<forall>i < MAX_SEGMENTS E. xd_lossless cm' ! i = 1) \<and>
            filter_level (lf cm') = [0, 0] \<and>
            cdef_bits cm' = 0 \<and> cdef_strengths cm' ! 0 = 0 \<and> cdef_uv_strengths cm' ! 0 = 0 \<and>
            \<not> deblocking_runs E cm' \<and> \<not> cdef_runs E cm' \<and>
            (\<forall>segment_id < int (MAX_SEGMENTS E). 0 \<le> segment_id \<longrightarrow>
               read_tx_size TX_4X4 block_signals_txsize read_selected_tx_size
                 tx_size_from_tx_mode get_max_rect_tx_size cm' bsize segment_id is_inter
                 allow_select_inter r = Inr (TX_4X4, r))"
      by (simp add: cm')
  next
    assume u: "av1_superres_unscaled E"
    let ?c = "c7\<lparr>tx_mode := ONLY_4X4\<rparr>"
    from u have "setup_lossless_and_filters E cm rb = Inr (?c, rb)"
      unfolding unf by (simp add: read_tx_mode_def c7)
    moreover from u len(4) have "all_lossless ?c = 1"
      "frame_restoration_type (rst_info ?c ! 0) = RESTORE_NONE"
      "frame_restoration_type (rst_info ?c ! 1) = RESTORE_NONE"
      "frame_restoration_type (rst_info ?c ! 2) = RESTORE_NONE"
      by (simp_all add: set_rst_none_nth c7)
    moreover from this have "\<not> loop_restoration_runs E ?c"
      by (simp add: loop_restoration_runs_def)
    ultimately show "\<exists>cm''. setup_lossless_and_filters E cm rb = Inr (cm'', rb) \<and>
               all_lossless cm'' = 1 \<and>
               frame_restoration_type (rst_info cm'' ! 0) = RESTORE_NONE \<and>
               frame_restoration_type (rst_info cm'' ! 1) = RESTORE_NONE \<and>
               frame_restoration_type (rst_info cm'' ! 2) = RESTORE_NONE \<and>
               \<not> loop_restoration_runs E cm''"
      by blast
  qed
qed

theorem lossless_frame_skips_filters_witness:
  "setup_lossless_and_filters hdr_env_instance hdr_cm_example [True, False]
     = Inr (hdr_cm_example_parsed, [True, False]) \<and>
   coded_lossless hdr_cm_example_parsed = 1 \<and> tx_mode hdr_cm_example_parsed = ONLY_4X4 \<and>
   filter_level (lf hdr_cm_example_parsed) = [0, 0] \<and>
   cdef_bits hdr_cm_example_parsed = 0 \<and>
   read_tx_size (0 :: nat) (\<lambda>b :: nat. True) (\<lambda>b i r :: nat. (3, r)) (\<lambda>b m. 2) (\<lambda>b. 1)
     hdr_cm_example_parsed 9 5 False True 0 = Inr (0, 0) \<and>
   \<not> deblocking_runs hdr_env_instance hdr_cm_example_parsed \<and>
   \<not> cdef_runs hdr_env_instance hdr_cm_example_parsed \<and>
   \<not> loop_restoration_runs hdr_env_instance hdr_cm_example_parsed"
proof -
  have run: "setup_lossless_and_filters hdr_env_instance hdr_cm_example [True, False]
     = Inr (hdr_cm_example_parsed, [True, False])"
    by code_simp
  have seg: "seg_enabled hdr_cm_example \<noteq> 0 \<longrightarrow>
      (\<forall>i < MAX_SEGMENTS hdr_env_instance. av1_get_qindex hdr_env_instance i 0 = 0)"
    by (simp add: hdr_env_instance_def)
  note t = lossless_frame_skips_filters
    [where cm = hdr_cm_example and E = hdr_env_instance and rb = "[True, False]"
       and cm' = hdr_cm_example_parsed and rb' = "[True, False]"
       and ?TX_4X4.0 = "0 :: nat" and block_signals_txsize = "\<lambda>b :: nat. True"
       and read_selected_tx_size = "\<lambda>b i r :: nat. (3, r)"
       and tx_size_from_tx_mode = "\<lambda>b m. 2" and get_max_rect_tx_size = "\<lambda>b. 1"
       and bsize = 9 and is_inter = False and allow_select_inter = True and r = 0,
     OF _ _ _ _ _ _ seg]
  have t1: "coded_lossless hdr_cm_example_parsed = 1 \<and>
      tx_mode hdr_cm_example_parsed = ONLY_4X4 \<and>
      filter_level (lf hdr_cm_example_parsed) = [0, 0] \<and>
      cdef_bits hdr_cm_example_parsed = 0 \<and>
      \<not> deblocking_runs hdr_env_instance hdr_cm_example_parsed \<and>
      \<not> cdef_runs hdr_env_instance hdr_cm_example_parsed \<and>
      (\<forall>segment_id < int (MAX_SEGMENTS hdr_env_instance). 0 \<le> segment_id \<longrightarrow>
         read_tx_size (0 :: nat) (\<lambda>b :: nat. True) (\<lambda>b i r :: nat. (3, r)) (\<lambda>b m. 2) (\<lambda>b. 1)
           hdr_cm_example_parsed 9 segment_id False True 0 = Inr (0, 0))"
    using t [THEN conjunct1] run
    by (simp add: hdr_cm_example_def hdr_env_instance_def)
  then have tx: "read_tx_size (0 :: nat) (\<lambda>b :: nat. True) (\<lambda>b i r :: nat. (3, r)) (\<lambda>b m. 2)
      (\<lambda>b. 1) hdr_cm_example_parsed 9 5 False True 0 = Inr (0, 0)"
    by (simp add: hdr_env_instance_def)
  have "\<not> loop_restoration_runs hdr_env_instance hdr_cm_example_parsed"
    using t [THEN conjunct2] run
    by (auto simp: hdr_cm_example_def hdr_env_instance_def)
  with run t1 tx show ?thesis by blast
qed

subsection \<open>Tiles whose length runs past the payload\<close>

text \<open>
  The length of a tile that is not the last of its group is what \<open>get_tile_buffer\<close>
  decodes from its size field: \<^verbatim>\<open>mem_get_varsize(...) + AV1_MIN_TILE_SIZE_BYTES\<close>,
  an \<open>int\<close> converted to \<open>size_t\<close>. With \<open>size_t\<close> of at least 32 bits this is the
  little-endian value of the field plus the minimum when the sum is below \<open>2 ^ 31\<close>,
  and a number of at least \<open>2 ^ 31\<close> when the sum is from \<open>2 ^ 31\<close> up to
  \<open>2 ^ 32 - 1\<close>. From \<open>2 ^ 32\<close> on the sum wraps: a four-byte field of all ones
  decodes to the length 0.
\<close>

lemma get_tile_buffers_loop_append:
  "get_tile_buffers_loop X pbi payload data_end startTile endTile (xs @ ys) cm data tbs =
   bind (get_tile_buffers_loop X pbi payload data_end startTile endTile xs cm data tbs)
     (\<lambda>(cm1, d, tb1). get_tile_buffers_loop X pbi payload data_end startTile endTile ys cm1 d tb1)"
proof (induction xs arbitrary: cm data tbs)
  case Nil
  show ?case by simp
next
  case (Cons x xs)
  obtain tc r c where x: "x = (tc, r, c)" by (cases x)
  show ?case
  proof (cases "get_tile_buffer X payload data_end (tile_size_bytes pbi) (tc = endTile) data
                  ((tbs (r, c))\<lparr>buf_col := int c\<rparr>)")
    case (Inl e)
    then show ?thesis unfolding x
      by (simp add: Let_def Cons.IH aom_internal_error_def)
  next
    case (Inr y)
    obtain d1 b1 where y: "y = (d1, b1)" by (cases y)
    show ?thesis unfolding x using Inr
      by (simp add: Let_def Cons.IH aom_internal_error_def y fun_upd_def)
  qed
qed

lemma tile_list_nonempty:
  "tile_list rows cols \<noteq> [] \<Longrightarrow> 0 < rows \<and> 0 < cols"
  by (auto simp: tile_list_def)

lemma get_tile_buffer_fails:
  assumes "\<not> read_is_valid X d (to_size_t X tsb) data_end \<or>
           (\<exists>v. mem_get_varsize payload d tsb = Inr v \<and>
                to_size_t X (data_end - (d + tsb)) <
                  to_size_t X (int_add v (AV1_MIN_TILE_SIZE_BYTES X)))"
  shows "get_tile_buffer X payload data_end tsb False d buf =
         Inl (Internal_Error AOM_CODEC_CORRUPT_FRAME
                (if \<not> read_is_valid X d (to_size_t X tsb) data_end
                 then ''Truncated packet or corrupt tile length''
                 else ''Truncated packet or corrupt tile size''))"
  using assms
  by (auto simp: get_tile_buffer_def aom_internal_error_def Let_def)

lemma get_tile_buffer_decode_tile_irrelevant:
  "get_tile_buffer (X\<lparr>decode_tile := dt\<rparr>) payload data_end tsb is_last d buf =
   get_tile_buffer X payload data_end tsb is_last d buf"
  by (simp add: get_tile_buffer_def read_is_valid_def to_size_t_def)

lemma get_tile_buffers_loop_decode_tile_irrelevant:
  "get_tile_buffers_loop (X\<lparr>decode_tile := dt\<rparr>) pbi payload data_end startTile endTile xs
     cm data tbs =
   get_tile_buffers_loop X pbi payload data_end startTile endTile xs cm data tbs"
proof (induction xs arbitrary: cm data tbs)
  case Nil
  show ?case by simp
next
  case (Cons x xs)
  obtain tc r c where x: "x = (tc, r, c)" by (cases x)
  show ?case unfolding x
    by (simp add: Let_def Cons.IH get_tile_buffer_decode_tile_irrelevant fun_upd_def cong: bind_cong)
qed

lemma get_tile_buffers_loop_truncated:
  assumes rng: "startTile \<le> tc" "tc < endTile"
    and d: "d < data_end"
    and bad: "\<not> read_is_valid X d (to_size_t X (tile_size_bytes pbi)) data_end \<or>
              (\<exists>v. mem_get_varsize payload d (tile_size_bytes pbi) = Inr v \<and>
                   to_size_t X (data_end - (d + tile_size_bytes pbi)) <
                     to_size_t X (int_add v (AV1_MIN_TILE_SIZE_BYTES X)))"
  shows "get_tile_buffers_loop X pbi payload data_end startTile endTile ((tc, r, c) # post)
           cm1 d tbs1 =
         Inl (Internal_Error AOM_CODEC_CORRUPT_FRAME
                (if \<not> read_is_valid X d (to_size_t X (tile_size_bytes pbi)) data_end
                 then ''Truncated packet or corrupt tile length''
                 else ''Truncated packet or corrupt tile size''))"
proof -
  have l: "(tc = endTile) = False" using rng by simp
  show ?thesis using rng d
    by (simp add: Let_def l get_tile_buffer_fails[OF bad])
qed

lemma sint_word_of_int_32:
  assumes "- (2 ^ 31) \<le> k" "k < 2 ^ 31"
  shows "sint (word_of_int k :: 32 word) = k"
proof -
  have "sint (word_of_int k :: 32 word) = signed_take_bit 31 k"
    by (simp only: sint_sbintrunc') simp
  also have "\<dots> = k"
    using assms by (simp add: signed_take_bit_int_eq_self)
  finally show ?thesis .
qed

lemma sint_word_of_nat_32:
  assumes "n < 2 ^ 31"
  shows "sint (word_of_nat n :: 32 word) = int n"
proof -
  have "(word_of_nat n :: 32 word) = word_of_int (int n)" by simp
  moreover have "sint (word_of_int (int n) :: 32 word) = int n"
    by (rule sint_word_of_int_32) (use assms in simp_all)
  ultimately show ?thesis by (simp only:)
qed

lemma tile_size_of_field:
  fixes X :: "'s tile_ext"
  assumes tsb: "tsb = 1 \<or> tsb = 2 \<or> tsb = 3 \<or> tsb = 4"
    and inb: "0 \<le> d" "d + tsb \<le> int (length payload)"
    and nowrap: "0 \<le> AV1_MIN_TILE_SIZE_BYTES X"
      "int (le_value (take (nat tsb) (drop (nat d) payload))) + AV1_MIN_TILE_SIZE_BYTES X < 2 ^ 31"
    and bits: "31 \<le> size_t_bits X"
  shows "\<exists>v. mem_get_varsize payload d tsb = Inr v \<and>
             int (to_size_t X (int_add v (AV1_MIN_TILE_SIZE_BYTES X))) =
               int (le_value (take (nat tsb) (drop (nat d) payload))) + AV1_MIN_TILE_SIZE_BYTES X"
proof -
  let ?f = "le_value (take (nat tsb) (drop (nat d) payload))"
  let ?m = "AV1_MIN_TILE_SIZE_BYTES X"
  have f31: "int ?f < 2 ^ 31" using nowrap by linarith
  have v: "mem_get_varsize payload d tsb = Inr (int ?f)"
    using tsb inb f31
    by (auto simp: mem_get_varsize_def sint_word_of_nat_32)
  have a: "int_add (int ?f) ?m = int ?f + ?m"
    unfolding int_add_def by (rule sint_word_of_int_32) (use nowrap in linarith)+
  have "(2::int) ^ 31 \<le> 2 ^ size_t_bits X"
    by (rule power_increasing[OF bits]) simp
  then have "to_size_t X (int ?f + ?m) = nat (int ?f + ?m)"
    using nowrap by (simp add: to_size_t_def)
  then show ?thesis using v a nowrap by simp
qed

lemma mem_get_varsize_all_ones: "mem_get_varsize [255, 255, 255, 255, 170] 0 4 = Inr (- 1)"
  by (simp add: mem_get_varsize_def)

lemma setup_bool_decoder_empty_buffer:
  "setup_bool_decoder X data data_end 0 t allow_update_cdf s =
   Inl (Internal_Error AOM_CODEC_CORRUPT_FRAME ''Truncated packet or corrupt tile length'')"
  by (simp add: setup_bool_decoder_def read_is_valid_def aom_internal_error_def)

lemma sint_word_of_int_32_high:
  assumes "2 ^ 31 \<le> k" "k < 2 ^ 32"
  shows "sint (word_of_int k :: 32 word) = k - 2 ^ 32"
proof -
  have "sint (word_of_int k :: 32 word) = signed_take_bit 31 k"
    by (simp only: sint_sbintrunc') simp
  also have "\<dots> = take_bit 32 (k + 2 ^ 31) - 2 ^ 31"
    by (simp add: signed_take_bit_eq_take_bit_shift)
  also have "take_bit 32 (k + 2 ^ 31) = (k + 2 ^ 31 - 2 ^ 32) mod 2 ^ 32"
    using mod_add_self2[of "k - 2147483648" 4294967296]
    by (simp add: take_bit_eq_mod add.commute)
  also have "\<dots> = k + 2 ^ 31 - 2 ^ 32"
    using assms by (intro mod_pos_pos_trivial) simp_all
  finally show ?thesis by simp
qed

lemma int_add_sint_word_of_nat:
  "int_add (sint (word_of_nat f :: 32 word)) m = sint (word_of_int (int f + m) :: 32 word)"
proof -
  have "(word_of_int (sint (word_of_nat f :: 32 word) + m) :: 32 word) =
        word_of_int (sint (word_of_nat f :: 32 word)) + word_of_int m"
    by simp
  also have "\<dots> = word_of_nat f + word_of_int m" by simp
  also have "\<dots> = word_of_int (int f + m)" by simp
  finally show ?thesis by (simp only: int_add_def)
qed

lemma to_size_t_nonneg:
  fixes X :: "'s tile_ext"
  assumes "0 \<le> k" "k < 2 ^ 31" "32 \<le> size_t_bits X"
  shows "to_size_t X k = nat k"
proof -
  have "(2::int) ^ 32 \<le> 2 ^ size_t_bits X"
    by (rule power_increasing[OF assms(3)]) simp
  with assms show ?thesis by (simp add: to_size_t_def)
qed

lemma to_size_t_negative:
  fixes X :: "'s tile_ext"
  assumes "- (2 ^ 31) \<le> j" "j < 0" "32 \<le> size_t_bits X"
  shows "int (to_size_t X j) \<ge> 2 ^ 31"
proof -
  have p: "(2::int) ^ 32 \<le> 2 ^ size_t_bits X"
    by (rule power_increasing[OF assms(3)]) simp
  have "j mod 2 ^ size_t_bits X = (j + 2 ^ size_t_bits X) mod 2 ^ size_t_bits X" by simp
  also have "\<dots> = j + 2 ^ size_t_bits X"
    using assms p by (intro mod_pos_pos_trivial) simp_all
  finally have "j mod 2 ^ size_t_bits X = j + 2 ^ size_t_bits X" .
  with assms p show ?thesis by (simp add: to_size_t_def)
qed

lemma read_is_valid_size_field:
  fixes X :: "'s tile_ext"
  assumes tsb: "tsb = 1 \<or> tsb = 2 \<or> tsb = 3 \<or> tsb = 4"
    and d: "d < data_end" "data_end - d < 2 ^ 31"
    and bits: "32 \<le> size_t_bits X"
  shows "read_is_valid X d (to_size_t X tsb) data_end \<longleftrightarrow> tsb \<le> data_end - d"
proof -
  have a: "to_size_t X tsb = nat tsb"
    by (rule to_size_t_nonneg) (use tsb bits in auto)
  have b: "to_size_t X (data_end - d) = nat (data_end - d)"
    by (rule to_size_t_nonneg) (use d bits in auto)
  show ?thesis unfolding read_is_valid_def a b using tsb d by auto
qed

lemma tile_field_too_long:
  fixes X :: "'s tile_ext"
  assumes tsb: "tsb = 1 \<or> tsb = 2 \<or> tsb = 3 \<or> tsb = 4"
    and d: "0 \<le> d" "data_end \<le> int (length payload)" "data_end - d < 2 ^ 31"
    and bits: "32 \<le> size_t_bits X"
    and m: "0 \<le> AV1_MIN_TILE_SIZE_BYTES X"
    and f32: "int (le_value (take (nat tsb) (drop (nat d) payload))) + AV1_MIN_TILE_SIZE_BYTES X
                < 2 ^ 32"
    and fit: "tsb \<le> data_end - d"
    and long: "data_end - (d + tsb) <
                 int (le_value (take (nat tsb) (drop (nat d) payload))) + AV1_MIN_TILE_SIZE_BYTES X"
  shows "\<exists>v. mem_get_varsize payload d tsb = Inr v \<and>
             to_size_t X (data_end - (d + tsb)) <
               to_size_t X (int_add v (AV1_MIN_TILE_SIZE_BYTES X))"
proof -
  let ?f = "le_value (take (nat tsb) (drop (nat d) payload))"
  let ?m = "AV1_MIN_TILE_SIZE_BYTES X"
  let ?k = "int ?f + ?m"
  let ?r = "data_end - (d + tsb)"
  have v: "mem_get_varsize payload d tsb = Inr (sint (word_of_nat ?f :: 32 word))"
    using tsb d fit by (auto simp: mem_get_varsize_def)
  have r: "0 \<le> ?r" "?r < 2 ^ 31" using fit d tsb by auto
  have tr: "to_size_t X ?r = nat ?r" by (rule to_size_t_nonneg) (use r bits in auto)
  have k0: "0 \<le> ?k" using m by simp
  have "int (to_size_t X ?r) < int (to_size_t X (int_add (sint (word_of_nat ?f :: 32 word)) ?m))"
  proof (cases "?k < 2 ^ 31")
    case True
    have "sint (word_of_int ?k :: 32 word) = ?k"
      by (rule sint_word_of_int_32) (use True k0 in auto)
    moreover have "to_size_t X ?k = nat ?k"
      by (rule to_size_t_nonneg) (use True k0 bits in auto)
    ultimately show ?thesis
      unfolding int_add_sint_word_of_nat tr using long r by simp
  next
    case False
    then have s: "sint (word_of_int ?k :: 32 word) = ?k - 2 ^ 32"
      by (intro sint_word_of_int_32_high) (use f32 in auto)
    have "2 ^ 31 \<le> int (to_size_t X (?k - 2 ^ 32))"
      by (rule to_size_t_negative) (use False f32 bits in auto)
    then show ?thesis
      unfolding int_add_sint_word_of_nat s tr using r by simp
  qed
  with v show ?thesis by simp
qed

lemma all_ones_gathered:
  "get_tile_buffers tile_ext_instance (pbi_example\<lparr>tile_size_bytes := 4\<rparr>)
     [255, 255, 255, 255, 170] (tile_cm_example\<lparr>tile_cols := 2\<rparr>) 0 5 tile_buffers_example 0 1 =
   Inr (tile_cm_example\<lparr>tile_cols := 2, largest_tile_size := 1, largest_tile_id := 1\<rparr>,
        tile_buffers_example
          ((0, 0) := \<lparr>buf_data = 4, buf_size = 0, buf_col = 0\<rparr>,
           (0, 1) := \<lparr>buf_data = 4, buf_size = 1, buf_col = 1\<rparr>))"
proof -
  have tl: "tile_list (tile_rows (tile_cm_example\<lparr>tile_cols := 2\<rparr>))
              (tile_cols (tile_cm_example\<lparr>tile_cols := 2\<rparr>)) = [(0, 0, 0), (1, 0, 1)]"
    by code_simp
  have b0: "\<And>b. get_tile_buffer tile_ext_instance [255, 255, 255, 255, 170] 5 4 False 0 b =
            Inr (4, b\<lparr>buf_data := 4, buf_size := 0\<rparr>)"
    by (simp add: get_tile_buffer_def mem_get_varsize_all_ones read_is_valid_def to_size_t_def
          int_add_def tile_ext_instance_def aom_internal_error_def)
  have b1: "\<And>b. get_tile_buffer tile_ext_instance [255, 255, 255, 255, 170] 5 4 True 4 b =
            Inr (5, b\<lparr>buf_data := 4, buf_size := 1\<rparr>)"
    by (simp add: get_tile_buffer_def to_size_t_def tile_ext_instance_def)
  show ?thesis
    unfolding get_tile_buffers_def tl
    by (simp add: Let_def b0 b1 tile_buffers_example_def aom_internal_error_def)
qed

lemma all_ones_rejected_when_loading:
  "decode_tiles tile_ext_instance hdr_env_instance (pbi_example\<lparr>tile_size_bytes := 4\<rparr>)
     [255, 255, 255, 255, 170] (tile_cm_example\<lparr>tile_cols := 2\<rparr>) 0 5 0 1
     tile_buffers_example 0 =
   Inl (Internal_Error AOM_CODEC_CORRUPT_FRAME ''Truncated packet or corrupt tile length'')"
proof -
  have r: "tile_range 0 1 0 2 = [(0, 0), (0, 1)]" by code_simp
  have c: "tile_cols (tile_cm_example\<lparr>tile_cols := 2\<rparr>) = 2"
    "tile_rows (tile_cm_example\<lparr>tile_cols := 2\<rparr>) = 1"
    "large_scale_tile (tile_cm_example\<lparr>tile_cols := 2\<rparr>) = 0"
    "disable_cdf_update (tile_cm_example\<lparr>tile_cols := 2\<rparr>) = 0"
    by code_simp+
  have p: "tile_data_allocated (pbi_example\<lparr>tile_size_bytes := 4\<rparr>) = False"
    "aom_memalign_tile_data tile_ext_instance 2 = True"
    by code_simp+
  show ?thesis
    unfolding decode_tiles_def Let_def c all_ones_gathered
    by (simp add: r p setup_bool_decoder_def read_is_valid_def aom_internal_error_def)
qed

lemma decode_tiles_gathering_error:
  fixes X :: "'s tile_ext" and cm :: "'a tile_cm_scheme"
  assumes ls: "large_scale_tile cm = 0"
    and tl: "tile_list (tile_rows cm) (tile_cols cm) = pre @ (tc, r, c) # post"
    and rng: "startTile \<le> tc" "tc < endTile"
    and pre: "get_tile_buffers_loop X pbi payload data_end startTile endTile pre
                (if startTile = 0 then cm\<lparr>largest_tile_size := 0, largest_tile_id := 0\<rparr> else cm)
                data tbs = Inr (cm1, d, tbs1)"
    and d: "d < data_end"
    and bad: "\<not> read_is_valid X d (to_size_t X (tile_size_bytes pbi)) data_end \<or>
              (\<exists>v. mem_get_varsize payload d (tile_size_bytes pbi) = Inr v \<and>
                   to_size_t X (data_end - (d + tile_size_bytes pbi)) <
                     to_size_t X (int_add v (AV1_MIN_TILE_SIZE_BYTES X)))"
  shows "decode_tiles (X\<lparr>decode_tile := dt\<rparr>) E pbi payload cm data data_end startTile endTile
           tbs s =
         Inl (Internal_Error AOM_CODEC_CORRUPT_FRAME
                (if \<not> read_is_valid X d (to_size_t X (tile_size_bytes pbi)) data_end
                 then ''Truncated packet or corrupt tile length''
                 else ''Truncated packet or corrupt tile size''))"
proof -
  let ?err = "Internal_Error AOM_CODEC_CORRUPT_FRAME
                (if \<not> read_is_valid X d (to_size_t X (tile_size_bytes pbi)) data_end
                 then ''Truncated packet or corrupt tile length''
                 else ''Truncated packet or corrupt tile size'')"
  have "tile_list (tile_rows cm) (tile_cols cm) \<noteq> []" using tl by simp
  then have pos: "0 < tile_rows cm" "0 < tile_cols cm"
    using tile_list_nonempty by blast+
  have "get_tile_buffers_loop X pbi payload data_end startTile endTile
          (tile_list (tile_rows cm) (tile_cols cm))
          (if startTile = 0 then cm\<lparr>largest_tile_size := 0, largest_tile_id := 0\<rparr> else cm)
          data tbs = Inl ?err"
    unfolding tl get_tile_buffers_loop_append pre
    by (simp only: bind_Inr prod.case get_tile_buffers_loop_truncated[OF rng d bad])
  then have g: "get_tile_buffers (X\<lparr>decode_tile := dt\<rparr>) pbi payload cm data data_end tbs
                  startTile endTile = Inl ?err"
    by (simp add: get_tile_buffers_def Let_def get_tile_buffers_loop_decode_tile_irrelevant)
  show ?thesis
    unfolding decode_tiles_def Let_def using ls pos g by simp
qed




subsection \<open>The partition of a block\<close>

text \<open>
  Claim C8. For a block of size at least 8x8, \<open>decode_partition\<close> takes the partition
  from \<open>read_partition\<close> with \<open>has_rows\<close> and \<open>has_cols\<close> telling whether the lower
  and the right half of the block start inside the grid of mode-info units. When
  neither does, the partition is \<^verbatim>\<open>PARTITION_SPLIT\<close> and the state of the tile, its
  reader included, is untouched, whatever \<^verbatim>\<open>aom_read_symbol\<close> and \<^verbatim>\<open>aom_read_cdf\<close>
  are. When only the right half does (\<open>has_cols\<close> alone), one symbol of two values is
  read with \<^verbatim>\<open>aom_read_cdf\<close> from the table that
  \<^verbatim>\<open>partition_gather_vert_alike\<close> gathers from the block's table
  \<open>partition_cdf[ctx]\<close>, and the partition is \<^verbatim>\<open>PARTITION_SPLIT\<close> when it is not 0,
  else \<^verbatim>\<open>PARTITION_HORZ\<close>; when only the lower half does (\<open>has_rows\<close> alone),
  likewise with \<^verbatim>\<open>partition_gather_horz_alike\<close> and \<^verbatim>\<open>PARTITION_VERT\<close>. When both
  do, the partition is the symbol \<^verbatim>\<open>aom_read_symbol\<close> reads with the table
  \<open>partition_cdf[ctx]\<close> and \<open>partition_cdf_length(bsize)\<close> values, \<open>ctx\<close> being
  \<open>partition_plane_context(xd, mi_row, mi_col, bsize)\<close>.
\<close>

theorem read_partition_at_frame_edge:
  fixes X :: "'t block_ext" and cm :: "'a block_cm_scheme"
  assumes "BLOCK_8X8 X \<le> bsize"
  shows "(\<not> has_rows X cm mi_row bsize \<and> \<not> has_cols X cm mi_col bsize \<longrightarrow>
            read_block_partition (X\<lparr>aom_read_symbol := rs, aom_read_cdf := rc\<rparr>) cm mi_row mi_col
              bsize st = (PARTITION_SPLIT X, st)) \<and>
         (\<not> has_rows X cm mi_row bsize \<and> has_cols X cm mi_col bsize \<longrightarrow>
            (\<exists>v st1.
               aom_read_cdf X
                 (partition_gather_vert_alike X
                    (partition_cdf X st (partition_plane_context X st mi_row mi_col bsize)) bsize)
                 2 st = (v, st1) \<and>
               read_block_partition X cm mi_row mi_col bsize st =
                 (if v \<noteq> 0 then PARTITION_SPLIT X else PARTITION_HORZ X, st1))) \<and>
         (has_rows X cm mi_row bsize \<and> \<not> has_cols X cm mi_col bsize \<longrightarrow>
            (\<exists>v st1.
               aom_read_cdf X
                 (partition_gather_horz_alike X
                    (partition_cdf X st (partition_plane_context X st mi_row mi_col bsize)) bsize)
                 2 st = (v, st1) \<and>
               read_block_partition X cm mi_row mi_col bsize st =
                 (if v \<noteq> 0 then PARTITION_SPLIT X else PARTITION_VERT X, st1))) \<and>
         (has_rows X cm mi_row bsize \<and> has_cols X cm mi_col bsize \<longrightarrow>
            read_block_partition X cm mi_row mi_col bsize st =
              aom_read_symbol X (partition_plane_context X st mi_row mi_col bsize)
                (partition_cdf_length X bsize) st)"
proof -
  have hr: "has_rows (X\<lparr>aom_read_symbol := rs, aom_read_cdf := rc\<rparr>) cm mi_row bsize =
            has_rows X cm mi_row bsize"
    by (simp add: has_rows_def)
  have hc: "has_cols (X\<lparr>aom_read_symbol := rs, aom_read_cdf := rc\<rparr>) cm mi_col bsize =
            has_cols X cm mi_col bsize"
    by (simp add: has_cols_def)
  have c1: "\<not> has_rows X cm mi_row bsize \<and> \<not> has_cols X cm mi_col bsize \<longrightarrow>
            read_block_partition (X\<lparr>aom_read_symbol := rs, aom_read_cdf := rc\<rparr>) cm mi_row mi_col
              bsize st = (PARTITION_SPLIT X, st)"
    using assms by (simp add: read_block_partition_def read_partition_def hr hc)
  have c2: "\<not> has_rows X cm mi_row bsize \<and> has_cols X cm mi_col bsize \<longrightarrow>
            (\<exists>v st1.
               aom_read_cdf X
                 (partition_gather_vert_alike X
                    (partition_cdf X st (partition_plane_context X st mi_row mi_col bsize)) bsize)
                 2 st = (v, st1) \<and>
               read_block_partition X cm mi_row mi_col bsize st =
                 (if v \<noteq> 0 then PARTITION_SPLIT X else PARTITION_HORZ X, st1))"
    using assms
    by (cases "aom_read_cdf X
                 (partition_gather_vert_alike X
                    (partition_cdf X st (partition_plane_context X st mi_row mi_col bsize)) bsize)
                 2 st")
       (simp add: read_block_partition_def read_partition_def)
  have c3: "has_rows X cm mi_row bsize \<and> \<not> has_cols X cm mi_col bsize \<longrightarrow>
            (\<exists>v st1.
               aom_read_cdf X
                 (partition_gather_horz_alike X
                    (partition_cdf X st (partition_plane_context X st mi_row mi_col bsize)) bsize)
                 2 st = (v, st1) \<and>
               read_block_partition X cm mi_row mi_col bsize st =
                 (if v \<noteq> 0 then PARTITION_SPLIT X else PARTITION_VERT X, st1))"
    using assms
    by (cases "aom_read_cdf X
                 (partition_gather_horz_alike X
                    (partition_cdf X st (partition_plane_context X st mi_row mi_col bsize)) bsize)
                 2 st")
       (simp add: read_block_partition_def read_partition_def)
  have c4: "has_rows X cm mi_row bsize \<and> has_cols X cm mi_col bsize \<longrightarrow>
            read_block_partition X cm mi_row mi_col bsize st =
              aom_read_symbol X (partition_plane_context X st mi_row mi_col bsize)
                (partition_cdf_length X bsize) st"
    using assms by (simp add: read_block_partition_def read_partition_def)
  from c1 c2 c3 c4 show ?thesis by (intro conjI)
qed

theorem read_partition_at_frame_edge_witness:
  "read_block_partition
     (block_ext_instance\<lparr>aom_read_symbol := (\<lambda>ctx n st. (9, st)),
                         aom_read_cdf := (\<lambda>cdf n st. (1, st))\<rparr>)
     block_cm_example 2 2 6 \<lparr>xd_corrupted = 0, td_rest = [1, 3]\<rparr> =
     (3, \<lparr>xd_corrupted = 0, td_rest = [1, 3]\<rparr>) \<and>
   read_block_partition block_ext_instance block_cm_example 2 0 6
     \<lparr>xd_corrupted = 0, td_rest = [1, 3]\<rparr> = (3, \<lparr>xd_corrupted = 0, td_rest = [3]\<rparr>) \<and>
   read_block_partition block_ext_instance block_cm_example 0 2 6
     \<lparr>xd_corrupted = 0, td_rest = [0, 3]\<rparr> = (2, \<lparr>xd_corrupted = 0, td_rest = [3]\<rparr>) \<and>
   read_block_partition block_ext_instance block_cm_example 0 0 6
     \<lparr>xd_corrupted = 0, td_rest = [1, 3]\<rparr> = (1, \<lparr>xd_corrupted = 0, td_rest = [3]\<rparr>)"
proof -
  let ?X = block_ext_instance and ?cm = block_cm_example
  let ?st = "\<lparr>xd_corrupted = 0, td_rest = [1, 3]\<rparr> :: int list TileData"
  let ?su = "\<lparr>xd_corrupted = 0, td_rest = [0, 3]\<rparr> :: int list TileData"
  have b: "BLOCK_8X8 ?X \<le> 6" by code_simp
  have e22: "\<not> has_rows ?X ?cm 2 6 \<and> \<not> has_cols ?X ?cm 2 6" by code_simp
  have e20: "\<not> has_rows ?X ?cm 2 6 \<and> has_cols ?X ?cm 0 6" by code_simp
  have e02: "has_rows ?X ?cm 0 6 \<and> \<not> has_cols ?X ?cm 2 6" by code_simp
  have e00: "has_rows ?X ?cm 0 6 \<and> has_cols ?X ?cm 0 6" by code_simp
  have k: "PARTITION_SPLIT ?X = 3" "PARTITION_HORZ ?X = 1" "PARTITION_VERT ?X = 2" by code_simp+
  have r20: "aom_read_cdf ?X
               (partition_gather_vert_alike ?X
                  (partition_cdf ?X ?st (partition_plane_context ?X ?st 2 0 6)) 6) 2 ?st =
             (1, \<lparr>xd_corrupted = 0, td_rest = [3]\<rparr>)" by code_simp
  have r02: "aom_read_cdf ?X
               (partition_gather_horz_alike ?X
                  (partition_cdf ?X ?su (partition_plane_context ?X ?su 0 2 6)) 6) 2 ?su =
             (0, \<lparr>xd_corrupted = 0, td_rest = [3]\<rparr>)" by code_simp
  have r00: "aom_read_symbol ?X (partition_plane_context ?X ?st 0 0 6)
               (partition_cdf_length ?X 6) ?st = (1, \<lparr>xd_corrupted = 0, td_rest = [3]\<rparr>)"
    by code_simp
  note t = read_partition_at_frame_edge[OF b, where cm = ?cm]
  have c1: "read_block_partition
              (?X\<lparr>aom_read_symbol := (\<lambda>ctx n st. (9, st)), aom_read_cdf := (\<lambda>cdf n st. (1, st))\<rparr>)
              ?cm 2 2 6 ?st = (3, ?st)"
    using t[where mi_row = 2 and mi_col = 2 and st = ?st and rs = "\<lambda>ctx n st. (9, st)"
              and rc = "\<lambda>cdf n st. (1, st)", THEN conjunct1] e22 k by simp
  have c2: "read_block_partition ?X ?cm 2 0 6 ?st = (3, \<lparr>xd_corrupted = 0, td_rest = [3]\<rparr>)"
    using t[where mi_row = 2 and mi_col = 0 and st = ?st, THEN conjunct2, THEN conjunct1]
      e20 k unfolding r20 by simp
  have c3: "read_block_partition ?X ?cm 0 2 6 ?su = (2, \<lparr>xd_corrupted = 0, td_rest = [3]\<rparr>)"
    using t[where mi_row = 0 and mi_col = 2 and st = ?su, THEN conjunct2, THEN conjunct2,
            THEN conjunct1] e02 k unfolding r02 by simp
  have c4: "read_block_partition ?X ?cm 0 0 6 ?st = (1, \<lparr>xd_corrupted = 0, td_rest = [3]\<rparr>)"
    using t[where mi_row = 0 and mi_col = 0 and st = ?st, THEN conjunct2, THEN conjunct2,
            THEN conjunct2] e00 unfolding r00 by simp
  from c1 c2 c3 c4 show ?thesis by (intro conjI)
qed

lemma decode_block_partition_reader_irrelevant:
  "decode_block (X\<lparr>aom_read_symbol := rs, aom_read_cdf := rc\<rparr>) cm mi_row mi_col p bsize st =
   decode_block X cm mi_row mi_col p bsize st"
proof -
  let ?X = "X\<lparr>aom_read_symbol := rs, aom_read_cdf := rc\<rparr>"
  have a: "\<And>s. read_block_mode_info ?X cm mi_row mi_col p bsize s =
                read_block_mode_info X cm mi_row mi_col p bsize s"
    by (simp add: read_block_mode_info_def)
  have b: "\<And>s. decode_mbmi_block ?X cm mi_row mi_col p bsize s =
                decode_mbmi_block X cm mi_row mi_col p bsize s"
    unfolding decode_mbmi_block_def a by (simp cong: if_cong)
  have c: "\<And>s. decode_token_and_recon_block ?X mi_row mi_col bsize s =
                decode_token_and_recon_block X mi_row mi_col bsize s"
    unfolding decode_token_and_recon_block_def by simp
  show ?thesis unfolding decode_block_def b c by simp
qed

text \<open>
  Claim C10. For a block smaller than 8x8 whose top-left corner is inside the grid,
  \<open>decode_partition\<close> returns (a bound of one call suffices) and reads no partition
  symbol: the partition is \<^verbatim>\<open>PARTITION_NONE\<close> with the state untouched, and the result
  is the same whatever \<^verbatim>\<open>aom_read_symbol\<close> and \<^verbatim>\<open>aom_read_cdf\<close> are. After the
  restoration coefficients of lines 715-729 and the conformance check of lines
  732-740 (\<^verbatim>\<open>AOM_CODEC_CORRUPT_FRAME\<close> when the block size has no chroma block size)
  the block is decoded by one call of \<open>decode_block\<close>, at \<open>(mi_row, mi_col)\<close> with
  \<^verbatim>\<open>PARTITION_NONE\<close> and the size \<open>subsize_lookup[PARTITION_NONE][bsize]\<close>, followed
  by \<^verbatim>\<open>update_ext_partition_context\<close>.
\<close>

theorem decode_partition_below_8x8:
  fixes X :: "'t block_ext" and cm :: "'a block_cm_scheme"
  assumes small: "bsize < BLOCK_8X8 X"
    and grid: "mi_row < mi_rows cm" "mi_col < mi_cols cm"
  shows "read_block_partition (X\<lparr>aom_read_symbol := rs, aom_read_cdf := rc\<rparr>) cm mi_row mi_col
           bsize st1 = (PARTITION_NONE X, st1) \<and>
         decode_partition (X\<lparr>aom_read_symbol := rs, aom_read_cdf := rc\<rparr>) cm (Suc fuel) mi_row
           mi_col bsize st =
         Some (let st1 = loop_restoration_read X mi_row mi_col bsize st;
                   subsize = subsize_lookup X (PARTITION_NONE X) bsize in
               if get_plane_block_size_u X subsize st1 = BLOCK_INVALID X
               then Inl (Internal_Error AOM_CODEC_CORRUPT_FRAME
                           ''Block size %dx%d invalid with this subsampling mode'')
               else bind (decode_block X cm mi_row mi_col (PARTITION_NONE X) subsize st1)
                      (\<lambda>st2. Inr (update_ext_partition_context X mi_row mi_col subsize bsize
                                     (PARTITION_NONE X) st2)))"
proof -
  let ?X = "X\<lparr>aom_read_symbol := rs, aom_read_cdf := rc\<rparr>"
  have p: "\<And>s. read_block_partition ?X cm mi_row mi_col bsize s = (PARTITION_NONE X, s)"
    using small by (simp add: read_block_partition_def)
  have blocks: "\<And>s. decode_partition_blocks ?X cm mi_row mi_col bsize (PARTITION_NONE X)
                       (subsize_lookup X (PARTITION_NONE X) bsize) s =
                     decode_block X cm mi_row mi_col (PARTITION_NONE X)
                       (subsize_lookup X (PARTITION_NONE X) bsize) s"
    by (simp add: decode_partition_blocks_def Let_def decode_block_partition_reader_irrelevant)
  have "decode_partition ?X cm (Suc fuel) mi_row mi_col bsize st =
        Some (let st1 = loop_restoration_read X mi_row mi_col bsize st;
                  subsize = subsize_lookup X (PARTITION_NONE X) bsize in
              if get_plane_block_size_u X subsize st1 = BLOCK_INVALID X
              then Inl (Internal_Error AOM_CODEC_CORRUPT_FRAME
                          ''Block size %dx%d invalid with this subsampling mode'')
              else bind (decode_block X cm mi_row mi_col (PARTITION_NONE X) subsize st1)
                     (\<lambda>st2. Inr (update_ext_partition_context X mi_row mi_col subsize bsize
                                    (PARTITION_NONE X) st2)))"
    using grid
    by (cases "decode_block X cm mi_row mi_col (PARTITION_NONE X)
                 (subsize_lookup X (PARTITION_NONE X) bsize)
                 (loop_restoration_read X mi_row mi_col bsize st)")
       (simp_all add: p blocks Let_def aom_internal_error_def bind_fuel_def)
  with p show ?thesis by simp
qed

theorem decode_partition_below_8x8_witness:
  "read_block_partition
     (block_ext_instance\<lparr>aom_read_symbol := (\<lambda>ctx n st. (9, st\<lparr>xd_corrupted := 1\<rparr>)),
                         aom_read_cdf := (\<lambda>cdf n st. (1, st\<lparr>xd_corrupted := 1\<rparr>))\<rparr>)
     block_cm_example 0 0 0 \<lparr>xd_corrupted = 0, td_rest = [5, 3]\<rparr> =
     (0, \<lparr>xd_corrupted = 0, td_rest = [5, 3]\<rparr>) \<and>
   decode_partition
     (block_ext_instance\<lparr>aom_read_symbol := (\<lambda>ctx n st. (9, st\<lparr>xd_corrupted := 1\<rparr>)),
                         aom_read_cdf := (\<lambda>cdf n st. (1, st\<lparr>xd_corrupted := 1\<rparr>))\<rparr>)
     block_cm_example (Suc 0) 0 0 0 \<lparr>xd_corrupted = 0, td_rest = [5, 3]\<rparr> =
     Some (Inr \<lparr>xd_corrupted = 0, td_rest = [3]\<rparr>)"
proof -
  let ?X = block_ext_instance and ?cm = block_cm_example
  let ?st = "\<lparr>xd_corrupted = 0, td_rest = [5, 3]\<rparr> :: int list TileData"
  have h: "0 < BLOCK_8X8 ?X" "0 < mi_rows ?cm" "0 < mi_cols ?cm" by code_simp+
  have k: "PARTITION_NONE ?X = 0" by code_simp
  have rhs: "(let st1 = loop_restoration_read ?X 0 0 0 ?st;
                  subsize = subsize_lookup ?X (PARTITION_NONE ?X) 0 in
              if get_plane_block_size_u ?X subsize st1 = BLOCK_INVALID ?X
              then Inl (Internal_Error AOM_CODEC_CORRUPT_FRAME
                          ''Block size %dx%d invalid with this subsampling mode'')
              else bind (decode_block ?X ?cm 0 0 (PARTITION_NONE ?X) subsize st1)
                     (\<lambda>st2. Inr (update_ext_partition_context ?X 0 0 subsize 0
                                    (PARTITION_NONE ?X) st2))) =
             Inr \<lparr>xd_corrupted = 0, td_rest = [3]\<rparr>"
    by code_simp
  note t = decode_partition_below_8x8[OF h, where fuel = 0 and st = ?st and ?st1.0 = ?st
      and rs = "\<lambda>ctx n st. (9, st\<lparr>xd_corrupted := 1\<rparr>)"
      and rc = "\<lambda>cdf n st. (1, st\<lparr>xd_corrupted := 1\<rparr>)"]
  from t[THEN conjunct1] k have a: "read_block_partition
     (?X\<lparr>aom_read_symbol := (\<lambda>ctx n st. (9, st\<lparr>xd_corrupted := 1\<rparr>)),
          aom_read_cdf := (\<lambda>cdf n st. (1, st\<lparr>xd_corrupted := 1\<rparr>))\<rparr>)
     ?cm 0 0 0 ?st = (0, ?st)"
    by simp
  from t[THEN conjunct2] have b: "decode_partition
     (?X\<lparr>aom_read_symbol := (\<lambda>ctx n st. (9, st\<lparr>xd_corrupted := 1\<rparr>)),
          aom_read_cdf := (\<lambda>cdf n st. (1, st\<lparr>xd_corrupted := 1\<rparr>))\<rparr>)
     ?cm (Suc 0) 0 0 0 ?st = Some (Inr \<lparr>xd_corrupted = 0, td_rest = [3]\<rparr>)"
    by (simp only: rhs)
  from a b show ?thesis by (rule conjI)
qed

subsection \<open>The corrupted flag of a tile\<close>

text \<open>
  In decodeframe.c the flag \<open>xd.corrupted\<close> of a tile is written by the merges of
  lines 334 and 519 and cleared at line 1940, where \<open>decode_tiles\<close> loads the tile.
  The lemmas follow a flag that is set through \<open>decode_block\<close>, the cases of
  \<open>decode_partition\<close> and the loop of \<open>decode_tile_sb_row\<close>, for collaborators that
  do not clear it, and bound the calls and iterations the row needs.
\<close>

lemma aom_merge_corrupted_flag_eq_0:
  "aom_merge_corrupted_flag c n = 0 \<longleftrightarrow> c = 0 \<and> n = 0"
  by (simp add: aom_merge_corrupted_flag_def or_eq_0_iff)

lemma bind_fuel_simps [simp]:
  "bind_fuel None f = None"
  "bind_fuel (Some (Inl e)) f = Some (Inl e)"
  "bind_fuel (Some (Inr x)) f = f x"
  by (simp_all add: bind_fuel_def)

lemma bind_fuel_eq_Some_Inr:
  "bind_fuel m f = Some (Inr y) \<longleftrightarrow> (\<exists>x. m = Some (Inr x) \<and> f x = Some (Inr y))"
  by (cases m) (auto simp: bind_fuel_def split: sum.splits)

lemma bind_fuel_not_None:
  "m \<noteq> None \<Longrightarrow> (\<And>x. m = Some (Inr x) \<Longrightarrow> f x \<noteq> None) \<Longrightarrow> bind_fuel m f \<noteq> None"
  by (cases m) (auto simp: bind_fuel_def split: sum.splits)

lemma read_block_mode_info_keeps:
  assumes "block_ext_sticky X" "xd_corrupted st \<noteq> 0"
  shows "xd_corrupted (read_block_mode_info X cm mi_row mi_col p bsize st) \<noteq> 0"
  using assms
  by (simp add: read_block_mode_info_def Let_def block_ext_sticky_def keeps_corrupted_def)

lemma decode_mbmi_block_flag:
  assumes "decode_mbmi_block X cm mi_row mi_col p bsize st = Inr st1"
  shows "xd_corrupted st1 =
           aom_merge_corrupted_flag
             (xd_corrupted (read_block_mode_info X cm mi_row mi_col p bsize st))
             (aom_reader_has_error X (read_block_mode_info X cm mi_row mi_col p bsize st))"
  using assms
  by (auto simp: decode_mbmi_block_def Let_def aom_internal_error_def split: if_splits)

lemma decode_mbmi_block_keeps:
  assumes "block_ext_sticky X" "decode_mbmi_block X cm mi_row mi_col p bsize st = Inr st1"
    "xd_corrupted st \<noteq> 0"
  shows "xd_corrupted st1 \<noteq> 0"
  using decode_mbmi_block_flag[OF assms(2)]
    read_block_mode_info_keeps[OF assms(1,3), where cm = cm and mi_row = mi_row
      and mi_col = mi_col and p = p and bsize = bsize]
  by (simp add: aom_merge_corrupted_flag_eq_0)

lemma decode_token_and_recon_block_flag:
  assumes "decode_token_and_recon_block X mi_row mi_col bsize st = Inr st1"
  shows "\<exists>st2. token_and_recon X mi_row mi_col bsize st = Inr st2 \<and>
           xd_corrupted st1 =
             aom_merge_corrupted_flag (xd_corrupted st2) (aom_reader_has_error X st2)"
  using assms
  by (cases "token_and_recon X mi_row mi_col bsize st")
     (auto simp: decode_token_and_recon_block_def Let_def)

lemma decode_token_and_recon_block_keeps:
  assumes "block_ext_sticky X" "decode_token_and_recon_block X mi_row mi_col bsize st = Inr st1"
    "xd_corrupted st \<noteq> 0"
  shows "xd_corrupted st1 \<noteq> 0"
proof -
  from decode_token_and_recon_block_flag[OF assms(2)] obtain st2 where
    t: "token_and_recon X mi_row mi_col bsize st = Inr st2" and
    f: "xd_corrupted st1 =
          aom_merge_corrupted_flag (xd_corrupted st2) (aom_reader_has_error X st2)"
    by blast
  from assms(1) t assms(3) have "xd_corrupted st2 \<noteq> 0"
    unfolding block_ext_sticky_def by blast
  with f show ?thesis by (simp add: aom_merge_corrupted_flag_eq_0)
qed

lemma decode_block_keeps:
  assumes s: "block_ext_sticky X" and r: "decode_block X cm mi_row mi_col p bsize st = Inr st1"
    and c: "xd_corrupted st \<noteq> 0"
  shows "xd_corrupted st1 \<noteq> 0"
proof -
  from r obtain st2 where
    a: "decode_mbmi_block X cm mi_row mi_col p bsize st = Inr st2" and
    b: "decode_token_and_recon_block X mi_row mi_col bsize
          (read_palette_and_tx_size X bsize st2) = Inr st1"
    by (cases "decode_mbmi_block X cm mi_row mi_col p bsize st")
       (auto simp: decode_block_def)
  from decode_mbmi_block_keeps[OF s a c] have "xd_corrupted st2 \<noteq> 0" .
  with s have "xd_corrupted (read_palette_and_tx_size X bsize st2) \<noteq> 0"
    by (simp add: block_ext_sticky_def keeps_corrupted_def)
  from decode_token_and_recon_block_keeps[OF s b this] show ?thesis .
qed

lemma bind_decode_block_keeps:
  assumes s: "block_ext_sticky X"
    and r: "bind (decode_block X cm mi_row mi_col p bsize st) f = Inr st1"
    and c: "xd_corrupted st \<noteq> 0"
    and f: "\<And>s1. xd_corrupted s1 \<noteq> 0 \<Longrightarrow> f s1 = Inr st1 \<Longrightarrow> xd_corrupted st1 \<noteq> 0"
  shows "xd_corrupted st1 \<noteq> 0"
proof -
  from r obtain s1 where a: "decode_block X cm mi_row mi_col p bsize st = Inr s1"
    and b: "f s1 = Inr st1"
    by (cases "decode_block X cm mi_row mi_col p bsize st") auto
  from decode_block_keeps[OF s a c] b f show ?thesis by blast
qed

lemma decode_horz_4_keeps:
  assumes s: "block_ext_sticky X"
  shows "decode_horz_4 X cm mi_row mi_col q p subsize i k st = Inr st1 \<Longrightarrow>
         xd_corrupted st \<noteq> 0 \<Longrightarrow> xd_corrupted st1 \<noteq> 0"
proof (induction k arbitrary: i st)
  case 0
  then show ?case by simp
next
  case (Suc k)
  show ?case
  proof (cases "i > 0 \<and> mi_row + i * q \<ge> mi_rows cm")
    case True
    with Suc.prems show ?thesis by (simp add: Let_def)
  next
    case False
    with Suc.prems(1) have
      "bind (decode_block X cm (mi_row + i * q) mi_col p subsize st)
         (decode_horz_4 X cm mi_row mi_col q p subsize (i + 1) k) = Inr st1"
      by (simp add: Let_def)
    from bind_decode_block_keeps[OF s this Suc.prems(2)] Suc.IH show ?thesis by blast
  qed
qed

lemma decode_vert_4_keeps:
  assumes s: "block_ext_sticky X"
  shows "decode_vert_4 X cm mi_row mi_col q p subsize i k st = Inr st1 \<Longrightarrow>
         xd_corrupted st \<noteq> 0 \<Longrightarrow> xd_corrupted st1 \<noteq> 0"
proof (induction k arbitrary: i st)
  case 0
  then show ?case by simp
next
  case (Suc k)
  show ?case
  proof (cases "i > 0 \<and> mi_col + i * q \<ge> mi_cols cm")
    case True
    with Suc.prems show ?thesis by (simp add: Let_def)
  next
    case False
    with Suc.prems(1) have
      "bind (decode_block X cm mi_row (mi_col + i * q) p subsize st)
         (decode_vert_4 X cm mi_row mi_col q p subsize (i + 1) k) = Inr st1"
      by (simp add: Let_def)
    from bind_decode_block_keeps[OF s this Suc.prems(2)] Suc.IH show ?thesis by blast
  qed
qed


lemma decode_partition_blocks_keeps:
  assumes s: "block_ext_sticky X"
    and r: "decode_partition_blocks X cm mi_row mi_col bsize p subsize st = Inr st1"
    and c: "xd_corrupted st \<noteq> 0"
  shows "xd_corrupted st1 \<noteq> 0"
proof -
  note db = decode_block_keeps[OF s]
  note h4 = decode_horz_4_keeps[OF s]
  note v4 = decode_vert_4_keeps[OF s]
  from r c show ?thesis
    unfolding decode_partition_blocks_def Let_def
    by (auto simp: bind_eq_Inr_iff split: if_splits dest: db h4 v4)
qed

lemma read_block_partition_keeps:
  assumes s: "block_ext_sticky X"
    and r: "read_block_partition X cm mi_row mi_col bsize st = (p, st1)"
    and c: "xd_corrupted st \<noteq> 0"
  shows "xd_corrupted st1 \<noteq> 0"
proof -
  have sym: "\<And>ctx n v s'. aom_read_symbol X ctx n st = (v, s') \<Longrightarrow> xd_corrupted s' \<noteq> 0"
  proof -
    fix ctx n v s'
    assume a: "aom_read_symbol X ctx n st = (v, s')"
    from s c have "xd_corrupted (snd (aom_read_symbol X ctx n st)) \<noteq> 0"
      by (simp add: block_ext_sticky_def keeps_corrupted_def)
    with a show "xd_corrupted s' \<noteq> 0" by simp
  qed
  have cdf: "\<And>t n v s'. aom_read_cdf X t n st = (v, s') \<Longrightarrow> xd_corrupted s' \<noteq> 0"
  proof -
    fix t n v s'
    assume a: "aom_read_cdf X t n st = (v, s')"
    from s c have "xd_corrupted (snd (aom_read_cdf X t n st)) \<noteq> 0"
      by (simp add: block_ext_sticky_def keeps_corrupted_def)
    with a show "xd_corrupted s' \<noteq> 0" by simp
  qed
  from r c show ?thesis
    unfolding read_block_partition_def read_partition_def Let_def
    by (auto split: if_splits prod.splits dest: sym cdf)
qed


lemma decode_partition_keeps:
  assumes s: "block_ext_sticky X"
  shows "decode_partition X cm fuel mi_row mi_col bsize st = Some (Inr st1) \<Longrightarrow>
         xd_corrupted st \<noteq> 0 \<Longrightarrow> xd_corrupted st1 \<noteq> 0"
proof (induction fuel arbitrary: mi_row mi_col bsize st st1)
  case 0
  then show ?case by simp
next
  case (Suc fuel)
  let ?hbs = "shr (mi_size_wide X bsize) 1"
  show ?case
  proof (cases "mi_row \<ge> mi_rows cm \<or> mi_col \<ge> mi_cols cm")
    case True
    with Suc.prems show ?thesis by (simp add: Let_def)
  next
    case False
    obtain p s1 where rp: "read_block_partition X cm mi_row mi_col bsize
                             (loop_restoration_read X mi_row mi_col bsize st) = (p, s1)"
      by (cases "read_block_partition X cm mi_row mi_col bsize
                   (loop_restoration_read X mi_row mi_col bsize st)")
    from s Suc.prems(2) have "xd_corrupted (loop_restoration_read X mi_row mi_col bsize st) \<noteq> 0"
      by (simp add: block_ext_sticky_def keeps_corrupted_def)
    from read_block_partition_keeps[OF s rp this] have c1: "xd_corrupted s1 \<noteq> 0" .
    let ?sub = "subsize_lookup X p bsize"
    let ?split = "p = PARTITION_SPLIT X \<and> p \<noteq> PARTITION_NONE X \<and> p \<noteq> PARTITION_HORZ X \<and>
                  p \<noteq> PARTITION_VERT X"
    let ?branch = "if ?split
             then
               bind_fuel (decode_partition X cm fuel mi_row mi_col ?sub s1) (\<lambda>st2.
               bind_fuel (decode_partition X cm fuel mi_row (mi_col + ?hbs) ?sub st2) (\<lambda>st3.
               bind_fuel (decode_partition X cm fuel (mi_row + ?hbs) mi_col ?sub st3) (\<lambda>st4.
                 decode_partition X cm fuel (mi_row + ?hbs) (mi_col + ?hbs) ?sub st4)))
             else Some (decode_partition_blocks X cm mi_row mi_col bsize p ?sub s1)"
    from Suc.prems(1) False rp have
      valid: "get_plane_block_size_u X ?sub s1 \<noteq> BLOCK_INVALID X" and
      res: "bind_fuel ?branch
              (\<lambda>st5. Some (Inr (update_ext_partition_context X mi_row mi_col ?sub bsize p st5))) =
            Some (Inr st1)"
      by (auto simp: Let_def aom_internal_error_def split: if_splits)
    from res obtain st5 where b: "?branch = Some (Inr st5)"
      and u: "st1 = update_ext_partition_context X mi_row mi_col ?sub bsize p st5"
      by (auto simp: bind_fuel_eq_Some_Inr)
    have c5: "xd_corrupted st5 \<noteq> 0"
    proof (cases ?split)
      case True
      with b obtain st2 st3 st4 where
        d1: "decode_partition X cm fuel mi_row mi_col ?sub s1 = Some (Inr st2)" and
        d2: "decode_partition X cm fuel mi_row (mi_col + ?hbs) ?sub st2 = Some (Inr st3)" and
        d3: "decode_partition X cm fuel (mi_row + ?hbs) mi_col ?sub st3 = Some (Inr st4)" and
        d4: "decode_partition X cm fuel (mi_row + ?hbs) (mi_col + ?hbs) ?sub st4 = Some (Inr st5)"
        by (auto simp: bind_fuel_eq_Some_Inr)
      from Suc.IH[OF d1 c1] have "xd_corrupted st2 \<noteq> 0" .
      from Suc.IH[OF d2 this] have "xd_corrupted st3 \<noteq> 0" .
      from Suc.IH[OF d3 this] have "xd_corrupted st4 \<noteq> 0" .
      from Suc.IH[OF d4 this] show ?thesis .
    next
      case False
      with b have "decode_partition_blocks X cm mi_row mi_col bsize p ?sub s1 = Inr st5"
        by simp
      from decode_partition_blocks_keeps[OF s this c1] show ?thesis .
    qed
    with s u show ?thesis by (simp add: block_ext_sticky_def keeps_corrupted_def)
  qed
qed

lemma decode_sb_cols_keeps:
  assumes s: "block_ext_sticky X"
  shows "decode_sb_cols X cm fuel mi_row mi_col mi_col_end st = Some (Inr st1) \<Longrightarrow>
         xd_corrupted st \<noteq> 0 \<Longrightarrow> xd_corrupted st1 \<noteq> 0"
proof (induction fuel arbitrary: mi_col st)
  case 0
  then show ?case by simp
next
  case (Suc fuel)
  show ?case
  proof (cases "mi_col < mi_col_end")
    case False
    with Suc.prems show ?thesis by simp
  next
    case True
    with Suc.prems(1) obtain s1 where
      d: "decode_partition X cm fuel mi_row mi_col (sb_size cm) st = Some (Inr s1)" and
      l: "decode_sb_cols X cm fuel mi_row (mi_col + mib_size cm) mi_col_end s1 = Some (Inr st1)"
      by (auto simp: bind_fuel_eq_Some_Inr)
    from decode_partition_keeps[OF s d Suc.prems(2)] have "xd_corrupted s1 \<noteq> 0" .
    from Suc.IH[OF l this] show ?thesis .
  qed
qed

lemma decode_partition_total:
  assumes rank: "\<forall>b. BLOCK_8X8 X \<le> b \<longrightarrow>
                   rank (subsize_lookup X (PARTITION_SPLIT X) b) < (rank b :: nat)"
  shows "rank bsize < fuel \<Longrightarrow> decode_partition X cm fuel mi_row mi_col bsize st \<noteq> None"
proof (induction fuel arbitrary: mi_row mi_col bsize st)
  case 0
  then show ?case by simp
next
  case (Suc fuel)
  let ?hbs = "shr (mi_size_wide X bsize) 1"
  show ?case
  proof (cases "mi_row \<ge> mi_rows cm \<or> mi_col \<ge> mi_cols cm")
    case True
    then show ?thesis by (simp add: Let_def)
  next
    case False
    obtain p s1 where rp: "read_block_partition X cm mi_row mi_col bsize
                             (loop_restoration_read X mi_row mi_col bsize st) = (p, s1)"
      by (cases "read_block_partition X cm mi_row mi_col bsize
                   (loop_restoration_read X mi_row mi_col bsize st)")
    let ?sub = "subsize_lookup X p bsize"
    let ?split = "p = PARTITION_SPLIT X \<and> p \<noteq> PARTITION_NONE X \<and> p \<noteq> PARTITION_HORZ X \<and>
                  p \<noteq> PARTITION_VERT X"
    let ?branch = "if ?split
             then
               bind_fuel (decode_partition X cm fuel mi_row mi_col ?sub s1) (\<lambda>st2.
               bind_fuel (decode_partition X cm fuel mi_row (mi_col + ?hbs) ?sub st2) (\<lambda>st3.
               bind_fuel (decode_partition X cm fuel (mi_row + ?hbs) mi_col ?sub st3) (\<lambda>st4.
                 decode_partition X cm fuel (mi_row + ?hbs) (mi_col + ?hbs) ?sub st4)))
             else Some (decode_partition_blocks X cm mi_row mi_col bsize p ?sub s1)"
    have br: "?branch \<noteq> None"
    proof (cases ?split)
      case True
      have big: "BLOCK_8X8 X \<le> bsize"
      proof (rule ccontr)
        assume "\<not> BLOCK_8X8 X \<le> bsize"
        with rp have "p = PARTITION_NONE X" by (simp add: read_block_partition_def)
        with True show False by simp
      qed
      with rank True have "rank ?sub < rank bsize" by simp
      with Suc.prems have lt: "rank ?sub < fuel" by simp
      note ih = Suc.IH[OF lt]
      have "bind_fuel (decode_partition X cm fuel mi_row mi_col ?sub s1) (\<lambda>st2.
               bind_fuel (decode_partition X cm fuel mi_row (mi_col + ?hbs) ?sub st2) (\<lambda>st3.
               bind_fuel (decode_partition X cm fuel (mi_row + ?hbs) mi_col ?sub st3) (\<lambda>st4.
                 decode_partition X cm fuel (mi_row + ?hbs) (mi_col + ?hbs) ?sub st4))) \<noteq> None"
        by (intro bind_fuel_not_None ih)
      with True show ?thesis by simp
    next
      case False
      then have "?branch = Some (decode_partition_blocks X cm mi_row mi_col bsize p ?sub s1)"
        by (rule if_not_P)
      then show ?thesis by (simp only: option.distinct not_False_eq_True)
    qed
    have bf: "bind_fuel ?branch
            (\<lambda>st5. Some (Inr (update_ext_partition_context X mi_row mi_col ?sub bsize p st5)))
          \<noteq> None"
      by (rule bind_fuel_not_None[OF br]) simp
    have eq: "decode_partition X cm (Suc fuel) mi_row mi_col bsize st =
          (if get_plane_block_size_u X ?sub s1 = BLOCK_INVALID X
           then Some (aom_internal_error AOM_CODEC_CORRUPT_FRAME
                        ''Block size %dx%d invalid with this subsampling mode'')
           else bind_fuel ?branch
                  (\<lambda>st5. Some (Inr (update_ext_partition_context X mi_row mi_col ?sub bsize p
                                        st5))))"
      using False rp by (simp add: Let_def)
    show ?thesis
    proof (cases "get_plane_block_size_u X ?sub s1 = BLOCK_INVALID X")
      case True
      then show ?thesis unfolding eq by simp
    next
      case False
      then show ?thesis unfolding eq using bf by simp
    qed
  qed
qed

lemma decode_sb_cols_total:
  assumes rank: "\<forall>b. BLOCK_8X8 X \<le> b \<longrightarrow>
                   rank (subsize_lookup X (PARTITION_SPLIT X) b) < (rank b :: nat)"
    and mib: "0 < mib_size cm"
  shows "rank (sb_size cm) + nat (mi_col_end - mi_col) + 1 < fuel \<Longrightarrow>
         decode_sb_cols X cm fuel mi_row mi_col mi_col_end st \<noteq> None"
proof (induction fuel arbitrary: mi_col st)
  case 0
  then show ?case by simp
next
  case (Suc fuel)
  show ?case
  proof (cases "mi_col < mi_col_end")
    case False
    then show ?thesis by simp
  next
    case True
    from Suc.prems have "rank (sb_size cm) < fuel" by simp
    from decode_partition_total[OF rank this]
    have p: "decode_partition X cm fuel mi_row mi_col (sb_size cm) st \<noteq> None" .
    from True mib have "nat (mi_col_end - (mi_col + mib_size cm)) < nat (mi_col_end - mi_col)"
      by simp
    with Suc.prems have "rank (sb_size cm) + nat (mi_col_end - (mi_col + mib_size cm)) + 1 < fuel"
      by linarith
    from Suc.IH[OF this] have
      "\<And>s1. decode_sb_cols X cm fuel mi_row (mi_col + mib_size cm) mi_col_end s1 \<noteq> None" .
    with p True show ?thesis by (simp add: bind_fuel_not_None)
  qed
qed

lemma block_ext_instance_sticky: "block_ext_sticky block_ext_instance"
  by (simp add: block_ext_sticky_def keeps_corrupted_def block_ext_instance_def
        read_next_symbol_def split: list.splits)



end
